theory Spec2Isabelle
  imports Main "HOL-Library.AList"
begin

section \<open>Exceptions, values, events\<close>

text \<open>
  Every Python function of the tool orchestration layer is embedded as a HOL function that
  returns \<open>error + 'a\<close>: \<open>Inl e\<close> is "raises \<open>e\<close>", \<open>Inr v\<close> is "returns \<open>v\<close>". Only
  subclasses of \<open>Exception\<close> are modelled (they are what \<open>except Exception\<close> catches).
  Mutated objects are passed in and returned; what a function does to the outside world
  (entering and leaving contexts, requests on the wire, tool invocations, console output,
  logging) is returned as a list of events in the order in which it happens. Of the logging
  calls the ones at error and warning level of the servers' and studios' lifecycle are
  recorded; the others decide nothing, except through the values their f-strings compute
  (\<open>len\<close>), which are modelled where they stand.
\<close>

datatype error =
    ValidationError "string list"
  | ValueError string
  | RuntimeError string
  | AttributeError string
  | TypeError string
  | ClientError string
  | OtherError string

text \<open>
  \<open>str(e)\<close>. A \<open>ValidationError\<close> of pydantic carries the names of the fields that are
  missing or hold a value of another type; its text lists them.
\<close>

fun str_of :: "error \<Rightarrow> string" where
  "str_of (ValidationError fs) = ''validation error for:'' @ concat (map (\<lambda>f. '' '' @ f) fs)"
| "str_of (ValueError m) = m"
| "str_of (RuntimeError m) = m"
| "str_of (AttributeError m) = m"
| "str_of (TypeError m) = m"
| "str_of (ClientError m) = m"
| "str_of (OtherError m) = m"

text \<open>Python values as far as the layer looks into them (parsed JSON, tool arguments).\<close>

datatype pyval =
    PNone
  | PBool bool
  | PInt int
  | PStr string
  | PList "pyval list"
  | PDict "(string \<times> pyval) list"

datatype resource = StdioClient string | ClientSession string | AiohttpSession string

text \<open>
  A tool object. \<open>name_attr\<close> and the other \<open>_attr\<close> fields are \<open>None\<close> when the object has
  no such attribute, \<open>str_repr\<close> is \<open>str(tool)\<close>, the flags are the \<open>hasattr\<close> and
  \<open>callable\<close> tests of the dispatcher. \<open>obj\<close> is the identity of the object: \<open>Given k\<close> for
  an object handed in from outside (an adapter's tool, a local tool), \<open>HttpMCPTool i v\<close> for
  the wrapper that \<open>_create_http_tool\<close> builds for the \<open>i\<close>-th server of the network
  studio around the name \<open>v\<close> that the server's listing gave. The \<open>name\<close> attribute is any
  value (a wrapper takes it from the wire as it comes); the other attributes a tool object
  has are of the types that \<open>ToolInfo\<close> declares for them. Tool objects are truthy.
\<close>

datatype tool_ref = Given nat | HttpMCPTool nat pyval

record tool =
  obj :: tool_ref
  name_attr :: "pyval option"
  str_repr :: string
  description_attr :: "string option"
  parameters_attr :: "(string \<times> pyval) list option"
  args_schema_attr :: "(string \<times> pyval) list option"
  has_invoke :: bool
  has_ainvoke :: bool
  has_run :: bool
  has_arun :: bool
  is_callable :: bool
  has_await :: bool

datatype call_method = Ainvoke | Invoke | Arun | Run | AwaitCall | Call

text \<open>
  A request as the client issues it: the method, the target (\<open>UrlJoin b e\<close> stands for
  \<open>urljoin(b, e)\<close>, \<open>BaseUrl b\<close> for the base URL itself), the \<open>headers=\<close> argument of the
  call and the \<open>json=\<close> body. A response: the status, the headers, what \<open>response.json()\<close>
  and \<open>response.text()\<close> give (either may raise).
\<close>

datatype url = UrlJoin string string | BaseUrl string

datatype http_method = GET | POST

record http_request =
  rq_method :: http_method
  rq_url :: url
  rq_headers :: "(string \<times> string) list"
  rq_json :: "pyval option"

record http_response =
  rs_status :: nat
  rs_headers :: "(string \<times> string) list"
  rs_json :: "error + pyval"
  rs_text :: "error + string"

datatype log_level = INFO | WARNING | ERROR

datatype event =
    Logged log_level string
  | InitializeCalled string
  | CleanupCalled string
  | Entered resource
  | Released resource
  | Sent http_request
  | Invoked tool call_method "(string \<times> pyval) list"
  | ApprovalRequested string "(string \<times> pyval) list"
  | Prompted

text \<open>The apostrophe of the f-strings.\<close>

definition apo :: string where
  "apo = [CHR 0x27]"

section \<open>Connection descriptors\<close>

text \<open>
  The parsed configuration mapping of one server, as handed to \<open>ServerConfig(**config)\<close>
  and \<open>HttpServerConfig(**config)\<close>. \<open>None\<close> is an absent key; a present key holds a value
  of the declared type.
\<close>

record config_dict =
  cd_transport :: "string option"
  cd_command :: "string option"
  cd_args :: "string list option"
  cd_env :: "(string \<times> string) list option"
  cd_url :: "string option"
  cd_headers :: "(string \<times> string) list option"
  cd_timeout :: "int option"
  cd_ssl_verify :: "bool option"

record ServerConfig =
  sc_transport :: string
  sc_command :: "string option"
  sc_args :: "string list option"
  sc_env :: "(string \<times> string) list option"
  sc_url :: "string option"

text \<open>\<open>ServerConfig(**config)\<close>: \<open>transport\<close> defaults to stdio, every other field to \<open>None\<close>.\<close>

definition ServerConfig_validate :: "config_dict \<Rightarrow> error + ServerConfig" where
  "ServerConfig_validate c =
     Inr \<lparr> sc_transport = (case cd_transport c of None \<Rightarrow> ''stdio'' | Some t \<Rightarrow> t),
           sc_command = cd_command c,
           sc_args = cd_args c,
           sc_env = cd_env c,
           sc_url = cd_url c \<rparr>"

record HttpServerConfig =
  hc_transport :: string
  hc_url :: string
  hc_headers :: "(string \<times> string) list option"
  hc_timeout :: "int option"
  hc_ssl_verify :: "bool option"

text \<open>
  \<open>HttpServerConfig(**config)\<close>: \<open>transport\<close> and \<open>url\<close> are required (\<open>Field(...)\<close>),
  \<open>timeout\<close> defaults to 30 and \<open>ssl_verify\<close> to \<open>True\<close>.
\<close>

definition missing_http_fields :: "config_dict \<Rightarrow> string list" where
  "missing_http_fields c =
     (if cd_transport c = None then [''transport''] else []) @
     (if cd_url c = None then [''url''] else [])"

definition HttpServerConfig_validate :: "config_dict \<Rightarrow> error + HttpServerConfig" where
  "HttpServerConfig_validate c =
     (case (cd_transport c, cd_url c) of
        (Some t, Some u) \<Rightarrow>
          Inr \<lparr> hc_transport = t,
                hc_url = u,
                hc_headers = cd_headers c,
                hc_timeout = (case cd_timeout c of None \<Rightarrow> Some 30 | Some n \<Rightarrow> Some n),
                hc_ssl_verify = (case cd_ssl_verify c of None \<Rightarrow> Some True | Some b \<Rightarrow> Some b) \<rparr>
      | _ \<Rightarrow> Inl (ValidationError (missing_http_fields c)))"

section \<open>Subprocess RPC client (\<open>MCPServer\<close>)\<close>

record MCPServer =
  ms_name :: string
  ms_config :: ServerConfig
  ms_session :: "resource option"
  ms_exit_stack :: "resource list"

text \<open>\<open>MCPServer.__init__\<close>: validates the configuration, no session, an empty exit stack.\<close>

definition MCPServer_init :: "string \<Rightarrow> config_dict \<Rightarrow> error + MCPServer" where
  "MCPServer_init name config =
     (case ServerConfig_validate config of
        Inl e \<Rightarrow> Inl e
      | Inr cfg \<Rightarrow>
          Inr \<lparr> ms_name = name, ms_config = cfg, ms_session = None, ms_exit_stack = [] \<rparr>)"

record StdioServerParameters =
  sp_command :: string
  sp_args :: "string list"
  sp_env :: "(string \<times> string) list option"

text \<open>
  What the world outside the repository answers: \<open>shutil.which("npx")\<close>, \<open>os.environ\<close>,
  how far bringing up the child process gets, whether leaving a context raises, and what
  the adapter library's \<open>load_mcp_tools(session)\<close> gives for a session.
\<close>

datatype start_outcome =
    StdioFails string
  | SessionFails string
  | HandshakeFails string
  | Started

record proc_env =
  which_npx :: "string option"
  os_environ :: "(string \<times> string) list"
  start_server :: "StdioServerParameters \<Rightarrow> start_outcome"
  exit_raises :: "resource \<Rightarrow> string option"
  adapter_tools :: "resource \<Rightarrow> error + tool list"

text \<open>
  \<open>AsyncExitStack.aclose()\<close>: leaves every entered context, the last entered first (the
  head of the list), and goes on when one of them raises; the stack is empty afterwards
  and the exception raised last is the one that propagates.
\<close>

fun aclose :: "(resource \<Rightarrow> string option) \<Rightarrow> resource list \<Rightarrow> event list \<times> error option" where
  "aclose ex [] = ([], None)"
| "aclose ex (r # rs) =
     (case aclose ex rs of
        (evs, later) \<Rightarrow>
          (Released r # evs,
           (case later of
              Some e \<Rightarrow> Some e
            | None \<Rightarrow> map_option OtherError (ex r))))"

text \<open>\<open>MCPServer.cleanup\<close>: the whole body is inside \<open>try ... except Exception\<close>.\<close>

definition MCPServer_cleanup ::
  "(resource \<Rightarrow> string option) \<Rightarrow> MCPServer \<Rightarrow> (error + unit) \<times> MCPServer \<times> event list" where
  "MCPServer_cleanup ex s =
     (case aclose ex (ms_exit_stack s) of
        (evs, None) \<Rightarrow>
          (Inr (), s\<lparr>ms_exit_stack := [], ms_session := None\<rparr>,
           CleanupCalled (ms_name s) # evs)
      | (evs, Some e) \<Rightarrow>
          (Inr (), s\<lparr>ms_exit_stack := []\<rparr>,
           CleanupCalled (ms_name s) # evs @
             [Logged ERROR (''Error during cleanup of server '' @ ms_name s @ '': '' @ str_of e)]))"

text \<open>\<open>{**os.environ, **self.config.env}\<close>.\<close>

definition merge_env :: "(string \<times> string) list \<Rightarrow> (string \<times> string) list \<Rightarrow> (string \<times> string) list" where
  "merge_env base over = fold (\<lambda>(k, v). AList.update k v) over base"

text \<open>The \<open>except\<close> branch of \<open>MCPServer.initialize\<close>: log, clean up, re-raise.\<close>

definition initialize_failed ::
  "proc_env \<Rightarrow> MCPServer \<Rightarrow> event list \<Rightarrow> string \<Rightarrow> (error + unit) \<times> MCPServer \<times> event list" where
  "initialize_failed env s evs msg =
     (case MCPServer_cleanup (exit_raises env) s of
        (_, s', cevs) \<Rightarrow>
          (Inl (OtherError msg), s',
           evs @ [Logged ERROR (''Error initializing server '' @ ms_name s @ '': '' @ msg)] @ cevs))"

definition MCPServer_initialize ::
  "proc_env \<Rightarrow> MCPServer \<Rightarrow> (error + unit) \<times> MCPServer \<times> event list" where
  "MCPServer_initialize env s =
     (let n = ms_name s; cfg = ms_config s in
      if sc_transport cfg \<noteq> ''stdio'' then
        (Inl (ValueError (''Server '' @ n @ '' uses '' @ sc_transport cfg @
                '' transport, but only stdio is supported'')), s, [InitializeCalled n])
      else if sc_command cfg = None \<or> sc_command cfg = Some [] then
        (Inl (ValueError (''Server '' @ n @ '' requires a command for stdio transport'')), s,
         [InitializeCalled n])
      else
        (case (if sc_command cfg = Some ''npx'' then which_npx env else sc_command cfg) of
           None \<Rightarrow>
             (Inl (ValueError ''The command must be a valid string and cannot be None.''), s,
              [InitializeCalled n])
         | Some cmd \<Rightarrow>
             (let params = \<lparr> sp_command = cmd,
                             sp_args = (case sc_args cfg of None \<Rightarrow> [] | Some a \<Rightarrow> a),
                             sp_env = (case sc_env cfg of
                                         None \<Rightarrow> None
                                       | Some [] \<Rightarrow> None
                                       | Some e \<Rightarrow> Some (merge_env (os_environ env) e)) \<rparr>;
                  st = ms_exit_stack s
              in case start_server env params of
                   StdioFails m \<Rightarrow> initialize_failed env s [InitializeCalled n] m
                 | SessionFails m \<Rightarrow>
                     initialize_failed env (s\<lparr>ms_exit_stack := StdioClient n # st\<rparr>)
                       [InitializeCalled n, Entered (StdioClient n)] m
                 | HandshakeFails m \<Rightarrow>
                     initialize_failed env
                       (s\<lparr>ms_exit_stack := ClientSession n # StdioClient n # st\<rparr>)
                       [InitializeCalled n, Entered (StdioClient n), Entered (ClientSession n)] m
                 | Started \<Rightarrow>
                     (Inr (),
                      s\<lparr>ms_exit_stack := ClientSession n # StdioClient n # st,
                        ms_session := Some (ClientSession n)\<rparr>,
                      [InitializeCalled n, Entered (StdioClient n), Entered (ClientSession n)]))))"

definition MCPServer_is_initialized :: "MCPServer \<Rightarrow> bool" where
  "MCPServer_is_initialized s \<longleftrightarrow> ms_session s \<noteq> None"


section \<open>Subprocess studio (\<open>MCPStudio\<close>)\<close>

text \<open>The studio is its list \<open>self.servers\<close>, in registration order.\<close>

definition MCPStudio_add_server :: "MCPServer list \<Rightarrow> string \<Rightarrow> config_dict \<Rightarrow> error + MCPServer list" where
  "MCPStudio_add_server servers name config =
     (case MCPServer_init name config of
        Inl e \<Rightarrow> Inl e
      | Inr s \<Rightarrow> Inr (servers @ [s]))"

text \<open>
  The loop of \<open>cleanup_all_servers\<close> over the servers in the order given (the caller
  passes \<open>reversed(self.servers)\<close>): an exception of one cleanup is logged and the loop
  goes on.
\<close>

fun MCP_cleanup_loop :: "(resource \<Rightarrow> string option) \<Rightarrow> MCPServer list \<Rightarrow> MCPServer list \<times> event list" where
  "MCP_cleanup_loop ex [] = ([], [])"
| "MCP_cleanup_loop ex (s # ss) =
     (case MCPServer_cleanup ex s of
        (r, s', evs) \<Rightarrow>
          (case MCP_cleanup_loop ex ss of
             (ss', evs') \<Rightarrow>
               (s' # ss',
                evs @ (case r of
                         Inl e \<Rightarrow> [Logged WARNING (''Warning during cleanup: '' @ str_of e)]
                       | Inr _ \<Rightarrow> []) @ evs')))"

definition MCPStudio_cleanup_all_servers ::
  "(resource \<Rightarrow> string option) \<Rightarrow> MCPServer list \<Rightarrow> (error + unit) \<times> MCPServer list \<times> event list" where
  "MCPStudio_cleanup_all_servers ex servers =
     (case MCP_cleanup_loop ex (rev servers) of
        (ss, evs) \<Rightarrow> (Inr (), rev ss, evs))"



definition MCPStudio_get_initialized_servers :: "MCPServer list \<Rightarrow> MCPServer list" where
  "MCPStudio_get_initialized_servers servers = filter MCPServer_is_initialized servers"

section \<open>Network RPC client (\<open>HttpMCPServer\<close>)\<close>

record HttpMCPServer =
  hs_name :: string
  hs_config :: HttpServerConfig
  hs_session :: "resource option"
  is_connected :: bool
  hs_exit_stack :: "resource list"
  base_url :: string
  mcp_session_id :: "string option"
  langchain_client :: "string option"

text \<open>\<open>str.rstrip('/')\<close> and \<open>str.lower()\<close> (on ASCII letters).\<close>

definition rstrip_slash :: "string \<Rightarrow> string" where
  "rstrip_slash u = rev (dropWhile (\<lambda>c. c = CHR ''/'') (rev u))"

definition lower_char :: "char \<Rightarrow> char" where
  "lower_char c =
     (case map_of (zip ''ABCDEFGHIJKLMNOPQRSTUVWXYZ'' ''abcdefghijklmnopqrstuvwxyz'') c of
        Some l \<Rightarrow> l
      | None \<Rightarrow> c)"

definition lower :: "string \<Rightarrow> string" where
  "lower s = map lower_char s"

text \<open>Decimal digits of a status code, for the f-strings.\<close>

fun show_nat :: "nat \<Rightarrow> string" where
  "show_nat n =
     (if n < 10 then [char_of (48 + n)] else show_nat (n div 10) @ [char_of (48 + n mod 10)])"

declare show_nat.simps [simp del]

text \<open>\<open>HttpMCPServer.__init__\<close>.\<close>

definition HttpMCPServer_init :: "string \<Rightarrow> config_dict \<Rightarrow> error + HttpMCPServer" where
  "HttpMCPServer_init name config =
     (case HttpServerConfig_validate config of
        Inl e \<Rightarrow> Inl e
      | Inr cfg \<Rightarrow>
          Inr \<lparr> hs_name = name, hs_config = cfg, hs_session = None, is_connected = False,
                hs_exit_stack = [], base_url = rstrip_slash (hc_url cfg),
                mcp_session_id = None, langchain_client = None \<rparr>)"

text \<open>
  What the network and the adapter library answer: whether opening the \<open>aiohttp\<close> session
  or building the \<open>MultiServerMCPClient\<close> raises (by server name), the answer to each
  request, whether leaving a context raises, the clock (\<open>datetime.now().isoformat()\<close> at
  the \<open>k\<close>-th attempt of a call), the adapter client's \<open>get_tools()\<close> (by server name), what
  invoking a tool object from outside gives, \<open>str\<close> of a value, and \<open>==\<close> between two
  values of which none is a string.
\<close>

record net_env =
  open_session :: "string \<Rightarrow> string option"
  make_client :: "string \<Rightarrow> string option"
  http :: "http_request \<Rightarrow> error + http_response"
  close_raises :: "resource \<Rightarrow> string option"
  now_iso :: "nat \<Rightarrow> string"
  get_tools :: "string \<Rightarrow> error + tool list"
  invoke :: "tool \<Rightarrow> call_method \<Rightarrow> (string \<times> pyval) list \<Rightarrow> error + pyval"
  py_str :: "pyval \<Rightarrow> string"
  py_eq :: "pyval \<Rightarrow> pyval \<Rightarrow> bool"

text \<open>\<open>response.headers.get(key)\<close>: header names compare without case.\<close>

definition headers_get :: "(string \<times> string) list \<Rightarrow> string \<Rightarrow> string option" where
  "headers_get hs k = map_of (map (\<lambda>(a, b). (lower a, b)) hs) (lower k)"

text \<open>\<open>HttpMCPServer.cleanup\<close>: the whole body is inside \<open>try ... except Exception\<close>.\<close>

definition HttpMCPServer_cleanup ::
  "(resource \<Rightarrow> string option) \<Rightarrow> HttpMCPServer \<Rightarrow> (error + unit) \<times> HttpMCPServer \<times> event list" where
  "HttpMCPServer_cleanup ex s =
     (let done = \<lambda>s. s\<lparr>langchain_client := None, is_connected := False, mcp_session_id := None\<rparr> in
      case hs_session s of
        None \<Rightarrow> (Inr (), done s, [CleanupCalled (hs_name s)])
      | Some _ \<Rightarrow>
          (case aclose ex (hs_exit_stack s) of
             (evs, None) \<Rightarrow>
               (Inr (), done (s\<lparr>hs_exit_stack := [], hs_session := None\<rparr>),
                CleanupCalled (hs_name s) # evs)
           | (evs, Some e) \<Rightarrow>
               (Inr (), s\<lparr>hs_exit_stack := []\<rparr>,
                CleanupCalled (hs_name s) # evs @
                  [Logged ERROR (''Error during cleanup of '' @ hs_name s @ '': '' @ str_of e)])))"

text \<open>
  The loop of \<open>_test_connection\<close> over the health paths. The flag says whether the loop
  returned (a response with status 200, or any other below 500); the session token is
  taken from a response with status 200 only, when the header is there and not empty.
\<close>

definition probe_request :: "HttpMCPServer \<Rightarrow> string \<Rightarrow> http_request" where
  "probe_request s ep =
     \<lparr> rq_method = GET, rq_url = UrlJoin (base_url s) ep, rq_headers = [], rq_json = None \<rparr>"

definition capture_session :: "HttpMCPServer \<Rightarrow> http_response \<Rightarrow> HttpMCPServer" where
  "capture_session s resp =
     (case headers_get (rs_headers resp) ''mcp-session-id'' of
        Some (c # cs) \<Rightarrow> s\<lparr>mcp_session_id := Some (c # cs)\<rparr>
      | _ \<Rightarrow> s)"

fun probe :: "net_env \<Rightarrow> HttpMCPServer \<Rightarrow> string list \<Rightarrow> bool \<times> HttpMCPServer \<times> event list" where
  "probe env s [] = (False, s, [])"
| "probe env s (ep # eps) =
     (case http env (probe_request s ep) of
        Inl e \<Rightarrow>
          (case probe env s eps of (b, s', evs) \<Rightarrow> (b, s', Sent (probe_request s ep) # evs))
      | Inr resp \<Rightarrow>
          if rs_status resp = 200 then (True, capture_session s resp, [Sent (probe_request s ep)])
          else if rs_status resp < 500 then (True, s, [Sent (probe_request s ep)])
          else (case probe env s eps of (b, s', evs) \<Rightarrow> (b, s', Sent (probe_request s ep) # evs)))"

definition health_endpoints :: "string list" where
  "health_endpoints = [''/'', ''/health'', ''/status'']"

definition test_connection :: "net_env \<Rightarrow> HttpMCPServer \<Rightarrow> (error + unit) \<times> HttpMCPServer \<times> event list" where
  "test_connection env s =
     (case probe env s health_endpoints of
        (True, s', evs) \<Rightarrow> (Inr (), s', evs)
      | (False, s', evs) \<Rightarrow>
          (let rq = \<lparr> rq_method = GET, rq_url = BaseUrl (base_url s), rq_headers = [],
                      rq_json = None \<rparr> in
           (Inr (), s',
            evs @ Sent rq #
              (case http env rq of
                 Inl e \<Rightarrow> [Logged WARNING (''Connection test failed for '' @ hs_name s @ '': '' @ str_of e)]
               | Inr _ \<Rightarrow> []))))"

definition initialize_langchain :: "net_env \<Rightarrow> HttpMCPServer \<Rightarrow> (error + unit) \<times> HttpMCPServer \<times> event list" where
  "initialize_langchain env s =
     (case make_client env (hs_name s) of
        Some m \<Rightarrow>
          (Inl (OtherError m), s,
           [Logged ERROR (''Error initializing langchain client for '' @ hs_name s @ '': '' @ m)])
      | None \<Rightarrow> (Inr (), s\<lparr>langchain_client := Some (hs_name s), is_connected := True\<rparr>, []))"

text \<open>
  \<open>dict.setdefault(k, v)\<close> on a dictionary kept in insertion order, and the two calls of
  \<open>_initialize_aiohttp\<close>. \<open>headers = self.config.headers or {}\<close> is the configured
  dictionary itself when that is not empty, so the defaults are written into the
  configuration; an absent or empty one is left as it is (a new dictionary is filled).
\<close>

definition setdefault :: "(string \<times> string) list \<Rightarrow> string \<Rightarrow> string \<Rightarrow> (string \<times> string) list" where
  "setdefault d k v = (if k \<in> fst ` set d then d else d @ [(k, v)])"

definition default_headers :: "HttpServerConfig \<Rightarrow> HttpServerConfig" where
  "default_headers cfg =
     (case hc_headers cfg of
        Some (h # hs) \<Rightarrow>
          cfg\<lparr>hc_headers :=
                Some (setdefault (setdefault (h # hs) ''User-Agent'' ''NeuralProtocol-MCP-Client/1.0'')
                        ''Accept'' ''application/json'')\<rparr>
      | _ \<Rightarrow> cfg)"

text \<open>
  \<open>_initialize_aiohttp\<close>. The session is created after the headers have been completed;
  \<open>open_session\<close> says whether creating or entering it raises.
\<close>

definition initialize_aiohttp :: "net_env \<Rightarrow> HttpMCPServer \<Rightarrow> (error + unit) \<times> HttpMCPServer \<times> event list" where
  "initialize_aiohttp env s =
     (let s0 = s\<lparr>hs_config := default_headers (hs_config s)\<rparr> in
      case open_session env (hs_name s) of
        Some m \<Rightarrow>
          (Inl (OtherError m), s0,
           [Logged ERROR (''Error initializing aiohttp for '' @ hs_name s @ '': '' @ m)])
      | None \<Rightarrow>
          (let r = AiohttpSession (hs_name s);
               s1 = s0\<lparr>hs_exit_stack := r # hs_exit_stack s, hs_session := Some r\<rparr>
           in case test_connection env s1 of
                (Inr _, s2, evs) \<Rightarrow> (Inr (), s2\<lparr>is_connected := True\<rparr>, Entered r # evs)
              | (Inl e, s2, evs) \<Rightarrow>
                  (Inl e, s2,
                   Entered r # evs @
                     [Logged ERROR (''Error initializing aiohttp for '' @ hs_name s @ '': '' @ str_of e)])))"

definition HttpMCPServer_initialize ::
  "net_env \<Rightarrow> HttpMCPServer \<Rightarrow> (error + unit) \<times> HttpMCPServer \<times> event list" where
  "HttpMCPServer_initialize env s =
     (case (if lower (hc_transport (hs_config s)) \<in> set [''sse'', ''streamable_http'']
            then initialize_langchain env s else initialize_aiohttp env s) of
        (Inr _, s', evs) \<Rightarrow> (Inr (), s', InitializeCalled (hs_name s) # evs)
      | (Inl e, s', evs) \<Rightarrow>
          (case HttpMCPServer_cleanup (close_raises env) s' of
             (_, s'', cevs) \<Rightarrow>
               (Inl e, s'',
                InitializeCalled (hs_name s) # evs @
                  [Logged ERROR (''Error initializing HTTP/SSE server '' @ hs_name s @ '': '' @ str_of e)]
                  @ cevs)))"

definition HttpMCPServer_is_initialized :: "HttpMCPServer \<Rightarrow> bool" where
  "HttpMCPServer_is_initialized s \<longleftrightarrow>
     is_connected s \<and> (hs_session s \<noteq> None \<or> langchain_client s \<noteq> None)"


subsection \<open>Listing and calling tools\<close>

definition type_name :: "pyval \<Rightarrow> string" where
  "type_name v =
     (case v of
        PNone \<Rightarrow> ''NoneType'' | PBool _ \<Rightarrow> ''bool'' | PInt _ \<Rightarrow> ''int''
      | PStr _ \<Rightarrow> ''str'' | PList _ \<Rightarrow> ''list'' | PDict _ \<Rightarrow> ''dict'')"

definition no_attribute :: "pyval \<Rightarrow> string \<Rightarrow> error" where
  "no_attribute v a =
     AttributeError (apo @ type_name v @ apo @ '' object has no attribute '' @ apo @ a @ apo)"

text \<open>\<open>len(v)\<close>: a \<open>TypeError\<close> for a value without a length.\<close>

definition py_len :: "pyval \<Rightarrow> error + nat" where
  "py_len v =
     (case v of
        PStr x \<Rightarrow> Inr (length x)
      | PList xs \<Rightarrow> Inr (length xs)
      | PDict kvs \<Rightarrow> Inr (length kvs)
      | _ \<Rightarrow> Inl (TypeError (''object of type '' @ apo @ type_name v @ apo @ '' has no len()'')))"

text \<open>The \<open>headers=\<close> argument of a listing or call request.\<close>

definition session_headers :: "HttpMCPServer \<Rightarrow> (string \<times> string) list" where
  "session_headers s =
     (case mcp_session_id s of
        Some (c # cs) \<Rightarrow> [(''mcp-session-id'', c # cs)]
      | _ \<Rightarrow> [])"

text \<open>
  The branch of the listing loop for a response with status 200; \<open>Inl\<close> when the branch
  raises (\<open>response.json()\<close>, or \<open>len\<close> of the \<open>tools\<close> entry), which the loop's own handler
  catches.
\<close>

definition parse_listing :: "http_response \<Rightarrow> error + pyval" where
  "parse_listing resp =
     (case rs_json resp of
        Inl e \<Rightarrow> Inl e
      | Inr (PDict kvs) \<Rightarrow>
          (case map_of kvs ''tools'' of
             Some tools \<Rightarrow> (case py_len tools of Inl e \<Rightarrow> Inl e | Inr _ \<Rightarrow> Inr tools)
           | None \<Rightarrow> Inr (PList []))
      | Inr (PList xs) \<Rightarrow> Inr (PList xs)
      | Inr _ \<Rightarrow> Inr (PList []))"

definition list_request :: "HttpMCPServer \<Rightarrow> string \<Rightarrow> http_request" where
  "list_request s ep =
     \<lparr> rq_method = GET, rq_url = UrlJoin (base_url s) ep, rq_headers = session_headers s,
       rq_json = None \<rparr>"

text \<open>The loop over the listing paths: \<open>None\<close> when no path returned.\<close>

fun list_direct :: "net_env \<Rightarrow> HttpMCPServer \<Rightarrow> string list \<Rightarrow> pyval option \<times> event list" where
  "list_direct env s [] = (None, [])"
| "list_direct env s (ep # eps) =
     (case http env (list_request s ep) of
        Inl e \<Rightarrow>
          (case list_direct env s eps of (r, evs) \<Rightarrow> (r, Sent (list_request s ep) # evs))
      | Inr resp \<Rightarrow>
          if rs_status resp = 200 then
            (case parse_listing resp of
               Inr v \<Rightarrow> (Some v, [Sent (list_request s ep)])
             | Inl e \<Rightarrow>
                 (case list_direct env s eps of (r, evs) \<Rightarrow> (r, Sent (list_request s ep) # evs)))
          else
            (case list_direct env s eps of (r, evs) \<Rightarrow> (r, Sent (list_request s ep) # evs)))"

definition tool_endpoints :: "string list" where
  "tool_endpoints = [''/tools'', ''/api/tools'', ''/mcp/tools'']"

definition list_rpc_request :: "HttpMCPServer \<Rightarrow> http_request" where
  "list_rpc_request s =
     \<lparr> rq_method = POST, rq_url = BaseUrl (base_url s), rq_headers = session_headers s,
       rq_json = Some (PDict [(''jsonrpc'', PStr ''2.0''), (''id'', PInt 1),
                              (''method'', PStr ''tools/list''), (''params'', PDict [])]) \<rparr>"

text \<open>
  \<open>result.get('result', {}).get('tools', [])\<close> and the \<open>len\<close> of it, for the JSON-RPC
  answer with status 200; every exception here ends in the handler that returns \<open>[]\<close>.
\<close>

definition parse_rpc_listing :: "http_response \<Rightarrow> error + pyval" where
  "parse_rpc_listing resp =
     (case rs_json resp of
        Inl e \<Rightarrow> Inl e
      | Inr (PDict kvs) \<Rightarrow>
          (case (case map_of kvs ''result'' of None \<Rightarrow> PDict [] | Some r \<Rightarrow> r) of
             PDict rkvs \<Rightarrow>
               (let tools = (case map_of rkvs ''tools'' of None \<Rightarrow> PList [] | Some t \<Rightarrow> t) in
                case py_len tools of Inl e \<Rightarrow> Inl e | Inr _ \<Rightarrow> Inr tools)
           | r \<Rightarrow> Inl (no_attribute r ''get''))
      | Inr v \<Rightarrow> Inl (no_attribute v ''get''))"

definition list_tools_aiohttp :: "net_env \<Rightarrow> HttpMCPServer \<Rightarrow> (error + pyval) \<times> event list" where
  "list_tools_aiohttp env s =
     (case hs_session s of
        None \<Rightarrow> (Inl (RuntimeError (''Session not initialized for '' @ hs_name s)), [])
      | Some _ \<Rightarrow>
          (case list_direct env s tool_endpoints of
             (Some v, evs) \<Rightarrow> (Inr v, evs)
           | (None, evs) \<Rightarrow>
               (case http env (list_rpc_request s) of
                  Inl e \<Rightarrow> (Inr (PList []), evs @ [Sent (list_rpc_request s)])
                | Inr resp \<Rightarrow>
                    if rs_status resp = 200 then
                      (case parse_rpc_listing resp of
                         Inr v \<Rightarrow> (Inr v, evs @ [Sent (list_rpc_request s)])
                       | Inl e \<Rightarrow> (Inr (PList []), evs @ [Sent (list_rpc_request s)]))
                    else (Inr (PList []), evs @ [Sent (list_rpc_request s)]))))"

text \<open>\<open>_list_tools_langchain\<close>: one dictionary per tool of the adapter client.\<close>

fun tools_data_of :: "tool list \<Rightarrow> error + pyval list" where
  "tools_data_of [] = Inr []"
| "tools_data_of (t # ts) =
     (case name_attr t of
        None \<Rightarrow> Inl (AttributeError (''tool object has no attribute '' @ apo @ ''name'' @ apo))
      | Some n \<Rightarrow>
          (case description_attr t of
             None \<Rightarrow> Inl (AttributeError (''tool object has no attribute '' @ apo @ ''description'' @ apo))
           | Some d \<Rightarrow>
               (case tools_data_of ts of
                  Inl e \<Rightarrow> Inl e
                | Inr ds \<Rightarrow>
                    Inr (PDict [(''name'', n), (''description'', PStr d),
                                (''parameters'',
                                 PDict (case args_schema_attr t of None \<Rightarrow> [] | Some a \<Rightarrow> a))] # ds))))"

definition list_tools_langchain :: "net_env \<Rightarrow> HttpMCPServer \<Rightarrow> (error + pyval) \<times> event list" where
  "list_tools_langchain env s =
     (case get_tools env (hs_name s) of
        Inl e \<Rightarrow> (Inr (PList []), [])
      | Inr ts \<Rightarrow>
          (case tools_data_of ts of
             Inl e \<Rightarrow> (Inr (PList []), [])
           | Inr ds \<Rightarrow> (Inr (PList ds), [])))"

definition list_tools :: "net_env \<Rightarrow> HttpMCPServer \<Rightarrow> (error + pyval) \<times> event list" where
  "list_tools env s =
     (if \<not> is_connected s then (Inl (RuntimeError (''Server '' @ hs_name s @ '' not initialized'')), [])
      else if langchain_client s \<noteq> None then list_tools_langchain env s
      else list_tools_aiohttp env s)"

text \<open>
  The name of the tool to call is the value that the caller hands over (\<open>HttpMCPTool._arun\<close>
  hands over the name from the wire). \<open>{tool_name}\<close> in an f-string is the string itself,
  and \<open>str\<close> of any other value.
\<close>

definition fmt :: "net_env \<Rightarrow> pyval \<Rightarrow> string" where
  "fmt env v = (case v of PStr x \<Rightarrow> x | _ \<Rightarrow> py_str env v)"

definition call_request :: "net_env \<Rightarrow> HttpMCPServer \<Rightarrow> pyval \<Rightarrow> (string \<times> pyval) list \<Rightarrow> nat \<Rightarrow> string \<Rightarrow> http_request" where
  "call_request env s tool_name arguments k ep =
     \<lparr> rq_method = POST, rq_url = UrlJoin (base_url s) ep, rq_headers = session_headers s,
       rq_json = Some (PDict [(''tool'', tool_name), (''arguments'', PDict arguments),
                              (''timestamp'', PStr (now_iso env k))]) \<rparr>"

text \<open>
  The loop of \<open>_call_tool_aiohttp\<close> over the call paths; \<open>k\<close> counts the attempts. A
  response with status 200 whose body does not parse raises inside the loop's \<open>try\<close>, and
  the loop goes on like after any other failure.
\<close>

fun call_direct ::
  "net_env \<Rightarrow> HttpMCPServer \<Rightarrow> pyval \<Rightarrow> (string \<times> pyval) list \<Rightarrow> nat \<Rightarrow> string list \<Rightarrow>
     pyval option \<times> event list" where
  "call_direct env s tool_name arguments k [] = (None, [])"
| "call_direct env s tool_name arguments k (ep # eps) =
     (let rq = call_request env s tool_name arguments k ep in
      case http env rq of
        Inl e \<Rightarrow>
          (case call_direct env s tool_name arguments (Suc k) eps of (r, evs) \<Rightarrow> (r, Sent rq # evs))
      | Inr resp \<Rightarrow>
          if rs_status resp = 200 then
            (case rs_json resp of
               Inr v \<Rightarrow> (Some v, [Sent rq])
             | Inl e \<Rightarrow>
                 (case call_direct env s tool_name arguments (Suc k) eps of
                    (r, evs) \<Rightarrow> (r, Sent rq # evs)))
          else
            (case call_direct env s tool_name arguments (Suc k) eps of (r, evs) \<Rightarrow> (r, Sent rq # evs)))"

definition call_endpoints :: "net_env \<Rightarrow> pyval \<Rightarrow> string list" where
  "call_endpoints env tool_name =
     [''/tools/'' @ fmt env tool_name, ''/api/tools/'' @ fmt env tool_name,
      ''/mcp/tools/'' @ fmt env tool_name]"

definition call_rpc_request :: "HttpMCPServer \<Rightarrow> pyval \<Rightarrow> (string \<times> pyval) list \<Rightarrow> http_request" where
  "call_rpc_request s tool_name arguments =
     \<lparr> rq_method = POST, rq_url = BaseUrl (base_url s), rq_headers = session_headers s,
       rq_json = Some (PDict [(''jsonrpc'', PStr ''2.0''), (''id'', PInt 1),
                              (''method'', PStr ''tools/call''),
                              (''params'', PDict [(''name'', tool_name),
                                                  (''arguments'', PDict arguments)])]) \<rparr>"

text \<open>The \<open>try\<close> block of the JSON-RPC fallback of a call, for the answer received.\<close>

definition parse_rpc_call :: "http_response \<Rightarrow> error + pyval" where
  "parse_rpc_call resp =
     (if rs_status resp = 200 then
        (case rs_json resp of
           Inl e \<Rightarrow> Inl e
         | Inr (PDict kvs) \<Rightarrow>
             Inr (case map_of kvs ''result'' of None \<Rightarrow> PDict kvs | Some r \<Rightarrow> r)
         | Inr v \<Rightarrow> Inl (no_attribute v ''get''))
      else
        (case rs_text resp of
           Inl e \<Rightarrow> Inl e
         | Inr t \<Rightarrow> Inl (ClientError (''HTTP '' @ show_nat (rs_status resp) @ '': '' @ t))))"

definition call_tool_aiohttp ::
  "net_env \<Rightarrow> HttpMCPServer \<Rightarrow> pyval \<Rightarrow> (string \<times> pyval) list \<Rightarrow> (error + pyval) \<times> event list" where
  "call_tool_aiohttp env s tool_name arguments =
     (case hs_session s of
        None \<Rightarrow> (Inl (RuntimeError (''Session not initialized for '' @ hs_name s)), [])
      | Some _ \<Rightarrow>
          (case call_direct env s tool_name arguments 0 (call_endpoints env tool_name) of
             (Some v, evs) \<Rightarrow> (Inr v, evs)
           | (None, evs) \<Rightarrow>
               (let rq = call_rpc_request s tool_name arguments in
                case (case http env rq of Inl e \<Rightarrow> Inl e | Inr resp \<Rightarrow> parse_rpc_call resp) of
                  Inr v \<Rightarrow> (Inr v, evs @ [Sent rq])
                | Inl e \<Rightarrow>
                    (Inl (ClientError (''All tool call methods failed: '' @ str_of e)),
                     evs @ [Sent rq]))))"

text \<open>
  \<open>a == b\<close>: between a string and any value it is equality; between two other values it is
  the environment's (numbers and booleans compare by value, dictionaries without order).
\<close>

definition equals :: "net_env \<Rightarrow> pyval \<Rightarrow> pyval \<Rightarrow> bool" where
  "equals env a b =
     (case (a, b) of
        (PStr x, _) \<Rightarrow> a = b
      | (_, PStr y) \<Rightarrow> a = b
      | _ \<Rightarrow> py_eq env a b)"

text \<open>\<open>_call_tool_langchain\<close>: the first tool of that name is invoked; exceptions pass.\<close>

definition call_tool_langchain ::
  "net_env \<Rightarrow> HttpMCPServer \<Rightarrow> pyval \<Rightarrow> (string \<times> pyval) list \<Rightarrow> (error + pyval) \<times> event list" where
  "call_tool_langchain env s tool_name arguments =
     (case get_tools env (hs_name s) of
        Inl e \<Rightarrow> (Inl e, [])
      | Inr ts \<Rightarrow>
          (case find (\<lambda>t. case name_attr t of None \<Rightarrow> True | Some n \<Rightarrow> equals env n tool_name) ts of
             None \<Rightarrow>
               (Inl (RuntimeError (''Tool '' @ fmt env tool_name @ '' not found on server '' @ hs_name s)), [])
           | Some t \<Rightarrow>
               (if name_attr t = None
                then (Inl (AttributeError (''tool object has no attribute '' @ apo @ ''name'' @ apo)), [])
                else (invoke env t Ainvoke arguments, [Invoked t Ainvoke arguments]))))"

definition call_tool ::
  "net_env \<Rightarrow> HttpMCPServer \<Rightarrow> pyval \<Rightarrow> (string \<times> pyval) list \<Rightarrow> (error + pyval) \<times> event list" where
  "call_tool env s tool_name arguments =
     (if \<not> is_connected s then (Inl (RuntimeError (''Server '' @ hs_name s @ '' not initialized'')), [])
      else if langchain_client s \<noteq> None then call_tool_langchain env s tool_name arguments
      else call_tool_aiohttp env s tool_name arguments)"

section \<open>Network studio (\<open>HttpMCPStudio\<close>)\<close>

definition HttpMCPStudio_add_server ::
  "HttpMCPServer list \<Rightarrow> string \<Rightarrow> config_dict \<Rightarrow> error + HttpMCPServer list" where
  "HttpMCPStudio_add_server servers name config =
     (case HttpMCPServer_init name config of
        Inl e \<Rightarrow> Inl e
      | Inr s \<Rightarrow> Inr (servers @ [s]))"



fun Http_cleanup_loop ::
  "(resource \<Rightarrow> string option) \<Rightarrow> HttpMCPServer list \<Rightarrow> HttpMCPServer list \<times> event list" where
  "Http_cleanup_loop ex [] = ([], [])"
| "Http_cleanup_loop ex (s # ss) =
     (case HttpMCPServer_cleanup ex s of
        (r, s', evs) \<Rightarrow>
          (case Http_cleanup_loop ex ss of
             (ss', evs') \<Rightarrow>
               (s' # ss',
                evs @ (case r of
                         Inl e \<Rightarrow> [Logged WARNING (''Cleanup warning: '' @ str_of e)]
                       | Inr _ \<Rightarrow> []) @ evs')))"

definition HttpMCPStudio_cleanup_all_servers ::
  "(resource \<Rightarrow> string option) \<Rightarrow> HttpMCPServer list \<Rightarrow> (error + unit) \<times> HttpMCPServer list \<times> event list" where
  "HttpMCPStudio_cleanup_all_servers ex servers =
     (case Http_cleanup_loop ex (rev servers) of
        (ss, evs) \<Rightarrow> (Inr (), rev ss, evs))"



section \<open>Tool registry and dispatcher (\<open>ToolsManager\<close>)\<close>

record ToolCall =
  tc_tool :: string
  tc_arguments :: "(string \<times> pyval) list"

record ToolResult =
  tr_tool_name :: string
  tr_success :: bool
  tr_result :: pyval
  tr_error :: "string option"

record ToolInfo =
  ti_name :: string
  ti_description :: string
  ti_source :: string
  ti_parameters :: "(string \<times> pyval) list"
  ti_category :: string

text \<open>
  The manager's own fields. Its two studios are shared objects that their owners change;
  the operations below take the studios' current server lists as arguments.
\<close>

record ToolsManager =
  mcp_tools :: "tool list"
  http_tools :: "tool list"
  custom_tools :: "tool list"
  see_tools :: "tool list"
  all_tools :: "tool list"
  tool_info :: "string \<rightharpoonup> ToolInfo"
  approval_enabled :: bool

definition ToolsManager_init :: ToolsManager where
  "ToolsManager_init =
     \<lparr> mcp_tools = [], http_tools = [], custom_tools = [], see_tools = [], all_tools = [],
       tool_info = Map.empty, approval_enabled = True \<rparr>"

definition set_approval_mode :: "ToolsManager \<Rightarrow> bool \<Rightarrow> ToolsManager" where
  "set_approval_mode st enabled = st\<lparr>approval_enabled := enabled\<rparr>"

text \<open>\<open>getattr(tool, 'name', str(tool))\<close>.\<close>

definition tool_name_of :: "tool \<Rightarrow> pyval" where
  "tool_name_of t = (case name_attr t of Some v \<Rightarrow> v | None \<Rightarrow> PStr (str_repr t))"

text \<open>
  The \<open>ToolInfo\<close> that each loading path stores for a tool under the name \<open>n\<close>.
  \<open>ToolInfo(name=...)\<close> raises a \<open>ValidationError\<close> for a name that is not a string.
\<close>

definition name_invalid :: error where
  "name_invalid = ValidationError [''name'']"

definition mcp_info :: "string \<Rightarrow> string \<Rightarrow> tool \<Rightarrow> ToolInfo" where
  "mcp_info server_name n t =
     \<lparr> ti_name = n,
       ti_description = (case description_attr t of Some d \<Rightarrow> d | None \<Rightarrow> ''No description available''),
       ti_source = ''mcp_server:'' @ server_name,
       ti_parameters = (case parameters_attr t of Some ps \<Rightarrow> ps | None \<Rightarrow> []),
       ti_category = ''mcp'' \<rparr>"

definition custom_info :: "string \<Rightarrow> tool \<Rightarrow> ToolInfo" where
  "custom_info n t =
     \<lparr> ti_name = n,
       ti_description = (case description_attr t of Some d \<Rightarrow> d
                         | None \<Rightarrow> ''Custom tool - no description available''),
       ti_source = ''custom'',
       ti_parameters = (case parameters_attr t of Some ps \<Rightarrow> ps | None \<Rightarrow> []),
       ti_category = ''custom'' \<rparr>"

definition see_info :: "string \<Rightarrow> tool \<Rightarrow> ToolInfo" where
  "see_info n t =
     \<lparr> ti_name = n,
       ti_description = (case description_attr t of Some d \<Rightarrow> d
                         | None \<Rightarrow> ''SEE tool - vision and analysis''),
       ti_source = ''see'',
       ti_parameters = (case parameters_attr t of Some ps \<Rightarrow> ps | None \<Rightarrow> []),
       ti_category = ''see'' \<rparr>"

text \<open>
  \<open>for tool in tools: self.tool_info[tool_name] = ToolInfo(...)\<close> in \<open>load_mcp_tools\<close>. The
  loop stops at a tool whose name is not a string: the exception is caught and logged by
  the handler of the server's turn.
\<close>

fun store_info :: "(string \<Rightarrow> tool \<Rightarrow> ToolInfo) \<Rightarrow> tool list \<Rightarrow> (string \<rightharpoonup> ToolInfo) \<Rightarrow> (string \<rightharpoonup> ToolInfo)" where
  "store_info mk [] m = m"
| "store_info mk (t # ts) m =
     (case tool_name_of t of
        PStr n \<Rightarrow> store_info mk ts (m(n \<mapsto> mk n t))
      | _ \<Rightarrow> m)"

definition load_tools_from_server :: "proc_env \<Rightarrow> MCPServer \<Rightarrow> error + tool list" where
  "load_tools_from_server env server =
     (case ms_session server of
        None \<Rightarrow> Inl (RuntimeError (''Server '' @ ms_name server @ '' not initialized''))
      | Some session \<Rightarrow>
          (case adapter_tools env session of
             Inl e \<Rightarrow> Inr []
           | Inr tools \<Rightarrow> Inr tools))"

text \<open>The body of the loop of \<open>load_mcp_tools\<close> for one server.\<close>

definition load_mcp_server :: "proc_env \<Rightarrow> MCPServer \<Rightarrow> ToolsManager \<Rightarrow> ToolsManager" where
  "load_mcp_server env server st =
     (case load_tools_from_server env server of
        Inl e \<Rightarrow> st
      | Inr tools \<Rightarrow>
          st\<lparr>mcp_tools := mcp_tools st @ tools,
             tool_info := store_info (mcp_info (ms_name server)) tools (tool_info st)\<rparr>)"

definition load_mcp_tools :: "proc_env \<Rightarrow> MCPServer list \<Rightarrow> ToolsManager \<Rightarrow> ToolsManager" where
  "load_mcp_tools env servers st =
     fold (load_mcp_server env) (MCPStudio_get_initialized_servers servers) (st\<lparr>mcp_tools := []\<rparr>)"

text \<open>
  \<open>_load_langchain_tools\<close>: the tools go into \<open>http_tools\<close> first; the loop that stores the
  descriptors reads \<open>tool.name\<close> and \<open>tool.description\<close> and stops at a tool without them
  or with a name that is not a string (the exception is caught and logged).
\<close>

fun store_langchain_info :: "string \<Rightarrow> tool list \<Rightarrow> (string \<rightharpoonup> ToolInfo) \<Rightarrow> (string \<rightharpoonup> ToolInfo)" where
  "store_langchain_info server_name [] m = m"
| "store_langchain_info server_name (t # ts) m =
     (case (name_attr t, description_attr t) of
        (Some (PStr n), Some d) \<Rightarrow>
          store_langchain_info server_name ts
            (m(n \<mapsto> \<lparr> ti_name = n, ti_description = d,
                      ti_source = ''http_server:'' @ server_name,
                      ti_parameters = (case args_schema_attr t of Some a \<Rightarrow> a | None \<Rightarrow> []),
                      ti_category = ''http'' \<rparr>))
      | _ \<Rightarrow> m)"

definition load_langchain_tools :: "net_env \<Rightarrow> HttpMCPServer \<Rightarrow> ToolsManager \<Rightarrow> ToolsManager" where
  "load_langchain_tools env server st =
     (case langchain_client server of
        None \<Rightarrow> st
      | Some _ \<Rightarrow>
          (case get_tools env (hs_name server) of
             Inl e \<Rightarrow> st
           | Inr tools \<Rightarrow>
               st\<lparr>http_tools := http_tools st @ tools,
                  tool_info := store_langchain_info (hs_name server) tools (tool_info st)\<rparr>))"

text \<open>
  \<open>_create_http_tool\<close> for the \<open>i\<close>-th server of the studio: a \<open>BaseTool\<close> whose name is
  \<open>tool_data.get('name', 'http_tool')\<close>, whatever value that is, and whose \<open>_arun\<close> calls
  the server with that name. (Its description is never read; it is recorded when it is a
  string.)
\<close>

definition create_http_tool :: "nat \<Rightarrow> (string \<times> pyval) list \<Rightarrow> tool" where
  "create_http_tool i tool_data =
     \<lparr> obj = HttpMCPTool i (case map_of tool_data ''name'' of
                               None \<Rightarrow> PStr ''http_tool'' | Some v \<Rightarrow> v),
       name_attr = Some (case map_of tool_data ''name'' of
                           None \<Rightarrow> PStr ''http_tool'' | Some v \<Rightarrow> v),
       str_repr = ''HttpMCPTool'',
       description_attr =
         (case map_of tool_data ''description'' of
            None \<Rightarrow> Some ''HTTP/SSE MCP tool'' | Some (PStr d) \<Rightarrow> Some d | Some _ \<Rightarrow> None),
       parameters_attr = None, args_schema_attr = None,
       has_invoke = True, has_ainvoke = True, has_run = True, has_arun = True,
       is_callable = True, has_await = False \<rparr>"

text \<open>
  The descriptor stored for a tool of a plain-http server; its key defaults to
  \<open>f'{server.name}_tool'\<close>. \<open>None\<close> when an entry has another type than the field's
  (\<open>ValidationError\<close>).
\<close>

definition aiohttp_info :: "string \<Rightarrow> (string \<times> pyval) list \<Rightarrow> ToolInfo option" where
  "aiohttp_info server_name tool_data =
     (case (case map_of tool_data ''name'' of
              None \<Rightarrow> Some (server_name @ ''_tool'') | Some (PStr n) \<Rightarrow> Some n | Some _ \<Rightarrow> None,
            case map_of tool_data ''description'' of
              None \<Rightarrow> Some ''HTTP/SSE MCP tool'' | Some (PStr d) \<Rightarrow> Some d | Some _ \<Rightarrow> None,
            case map_of tool_data ''parameters'' of
              None \<Rightarrow> Some [] | Some (PDict ps) \<Rightarrow> Some ps | Some _ \<Rightarrow> None) of
        (Some n, Some d, Some ps) \<Rightarrow>
          Some \<lparr> ti_name = n, ti_description = d, ti_source = ''http_server:'' @ server_name,
                 ti_parameters = ps, ti_category = ''http'' \<rparr>
      | _ \<Rightarrow> None)"

text \<open>
  The loop of \<open>_load_aiohttp_tools\<close> over the entries of the listing. An entry that is
  not a dictionary raises in \<open>_create_http_tool\<close>; for one whose descriptor fails as above
  the wrapper has been appended to \<open>http_tools\<close> when \<open>ToolInfo\<close> raises. The handler around
  the loop catches the exception, so the loop stops there with what it has stored.
\<close>

fun aiohttp_register :: "nat \<Rightarrow> string \<Rightarrow> pyval list \<Rightarrow> ToolsManager \<Rightarrow> ToolsManager" where
  "aiohttp_register i server_name [] st = st"
| "aiohttp_register i server_name (d # ds) st =
     (case d of
        PDict tool_data \<Rightarrow>
          (case aiohttp_info server_name tool_data of
             None \<Rightarrow> st\<lparr>http_tools := http_tools st @ [create_http_tool i tool_data]\<rparr>
           | Some info \<Rightarrow>
               aiohttp_register i server_name ds
                 (st\<lparr>http_tools := http_tools st @ [create_http_tool i tool_data],
                    tool_info := (tool_info st)(ti_name info \<mapsto> info)\<rparr>))
      | _ \<Rightarrow> st)"

definition load_aiohttp_tools :: "net_env \<Rightarrow> nat \<Rightarrow> HttpMCPServer \<Rightarrow> ToolsManager \<Rightarrow> ToolsManager" where
  "load_aiohttp_tools env i server st =
     (case fst (list_tools env server) of
        Inr (PList tools_data) \<Rightarrow> aiohttp_register i (hs_name server) tools_data st
      | _ \<Rightarrow> st)"

text \<open>The body of the loop of \<open>load_http_tools\<close> for the \<open>i\<close>-th server of the studio.\<close>

definition load_http_server :: "net_env \<Rightarrow> nat \<times> HttpMCPServer \<Rightarrow> ToolsManager \<Rightarrow> ToolsManager" where
  "load_http_server env ix st =
     (if lower (hc_transport (hs_config (snd ix))) \<in> set [''sse'', ''streamable_http'']
      then load_langchain_tools env (snd ix) st
      else load_aiohttp_tools env (fst ix) (snd ix) st)"

definition load_http_tools :: "net_env \<Rightarrow> HttpMCPServer list \<Rightarrow> ToolsManager \<Rightarrow> ToolsManager" where
  "load_http_tools env servers st =
     fold (load_http_server env)
       (filter (\<lambda>ix. HttpMCPServer_is_initialized (snd ix)) (zip [0 ..< length servers] servers))
       (st\<lparr>http_tools := []\<rparr>)"

text \<open>
  \<open>add_custom_tools\<close> and \<open>add_see_tools\<close>: each tool is appended to its list and then its
  descriptor is stored. Nothing catches the \<open>ValidationError\<close> for a name that is not a
  string: the call raises, with that tool appended and the tools before it registered.
\<close>

fun add_custom_tools :: "ToolsManager \<Rightarrow> tool list \<Rightarrow> (error + unit) \<times> ToolsManager" where
  "add_custom_tools st [] = (Inr (), st)"
| "add_custom_tools st (t # ts) =
     (case tool_name_of t of
        PStr n \<Rightarrow>
          add_custom_tools
            (st\<lparr>custom_tools := custom_tools st @ [t],
               tool_info := (tool_info st)(n \<mapsto> custom_info n t)\<rparr>) ts
      | _ \<Rightarrow> (Inl name_invalid, st\<lparr>custom_tools := custom_tools st @ [t]\<rparr>))"

fun add_see_tools :: "ToolsManager \<Rightarrow> tool list \<Rightarrow> (error + unit) \<times> ToolsManager" where
  "add_see_tools st [] = (Inr (), st)"
| "add_see_tools st (t # ts) =
     (case tool_name_of t of
        PStr n \<Rightarrow>
          add_see_tools
            (st\<lparr>see_tools := see_tools st @ [t],
               tool_info := (tool_info st)(n \<mapsto> see_info n t)\<rparr>) ts
      | _ \<Rightarrow> (Inl name_invalid, st\<lparr>see_tools := see_tools st @ [t]\<rparr>))"

definition get_all_tools :: "ToolsManager \<Rightarrow> tool list" where
  "get_all_tools st = mcp_tools st @ http_tools st @ custom_tools st @ see_tools st"

text \<open>
  \<open>find_tool_by_name\<close>: the first tool in \<open>get_all_tools()\<close> whose name equals the string
  looked for (a name that is not a string equals none).
\<close>

definition find_tool_by_name :: "ToolsManager \<Rightarrow> string \<Rightarrow> tool option" where
  "find_tool_by_name st tool_name =
     find (\<lambda>t. tool_name_of t = PStr tool_name) (get_all_tools st)"

subsection \<open>Approval gate\<close>

text \<open>
  What the console gives to one \<open>input()\<close>: a line, \<open>KeyboardInterrupt\<close>, or another
  exception. At the end of the input \<open>input()\<close> raises \<open>EOFError\<close>.
\<close>

datatype user_input = Line string | KeyboardInterrupt | InputError string

text \<open>
  The characters that \<open>str.strip()\<close> removes, among the code points below 256 that a
  character of this model stands for: the ASCII white space and separators, U+0085 and
  U+00A0.
\<close>

definition is_space :: "char \<Rightarrow> bool" where
  "is_space c \<longleftrightarrow>
     (of_char c :: nat) \<in> set [9, 10, 11, 12, 13, 28, 29, 30, 31, 32, 133, 160]"

definition strip :: "string \<Rightarrow> string" where
  "strip s = rev (dropWhile is_space (rev (dropWhile is_space s)))"

fun get_user_approval :: "user_input list \<Rightarrow> bool \<times> event list \<times> user_input list" where
  "get_user_approval [] = (False, [Prompted], [])"
| "get_user_approval (Line l # rest) =
     (if strip l = ''1'' then (True, [Prompted], rest)
      else if strip l = ''2'' then (False, [Prompted], rest)
      else (case get_user_approval rest of (b, evs, rest') \<Rightarrow> (b, Prompted # evs, rest')))"
| "get_user_approval (KeyboardInterrupt # rest) = (False, [Prompted], rest)"
| "get_user_approval (InputError m # rest) = (False, [Prompted], rest)"

text \<open>
  \<open>_display_tool_approval_request\<close> prints the request; it reads \<open>tool_info.description\<close>,
  which raises when the manager holds no descriptor under that name.
\<close>

definition display_tool_approval_request ::
  "string \<Rightarrow> (string \<times> pyval) list \<Rightarrow> ToolInfo option \<Rightarrow> (error + unit) \<times> event list" where
  "display_tool_approval_request tool_name arguments info =
     (case info of
        None \<Rightarrow> (Inl (no_attribute PNone ''description''), [ApprovalRequested tool_name arguments])
      | Some _ \<Rightarrow> (Inr (), [ApprovalRequested tool_name arguments]))"

subsection \<open>Execution\<close>

text \<open>
  \<open>HttpMCPTool._arun\<close>: calls the server the wrapper was built for and returns \<open>str\<close> of
  the result; an exception of the call is caught and returned as a text. The wrapper holds
  the server object itself, here the \<open>i\<close>-th server of the studio's list, which only
  grows; the last branch stands for an index outside of it.
\<close>

definition HttpMCPTool_arun ::
  "net_env \<Rightarrow> HttpMCPServer list \<Rightarrow> nat \<Rightarrow> pyval \<Rightarrow> (string \<times> pyval) list \<Rightarrow> (error + pyval) \<times> event list" where
  "HttpMCPTool_arun env servers i tool_name kwargs =
     (if i < length servers then
        (case call_tool env (servers ! i) tool_name kwargs of
           (Inr result, evs) \<Rightarrow> (Inr (PStr (py_str env result)), evs)
         | (Inl e, evs) \<Rightarrow>
             (Inr (PStr (''Error executing HTTP tool '' @ fmt env tool_name @ '': '' @ str_of e)), evs))
      else (Inl (RuntimeError ''no such server''), []))"

text \<open>
  Invoking a tool object by one of its methods. For the wrapper of a plain-http tool,
  \<open>BaseTool.ainvoke\<close> runs \<open>_arun\<close> with the arguments; what any other object does is the
  environment's.
\<close>

definition run_tool ::
  "net_env \<Rightarrow> HttpMCPServer list \<Rightarrow> tool \<Rightarrow> call_method \<Rightarrow> (string \<times> pyval) list \<Rightarrow>
     (error + pyval) \<times> event list" where
  "run_tool env servers t m arguments =
     (case obj t of
        HttpMCPTool i n \<Rightarrow>
          (case HttpMCPTool_arun env servers i n arguments of
             (r, evs) \<Rightarrow> (r, Invoked t m arguments # evs))
      | Given _ \<Rightarrow> (invoke env t m arguments, [Invoked t m arguments]))"

text \<open>
  The method that \<open>execute_tool_call\<close> picks by the \<open>hasattr\<close> and \<open>callable\<close> tests, in
  the order of its \<open>if\<close> chain; \<open>None\<close> when the object is not executable.
\<close>

definition select_method :: "tool \<Rightarrow> call_method option" where
  "select_method t =
     (if has_invoke t then Some (if has_ainvoke t then Ainvoke else Invoke)
      else if has_run t then Some (if has_arun t then Arun else Run)
      else if is_callable t then Some (if has_await t then AwaitCall else Call)
      else None)"

definition dispatch ::
  "net_env \<Rightarrow> HttpMCPServer list \<Rightarrow> tool \<Rightarrow> ToolCall \<Rightarrow> (error + ToolResult) \<times> event list" where
  "dispatch env servers t c =
     (case select_method t of
        None \<Rightarrow>
          (Inr \<lparr> tr_tool_name = tc_tool c, tr_success = False, tr_result = PNone,
                 tr_error = Some (''Tool '' @ apo @ tc_tool c @ apo @ '' is not executable'') \<rparr>, [])
      | Some m \<Rightarrow>
          (case run_tool env servers t m (tc_arguments c) of
             (Inl e, evs) \<Rightarrow> (Inl e, evs)
           | (Inr v, evs) \<Rightarrow>
               (Inr \<lparr> tr_tool_name = tc_tool c, tr_success = True, tr_result = v,
                      tr_error = None \<rparr>, evs)))"

text \<open>The \<open>try\<close> block of \<open>execute_tool_call\<close>.\<close>

definition execute_body ::
  "net_env \<Rightarrow> HttpMCPServer list \<Rightarrow> ToolsManager \<Rightarrow> ToolCall \<Rightarrow> user_input list \<Rightarrow>
     (error + ToolResult) \<times> event list \<times> user_input list" where
  "execute_body env servers st c inputs =
     (case find_tool_by_name st (tc_tool c) of
        None \<Rightarrow>
          (Inr \<lparr> tr_tool_name = tc_tool c, tr_success = False, tr_result = PNone,
                 tr_error = Some (''Tool '' @ apo @ tc_tool c @ apo @ '' not found'') \<rparr>,
           [], inputs)
      | Some t \<Rightarrow>
          if approval_enabled st then
            (case display_tool_approval_request (tc_tool c) (tc_arguments c)
                    (tool_info st (tc_tool c)) of
               (Inl e, evs) \<Rightarrow> (Inl e, evs, inputs)
             | (Inr _, evs) \<Rightarrow>
                 (case get_user_approval inputs of
                    (False, evs', rest) \<Rightarrow>
                      (Inr \<lparr> tr_tool_name = tc_tool c, tr_success = False, tr_result = PNone,
                             tr_error = Some ''Tool execution disapproved by user'' \<rparr>,
                       evs @ evs', rest)
                  | (True, evs', rest) \<Rightarrow>
                      (case dispatch env servers t c of
                         (r, evs'') \<Rightarrow> (r, evs @ evs' @ evs'', rest))))
          else
            (case dispatch env servers t c of (r, evs) \<Rightarrow> (r, evs, inputs)))"

text \<open>\<open>execute_tool_call\<close>: the \<open>try\<close> block and its \<open>except Exception\<close> handler.\<close>

definition execute_tool_call ::
  "net_env \<Rightarrow> HttpMCPServer list \<Rightarrow> ToolsManager \<Rightarrow> ToolCall \<Rightarrow> user_input list \<Rightarrow>
     (error + ToolResult) \<times> event list \<times> user_input list" where
  "execute_tool_call env servers st c inputs =
     (case execute_body env servers st c inputs of
        (Inr r, evs, rest) \<Rightarrow> (Inr r, evs, rest)
      | (Inl e, evs, rest) \<Rightarrow>
          (Inr \<lparr> tr_tool_name = tc_tool c, tr_success = False, tr_result = PNone,
                 tr_error = Some (''Error executing tool '' @ apo @ tc_tool c @ apo @ '': '' @ str_of e) \<rparr>,
           evs, rest))"


subsection \<open>Histories of a manager\<close>

text \<open>
  The operations that change a manager, and a manager's state after a list of them,
  starting from a fresh one; when \<open>add_custom_tools\<close> or \<open>add_see_tools\<close> raises, the
  manager goes on in the state that the call left. (\<open>execute_tool_call\<close> changes nothing
  of the manager.)
\<close>

datatype manager_op =
    LoadMcpTools proc_env "MCPServer list"
  | LoadHttpTools net_env "HttpMCPServer list"
  | AddCustomTools "tool list"
  | AddSeeTools "tool list"
  | SetApprovalMode bool

fun apply_op :: "manager_op \<Rightarrow> ToolsManager \<Rightarrow> ToolsManager" where
  "apply_op (LoadMcpTools env servers) st = load_mcp_tools env servers st"
| "apply_op (LoadHttpTools env servers) st = load_http_tools env servers st"
| "apply_op (AddCustomTools tools) st = snd (add_custom_tools st tools)"
| "apply_op (AddSeeTools tools) st = snd (add_see_tools st tools)"
| "apply_op (SetApprovalMode b) st = set_approval_mode st b"

definition after_ops :: "manager_op list \<Rightarrow> ToolsManager" where
  "after_ops ops = fold apply_op ops ToolsManager_init"

text \<open>Events that reach a tool or the wire.\<close>

fun is_transport_event :: "event \<Rightarrow> bool" where
  "is_transport_event (Invoked t m a) = True"
| "is_transport_event (Sent rq) = True"
| "is_transport_event _ = False"

subsection \<open>Reading answers and event lists\<close>

text \<open>
  The words of the specification about an answer to a request. A listing path \<open>fails\<close>
  when the request raises or the status is not 200 (404 among them). An answer with status
  200 is \<open>unreadable\<close> when its body is not JSON, or is an envelope (a dictionary with the
  key \<open>tools\<close>) whose \<open>tools\<close> entry has no length (\<open>null\<close>, a boolean, a number). Any other
  answer with status 200 gives a listing: the bare list, the \<open>tools\<close> entry of the
  envelope, and the empty list for a body of any other shape. The JSON-RPC answer gives
  \<open>result.tools\<close> when the status is 200, the body is a dictionary, its \<open>result\<close> is a
  dictionary (or absent) and the \<open>tools\<close> entry of that has a length (the empty list when
  it is absent); every other answer gives the empty list. A probe answer is \<open>accepted\<close>
  when its status is below 500.
\<close>

definition path_fails :: "error + http_response \<Rightarrow> bool" where
  "path_fails a = (case a of Inl _ \<Rightarrow> True | Inr resp \<Rightarrow> rs_status resp \<noteq> 200)"

definition has_length :: "pyval \<Rightarrow> bool" where
  "has_length v = (case v of PStr _ \<Rightarrow> True | PList _ \<Rightarrow> True | PDict _ \<Rightarrow> True | _ \<Rightarrow> False)"

definition unreadable :: "error + http_response \<Rightarrow> bool" where
  "unreadable a =
     (case a of
        Inl _ \<Rightarrow> False
      | Inr resp \<Rightarrow>
          rs_status resp = 200 \<and>
          (case rs_json resp of
             Inl _ \<Rightarrow> True
           | Inr (PDict kvs) \<Rightarrow>
               (case map_of kvs ''tools'' of None \<Rightarrow> False | Some t \<Rightarrow> \<not> has_length t)
           | Inr _ \<Rightarrow> False))"

definition listing_of :: "error + http_response \<Rightarrow> pyval option" where
  "listing_of a =
     (case a of
        Inl _ \<Rightarrow> None
      | Inr resp \<Rightarrow>
          if rs_status resp = 200 then
            (case rs_json resp of
               Inl _ \<Rightarrow> None
             | Inr (PList xs) \<Rightarrow> Some (PList xs)
             | Inr (PDict kvs) \<Rightarrow>
                 (case map_of kvs ''tools'' of
                    None \<Rightarrow> Some (PList [])
                  | Some t \<Rightarrow> if has_length t then Some t else None)
             | Inr _ \<Rightarrow> Some (PList []))
          else None)"

definition rpc_listing_of :: "error + http_response \<Rightarrow> pyval" where
  "rpc_listing_of a =
     (case a of
        Inl _ \<Rightarrow> PList []
      | Inr resp \<Rightarrow>
          if rs_status resp = 200 then
            (case rs_json resp of
               Inr (PDict kvs) \<Rightarrow>
                 (case map_of kvs ''result'' of
                    None \<Rightarrow> PList []
                  | Some (PDict rkvs) \<Rightarrow>
                      (case map_of rkvs ''tools'' of
                         None \<Rightarrow> PList []
                       | Some t \<Rightarrow> if has_length t then t else PList [])
                  | Some _ \<Rightarrow> PList [])
             | _ \<Rightarrow> PList [])
          else PList [])"


definition accepted :: "error + http_response \<Rightarrow> bool" where
  "accepted a = (case a of Inl _ \<Rightarrow> False | Inr resp \<Rightarrow> rs_status resp < 500)"

text \<open>The requests, the servers initialized, the servers cleaned up and the contexts left,
  in the order of an event list.\<close>

fun requests :: "event list \<Rightarrow> http_request list" where
  "requests [] = []"
| "requests (Sent rq # evs) = rq # requests evs"
| "requests (_ # evs) = requests evs"

fun initialize_calls :: "event list \<Rightarrow> string list" where
  "initialize_calls [] = []"
| "initialize_calls (InitializeCalled n # evs) = n # initialize_calls evs"
| "initialize_calls (_ # evs) = initialize_calls evs"

fun cleanup_calls :: "event list \<Rightarrow> string list" where
  "cleanup_calls [] = []"
| "cleanup_calls (CleanupCalled n # evs) = n # cleanup_calls evs"
| "cleanup_calls (_ # evs) = cleanup_calls evs"

fun released :: "event list \<Rightarrow> resource list" where
  "released [] = []"
| "released (Released r # evs) = r # released evs"
| "released (_ # evs) = released evs"

section \<open>Example inputs\<close>

definition no_config :: config_dict where
  "no_config =
     \<lparr> cd_transport = None, cd_command = None, cd_args = None, cd_env = None,
       cd_url = None, cd_headers = None, cd_timeout = None, cd_ssl_verify = None \<rparr>"

definition quiet_proc_env :: proc_env where
  "quiet_proc_env =
     \<lparr> which_npx = None, os_environ = [], start_server = (\<lambda>_. Started),
       exit_raises = (\<lambda>_. None), adapter_tools = (\<lambda>_. Inr []) \<rparr>"

definition echo_tool :: tool where
  "echo_tool =
     \<lparr> obj = Given 1, name_attr = Some (PStr ''echo''), str_repr = ''echo'',
       description_attr = Some ''Echo the message'', parameters_attr = None,
       args_schema_attr = None, has_invoke = True, has_ainvoke = True, has_run = True,
       has_arun = True, is_callable = False, has_await = False \<rparr>"

definition calc_server :: HttpMCPServer where
  "calc_server =
     \<lparr> hs_name = ''calc'',
       hs_config = \<lparr> hc_transport = ''http'', hc_url = ''http://calc/'', hc_headers = None,
                     hc_timeout = Some 30, hc_ssl_verify = Some True \<rparr>,
       hs_session = Some (AiohttpSession ''calc''), is_connected = True,
       hs_exit_stack = [AiohttpSession ''calc''], base_url = ''http://calc'',
       mcp_session_id = None, langchain_client = None \<rparr>"

definition down_env :: net_env where
  "down_env =
     \<lparr> open_session = (\<lambda>_. None), make_client = (\<lambda>_. None),
       http = (\<lambda>rq. if rq_method rq = GET \<and> rq_url rq = UrlJoin ''http://calc'' ''/tools''
                     then Inr \<lparr> rs_status = 200, rs_headers = [],
                                rs_json = Inr (PList [PDict [(''name'', PStr ''add'')]]),
                                rs_text = Inr [] \<rparr>
                     else Inl (ClientError ''Connection refused'')),
       close_raises = (\<lambda>_. None), now_iso = (\<lambda>_. ''2025-01-01T00:00:00''),
       get_tools = (\<lambda>_. Inr []), invoke = (\<lambda>_ _ _. Inl (OtherError ''boom'')),
       py_str = (\<lambda>_. []), py_eq = (\<lambda>a b. a = b) \<rparr>"

definition add_tool :: tool where
  "add_tool =
     \<lparr> obj = HttpMCPTool 0 (PStr ''add''), name_attr = Some (PStr ''add''), str_repr = ''HttpMCPTool'',
       description_attr = Some ''HTTP/SSE MCP tool'', parameters_attr = None,
       args_schema_attr = None, has_invoke = True, has_ainvoke = True, has_run = True,
       has_arun = True, is_callable = True, has_await = False \<rparr>"

definition ok_env :: net_env where
  "ok_env = down_env\<lparr>invoke := (\<lambda>t m a. Inr (PStr ''hi''))\<rparr>"

definition search_mcp :: tool where
  "search_mcp =
     \<lparr> obj = Given 2, name_attr = Some (PStr ''search''), str_repr = ''search'',
       description_attr = Some ''Search the files'', parameters_attr = None,
       args_schema_attr = None, has_invoke = True, has_ainvoke = True, has_run = True,
       has_arun = True, is_callable = False, has_await = False \<rparr>"

definition search_local :: tool where
  "search_local =
     \<lparr> obj = Given 3, name_attr = Some (PStr ''search''), str_repr = ''search'',
       description_attr = Some ''Search the web'', parameters_attr = None,
       args_schema_attr = None, has_invoke = True, has_ainvoke = True, has_run = True,
       has_arun = True, is_callable = False, has_await = False \<rparr>"

definition search_sse :: tool where
  "search_sse =
     \<lparr> obj = Given 4, name_attr = Some (PStr ''search''), str_repr = ''search'',
       description_attr = Some ''Search the docs'', parameters_attr = None,
       args_schema_attr = None, has_invoke = True, has_ainvoke = True, has_run = True,
       has_arun = True, is_callable = False, has_await = False \<rparr>"

definition files_server :: MCPServer where
  "files_server =
     \<lparr> ms_name = ''files'',
       ms_config = \<lparr> sc_transport = ''stdio'', sc_command = Some ''files-mcp'', sc_args = None,
                     sc_env = None, sc_url = None \<rparr>,
       ms_session = Some (ClientSession ''files''),
       ms_exit_stack = [ClientSession ''files'', StdioClient ''files''] \<rparr>"

definition files_env :: proc_env where
  "files_env = quiet_proc_env\<lparr>adapter_tools := (\<lambda>_. Inr [search_mcp])\<rparr>"

definition docs_server :: HttpMCPServer where
  "docs_server =
     \<lparr> hs_name = ''docs'',
       hs_config = \<lparr> hc_transport = ''sse'', hc_url = ''http://docs/sse'', hc_headers = None,
                     hc_timeout = Some 30, hc_ssl_verify = Some True \<rparr>,
       hs_session = None, is_connected = True, hs_exit_stack = [],
       base_url = ''http://docs/sse'', mcp_session_id = None, langchain_client = Some ''docs'' \<rparr>"

definition docs_env :: net_env where
  "docs_env = ok_env\<lparr>get_tools := (\<lambda>_. Inr [search_sse])\<rparr>"

definition multiply_listing :: "pyval list" where
  "multiply_listing = [PDict [(''name'', PStr ''multiply''), (''description'', PStr ''a*b'')]]"

definition ok_response :: "pyval \<Rightarrow> http_response" where
  "ok_response body = \<lparr> rs_status = 200, rs_headers = [], rs_json = Inr body, rs_text = Inr [] \<rparr>"

definition not_found :: http_response where
  "not_found =
     \<lparr> rs_status = 404, rs_headers = [], rs_json = Inl (OtherError ''not JSON''),
       rs_text = Inr ''Not Found'' \<rparr>"

definition second_env :: net_env where
  "second_env =
     down_env\<lparr>http := (\<lambda>rq. if rq_url rq = UrlJoin ''http://calc'' ''/api/tools''
                             then Inr (ok_response (PList multiply_listing))
                             else Inl (ClientError ''Connection reset''))\<rparr>"

definition cascade_env :: net_env where
  "cascade_env =
     down_env\<lparr>http := (\<lambda>rq. if rq_url rq = UrlJoin ''http://calc'' ''/mcp/tools''
                             then Inr (ok_response (PDict [(''tools'', PList multiply_listing)]))
                             else Inr not_found)\<rparr>"

definition rpc_env :: net_env where
  "rpc_env =
     down_env\<lparr>http := (\<lambda>rq. if rq_method rq = POST \<and> rq_url rq = BaseUrl ''http://calc''
                             then Inr (ok_response
                                         (PDict [(''jsonrpc'', PStr ''2.0''), (''id'', PInt 1),
                                                 (''result'', PDict [(''tools'', PList multiply_listing)])]))
                             else Inr not_found)\<rparr>"

definition calc_config :: config_dict where
  "calc_config = no_config\<lparr>cd_transport := Some ''http'', cd_url := Some ''http://calc/''\<rparr>"

definition fresh_calc :: HttpMCPServer where
  "fresh_calc = calc_server\<lparr>hs_session := None, is_connected := False, hs_exit_stack := []\<rparr>"

definition token_response :: "nat \<Rightarrow> string \<Rightarrow> http_response" where
  "token_response code tok =
     \<lparr> rs_status = code, rs_headers = [(''Mcp-Session-Id'', tok)],
       rs_json = Inl (OtherError ''not JSON''), rs_text = Inr [] \<rparr>"

definition token404_env :: net_env where
  "token404_env = down_env\<lparr>http := (\<lambda>rq. Inr (token_response 404 ''abc''))\<rparr>"

definition health_env :: net_env where
  "health_env =
     down_env\<lparr>http := (\<lambda>rq. if rq_url rq = UrlJoin ''http://calc'' ''/health''
                             then Inr (token_response 200 ''tok-1'')
                             else Inl (ClientError ''Connection reset''))\<rparr>"

definition status_env :: net_env where
  "status_env =
     down_env\<lparr>http := (\<lambda>rq. if rq_url rq = UrlJoin ''http://calc'' ''/status''
                             then Inr (token_response 200 ''tok-1'')
                             else if rq_url rq = UrlJoin ''http://calc'' ''/health''
                             then Inr (token_response 503 ''tok-0'')
                             else Inl (ClientError ''Connection reset''))\<rparr>"

text \<open>The contexts that cleaning up a network server will leave.\<close>

definition hs_held :: "HttpMCPServer \<Rightarrow> resource list" where
  "hs_held s = (if hs_session s = None then [] else hs_exit_stack s)"

definition mail_server :: MCPServer where
  "mail_server =
     \<lparr> ms_name = ''mail'',
       ms_config = \<lparr> sc_transport = ''stdio'', sc_command = Some ''mail-mcp'', sc_args = None,
                     sc_env = None, sc_url = None \<rparr>,
       ms_session = Some (ClientSession ''mail''),
       ms_exit_stack = [ClientSession ''mail'', StdioClient ''mail''] \<rparr>"

definition raising_exit :: "resource \<Rightarrow> string option" where
  "raising_exit r =
     (if r = StdioClient ''files'' \<or> r = AiohttpSession ''calc'' then Some ''broken pipe'' else None)"







definition anon_env :: net_env where
  "anon_env =
     down_env\<lparr>http := (\<lambda>rq. if rq_method rq = GET \<and> rq_url rq = UrlJoin ''http://calc'' ''/tools''
                           then Inr (ok_response (PList [PDict [(''description'', PStr ''adds'')]]))
                           else Inl (ClientError ''Connection refused''))\<rparr>"

definition unreadable_response :: http_response where
  "unreadable_response =
     \<lparr> rs_status = 200, rs_headers = [], rs_json = Inl (ClientError ''unexpected mimetype: text/html''),
       rs_text = Inr ''<html>maintenance</html>'' \<rparr>"

definition garbled_env :: net_env where
  "garbled_env =
     down_env\<lparr>http := (\<lambda>rq. if rq_url rq = UrlJoin ''http://calc'' ''/tools''
                             then Inr unreadable_response
                             else if rq_method rq = POST \<and> rq_url rq = BaseUrl ''http://calc''
                             then Inr (ok_response
                                         (PDict [(''jsonrpc'', PStr ''2.0''), (''id'', PInt 1),
                                                 (''result'', PDict [(''tools'', PList multiply_listing)])]))
                             else Inr not_found)\<rparr>"


section \<open>Descriptor validation\<close>

lemma http_init_missing:
  "cd_url c = None \<or> cd_transport c = None \<Longrightarrow>
     HttpMCPServer_init name c = Inl (ValidationError (missing_http_fields c))"
  by (auto simp: HttpMCPServer_init_def HttpServerConfig_validate_def split: option.splits)

lemma mcp_init_total:
  "MCPServer_init name c =
     Inr \<lparr> ms_name = name,
           ms_config = \<lparr> sc_transport = (case cd_transport c of None \<Rightarrow> ''stdio'' | Some t \<Rightarrow> t),
                         sc_command = cd_command c, sc_args = cd_args c, sc_env = cd_env c,
                         sc_url = cd_url c \<rparr>,
           ms_session = None, ms_exit_stack = [] \<rparr>"
  by (simp add: MCPServer_init_def ServerConfig_validate_def)

text \<open>
  Claim C6, as amended. A network descriptor without \<open>url\<close> fails validation when the
  server object is constructed (\<open>ValidationError\<close> naming \<open>url\<close>), and the studio adds no
  server. A subprocess descriptor is accepted at construction whatever it lacks:
  \<open>command\<close> is optional in \<open>ServerConfig\<close>. When \<open>command\<close> is missing (and the transport
  is stdio), it is \<open>initialize\<close> that raises \<open>ValueError\<close>, before anything is spawned: the
  server is unchanged and no context has been entered.
\<close>

theorem C6_descriptor_validation:
  "(cd_url c = None \<longrightarrow>
      (\<exists>fs. HttpMCPServer_init name c = Inl (ValidationError fs) \<and> ''url'' \<in> set fs) \<and>
      (\<exists>e. HttpMCPStudio_add_server servers name c = Inl e))
   \<and> (\<exists>s. MCPServer_init name c = Inr s \<and> ms_session s = None \<and> ms_exit_stack s = [])
   \<and> (\<forall>s. cd_command c = None \<and> (cd_transport c = None \<or> cd_transport c = Some ''stdio'') \<and>
           MCPServer_init name c = Inr s \<longrightarrow>
         MCPServer_initialize env s =
           (Inl (ValueError (''Server '' @ name @ '' requires a command for stdio transport'')), s,
            [InitializeCalled name]))"
proof (intro conjI impI allI)
  assume u: "cd_url c = None"
  then show "\<exists>fs. HttpMCPServer_init name c = Inl (ValidationError fs) \<and> ''url'' \<in> set fs"
    using http_init_missing [of c name] by (auto simp: missing_http_fields_def)
  from u show "\<exists>e. HttpMCPStudio_add_server servers name c = Inl e"
    using http_init_missing [of c name] by (simp add: HttpMCPStudio_add_server_def)
next
  show "\<exists>s. MCPServer_init name c = Inr s \<and> ms_session s = None \<and> ms_exit_stack s = []"
    by (simp add: mcp_init_total)
next
  fix s
  assume a: "cd_command c = None \<and> (cd_transport c = None \<or> cd_transport c = Some ''stdio'') \<and>
           MCPServer_init name c = Inr s"
  then show "MCPServer_initialize env s =
           (Inl (ValueError (''Server '' @ name @ '' requires a command for stdio transport'')), s,
            [InitializeCalled name])"
    by (auto simp: mcp_init_total MCPServer_initialize_def Let_def)
qed

theorem C6_descriptor_validation_witness:
  "(\<exists>fs. HttpMCPServer_init ''calc'' no_config = Inl (ValidationError fs) \<and> ''url'' \<in> set fs)
   \<and> (\<exists>s. MCPServer_init ''files'' no_config = Inr s \<and>
          MCPServer_initialize quiet_proc_env s =
            (Inl (ValueError ''Server files requires a command for stdio transport''), s,
             [InitializeCalled ''files'']))"
proof -
  have u: "cd_url no_config = None" by (simp add: no_config_def)
  have k: "cd_command no_config = None \<and>
           (cd_transport no_config = None \<or> cd_transport no_config = Some ''stdio'')"
    by (simp add: no_config_def)
  from C6_descriptor_validation [of no_config "''calc''" "[]" quiet_proc_env] u
  have 1: "\<exists>fs. HttpMCPServer_init ''calc'' no_config = Inl (ValidationError fs) \<and> ''url'' \<in> set fs"
    by blast
  from C6_descriptor_validation [of no_config "''files''" "[]" quiet_proc_env] k
  have 2: "\<exists>s. MCPServer_init ''files'' no_config = Inr s \<and>
          MCPServer_initialize quiet_proc_env s =
            (Inl (ValueError ''Server files requires a command for stdio transport''), s,
             [InitializeCalled ''files''])"
    by (metis append_Cons append_Nil)
  from 1 2 show ?thesis by blast
qed

text \<open>
  The claim as stated fails for the subprocess kind: the descriptor \<open>no_config\<close> has no
  \<open>command\<close>, the server object is constructed from it, and the error only comes from
  \<open>initialize\<close>.
\<close>

theorem C6_counterexample:
  "MCPServer_init ''files'' no_config =
     Inr \<lparr> ms_name = ''files'',
           ms_config = \<lparr> sc_transport = ''stdio'', sc_command = None, sc_args = None,
                         sc_env = None, sc_url = None \<rparr>,
           ms_session = None, ms_exit_stack = [] \<rparr>
   \<and> fst (MCPServer_initialize quiet_proc_env
            \<lparr> ms_name = ''files'',
              ms_config = \<lparr> sc_transport = ''stdio'', sc_command = None, sc_args = None,
                            sc_env = None, sc_url = None \<rparr>,
              ms_session = None, ms_exit_stack = [] \<rparr>) =
       Inl (ValueError ''Server files requires a command for stdio transport'')"
  by (simp add: mcp_init_total no_config_def MCPServer_initialize_def Let_def)

section \<open>Execution: unknown names, exceptions, the approval gate\<close>

lemma find_none_iff: "find P xs = None \<longleftrightarrow> (\<forall>x\<in>set xs. \<not> P x)"
  by (induction xs) auto

lemma get_user_approval_events:
  "get_user_approval inputs = (b, evs, rest) \<Longrightarrow> set evs \<subseteq> {Prompted}"
proof (induction inputs arbitrary: b evs rest)
  case Nil
  then show ?case by auto
next
  case (Cons i inputs)
  show ?case
  proof (cases i)
    case (Line l)
    obtain b' evs' rest' where r: "get_user_approval inputs = (b', evs', rest')"
      by (cases "get_user_approval inputs") auto
    with Cons.IH have "set evs' \<subseteq> {Prompted}" by blast
    with Cons.prems Line r show ?thesis by (auto split: if_splits)
  next
    case KeyboardInterrupt
    with Cons.prems show ?thesis by auto
  next
    case (InputError m)
    with Cons.prems show ?thesis by auto
  qed
qed

lemma execute_returns:
  "\<exists>r evs rest. execute_tool_call env servers st c inputs = (Inr r, evs, rest)"
proof -
  obtain x evs rest where b: "execute_body env servers st c inputs = (x, evs, rest)"
    by (cases "execute_body env servers st c inputs") auto
  then show ?thesis
    by (cases x) (auto simp: execute_tool_call_def)
qed

lemma execute_unknown:
  "find_tool_by_name st (tc_tool c) = None \<Longrightarrow>
   execute_tool_call env servers st c inputs =
     (Inr \<lparr> tr_tool_name = tc_tool c, tr_success = False, tr_result = PNone,
            tr_error = Some (''Tool '' @ apo @ tc_tool c @ apo @ '' not found'') \<rparr>,
      [], inputs)"
  by (simp add: execute_tool_call_def execute_body_def)

text \<open>
  Claim C5. When no tool object held by the manager has the requested name, whatever the
  arguments, the approval mode and the console input, \<open>execute_tool_call\<close> returns (it does
  not raise) a \<open>ToolResult\<close> with \<open>success = False\<close> and the error text
  \<open>Tool '<name>' not found\<close>; nothing is prompted, nothing is invoked, no input is read.
\<close>

theorem C5_unknown_tool:
  "PStr (tc_tool c) \<notin> tool_name_of ` set (get_all_tools st) \<Longrightarrow>
   execute_tool_call env servers st c inputs =
     (Inr \<lparr> tr_tool_name = tc_tool c, tr_success = False, tr_result = PNone,
            tr_error = Some (''Tool '' @ apo @ tc_tool c @ apo @ '' not found'') \<rparr>,
      [], inputs)"
proof -
  assume "PStr (tc_tool c) \<notin> tool_name_of ` set (get_all_tools st)"
  then have "find_tool_by_name st (tc_tool c) = None"
    by (force simp: find_tool_by_name_def find_none_iff)
  then show ?thesis by (rule execute_unknown)
qed

lemma execute_open_gate:
  assumes f: "find_tool_by_name st (tc_tool c) = Some t"
    and g: "approval_enabled st \<longrightarrow> tool_info st (tc_tool c) \<noteq> None \<and> fst (get_user_approval inputs)"
  shows "fst (execute_body env servers st c inputs) = fst (dispatch env servers t c)"
proof (cases "approval_enabled st")
  case False
  with f show ?thesis
    by (simp add: execute_body_def split: prod.splits)
next
  case True
  with g obtain info where i: "tool_info st (tc_tool c) = Some info" and a: "fst (get_user_approval inputs)"
    by auto
  obtain evs rest where u: "get_user_approval inputs = (True, evs, rest)"
    using a by (cases "get_user_approval inputs") auto
  from f True i u show ?thesis
    by (simp add: execute_body_def display_tool_approval_request_def split: prod.splits)
qed

lemma execute_fst:
  "fst (execute_tool_call env servers st c inputs) =
     (case fst (execute_body env servers st c inputs) of
        Inr r \<Rightarrow> Inr r
      | Inl e \<Rightarrow> Inr \<lparr> tr_tool_name = tc_tool c, tr_success = False, tr_result = PNone,
                 tr_error = Some (''Error executing tool '' @ apo @ tc_tool c @ apo @ '': '' @ str_of e) \<rparr>)"
  by (auto simp: execute_tool_call_def split: prod.splits sum.splits)

text \<open>
  Claim C2, as amended. \<open>execute_tool_call\<close> always returns a \<open>ToolResult\<close> and never
  raises: every exception \<open>e\<close> of its \<open>try\<close> block is converted into a result with
  \<open>success = False\<close> and the error text \<open>Error executing tool '<name>': <str(e)>\<close>. So it is
  when the gate lets the call through and the method picked on a tool object from outside
  raises \<open>e\<close>, and when the approval display raises because the manager holds no descriptor
  under the name (whatever the console would answer: nothing is prompted, nothing is
  invoked). For the wrapper of a plain-http tool the exception of the transport
  (\<open>call_tool\<close>) never reaches \<open>execute_tool_call\<close>: \<open>_arun\<close> has caught it and returned the
  text \<open>Error executing HTTP tool <name>: <str(e)>\<close>, which \<open>execute_tool_call\<close> reports with
  \<open>success = True\<close>.
\<close>

theorem C2_execute_normalizes:
  "(\<exists>r evs rest. execute_tool_call env servers st c inputs = (Inr r, evs, rest))
   \<and> (\<forall>e. fst (execute_body env servers st c inputs) = Inl e \<longrightarrow>
         fst (execute_tool_call env servers st c inputs) =
           Inr \<lparr> tr_tool_name = tc_tool c, tr_success = False, tr_result = PNone,
                  tr_error = Some (''Error executing tool '' @ apo @ tc_tool c @ apo @ '': '' @ str_of e) \<rparr>)
   \<and> (\<forall>t. find_tool_by_name st (tc_tool c) = Some t \<and> approval_enabled st \<and>
           tool_info st (tc_tool c) = None
       \<longrightarrow> execute_tool_call env servers st c inputs =
             (Inr \<lparr> tr_tool_name = tc_tool c, tr_success = False, tr_result = PNone,
                     tr_error = Some (''Error executing tool '' @ apo @ tc_tool c @ apo @ '': '' @
                                       apo @ ''NoneType'' @ apo @ '' object has no attribute '' @
                                       apo @ ''description'' @ apo) \<rparr>,
              [ApprovalRequested (tc_tool c) (tc_arguments c)], inputs))
   \<and> (\<forall>t k m e.
         find_tool_by_name st (tc_tool c) = Some t \<and> obj t = Given k \<and> select_method t = Some m \<and>
         invoke env t m (tc_arguments c) = Inl e \<and>
         (approval_enabled st \<longrightarrow> tool_info st (tc_tool c) \<noteq> None \<and> fst (get_user_approval inputs))
       \<longrightarrow> fst (execute_tool_call env servers st c inputs) =
             Inr \<lparr> tr_tool_name = tc_tool c, tr_success = False, tr_result = PNone,
                    tr_error = Some (''Error executing tool '' @ apo @ tc_tool c @ apo @ '': '' @ str_of e) \<rparr>)
   \<and> (\<forall>t i n e.
         find_tool_by_name st (tc_tool c) = Some t \<and> obj t = HttpMCPTool i n \<and> i < length servers \<and>
         select_method t \<noteq> None \<and>
         fst (call_tool env (servers ! i) n (tc_arguments c)) = Inl e \<and>
         (approval_enabled st \<longrightarrow> tool_info st (tc_tool c) \<noteq> None \<and> fst (get_user_approval inputs))
       \<longrightarrow> fst (execute_tool_call env servers st c inputs) =
             Inr \<lparr> tr_tool_name = tc_tool c, tr_success = True,
                    tr_result = PStr (''Error executing HTTP tool '' @ fmt env n @ '': '' @ str_of e),
                    tr_error = None \<rparr>)"
proof (intro conjI allI impI)
  show "\<exists>r evs rest. execute_tool_call env servers st c inputs = (Inr r, evs, rest)"
    by (rule execute_returns)
next
  fix e
  assume "fst (execute_body env servers st c inputs) = Inl e"
  then show "fst (execute_tool_call env servers st c inputs) =
           Inr \<lparr> tr_tool_name = tc_tool c, tr_success = False, tr_result = PNone,
                  tr_error = Some (''Error executing tool '' @ apo @ tc_tool c @ apo @ '': '' @ str_of e) \<rparr>"
    by (simp add: execute_fst)
next
  fix t
  assume "find_tool_by_name st (tc_tool c) = Some t \<and> approval_enabled st \<and>
           tool_info st (tc_tool c) = None"
  then show "execute_tool_call env servers st c inputs =
             (Inr \<lparr> tr_tool_name = tc_tool c, tr_success = False, tr_result = PNone,
                     tr_error = Some (''Error executing tool '' @ apo @ tc_tool c @ apo @ '': '' @
                                       apo @ ''NoneType'' @ apo @ '' object has no attribute '' @
                                       apo @ ''description'' @ apo) \<rparr>,
              [ApprovalRequested (tc_tool c) (tc_arguments c)], inputs)"
    by (simp add: execute_tool_call_def execute_body_def display_tool_approval_request_def
        no_attribute_def type_name_def)
next
  fix t k m e
  assume a: "find_tool_by_name st (tc_tool c) = Some t \<and> obj t = Given k \<and> select_method t = Some m \<and>
         invoke env t m (tc_arguments c) = Inl e \<and>
         (approval_enabled st \<longrightarrow> tool_info st (tc_tool c) \<noteq> None \<and> fst (get_user_approval inputs))"
  then have "fst (execute_body env servers st c inputs) = fst (dispatch env servers t c)"
    using execute_open_gate by blast
  moreover from a have "fst (dispatch env servers t c) = Inl e"
    by (simp add: dispatch_def run_tool_def)
  ultimately show "fst (execute_tool_call env servers st c inputs) =
             Inr \<lparr> tr_tool_name = tc_tool c, tr_success = False, tr_result = PNone,
                    tr_error = Some (''Error executing tool '' @ apo @ tc_tool c @ apo @ '': '' @ str_of e) \<rparr>"
    by (simp add: execute_fst)
next
  fix t i n e
  assume a: "find_tool_by_name st (tc_tool c) = Some t \<and> obj t = HttpMCPTool i n \<and> i < length servers \<and>
         select_method t \<noteq> None \<and>
         fst (call_tool env (servers ! i) n (tc_arguments c)) = Inl e \<and>
         (approval_enabled st \<longrightarrow> tool_info st (tc_tool c) \<noteq> None \<and> fst (get_user_approval inputs))"
  then have "fst (execute_body env servers st c inputs) = fst (dispatch env servers t c)"
    using execute_open_gate by blast
  moreover from a have "fst (dispatch env servers t c) =
      Inr \<lparr> tr_tool_name = tc_tool c, tr_success = True,
                    tr_result = PStr (''Error executing HTTP tool '' @ fmt env n @ '': '' @ str_of e),
                    tr_error = None \<rparr>"
    by (auto simp: dispatch_def run_tool_def HttpMCPTool_arun_def split: prod.splits sum.splits)
  ultimately show "fst (execute_tool_call env servers st c inputs) =
             Inr \<lparr> tr_tool_name = tc_tool c, tr_success = True,
                    tr_result = PStr (''Error executing HTTP tool '' @ fmt env n @ '': '' @ str_of e),
                    tr_error = None \<rparr>"
    by (simp add: execute_fst)
qed

lemma execute_disapproved:
  "approval_enabled st \<Longrightarrow> \<not> fst (get_user_approval inputs) \<Longrightarrow>
   (\<exists>r evs rest.
      execute_tool_call env servers st c inputs = (Inr r, evs, rest) \<and>
      \<not> tr_success r \<and>
      filter is_transport_event evs = [] \<and>
      (find_tool_by_name st (tc_tool c) \<noteq> None \<and> tool_info st (tc_tool c) \<noteq> None \<longrightarrow>
         tr_error r = Some ''Tool execution disapproved by user'' \<and> tr_result r = PNone \<and>
         evs = ApprovalRequested (tc_tool c) (tc_arguments c) # fst (snd (get_user_approval inputs))))"
proof -
  assume en: "approval_enabled st" and rej: "\<not> fst (get_user_approval inputs)"
  obtain pevs rest where u: "get_user_approval inputs = (False, pevs, rest)"
    using rej by (cases "get_user_approval inputs") auto
  then have p: "set pevs \<subseteq> {Prompted}" by (rule get_user_approval_events)
  then have q: "filter is_transport_event pevs = []"
    by (auto simp: filter_empty_conv)
  show ?thesis
  proof (cases "find_tool_by_name st (tc_tool c)")
    case None
    then show ?thesis by (simp add: execute_unknown)
  next
    case (Some t)
    show ?thesis
    proof (cases "tool_info st (tc_tool c)")
      case None
      with Some en show ?thesis
        by (simp add: execute_tool_call_def execute_body_def display_tool_approval_request_def)
    next
      case (Some info)
      with \<open>find_tool_by_name st (tc_tool c) = Some t\<close> en u q show ?thesis
        by (simp add: execute_tool_call_def execute_body_def display_tool_approval_request_def)
    qed
  qed
qed

text \<open>
  Claim C4. With approval mode enabled and an answer at the console that is not an
  approval (\<open>2\<close>, the end of the input, an interrupt or an error while reading),
  \<open>execute_tool_call\<close> returns a \<open>ToolResult\<close> with \<open>success = False\<close>, and its events hold no
  tool invocation and no request on the wire, for every tool and every argument map. When
  the tool is found and has a descriptor, the error text is
  \<open>Tool execution disapproved by user\<close> (it ends with the words \<open>disapproved by user\<close>) and
  the events are the approval request followed by the prompts.
\<close>

theorem C4_disapproval:
  "approval_enabled st \<Longrightarrow> \<not> fst (get_user_approval inputs) \<Longrightarrow>
   (\<exists>r evs rest.
      execute_tool_call env servers st c inputs = (Inr r, evs, rest) \<and>
      \<not> tr_success r \<and>
      filter is_transport_event evs = [] \<and>
      (find_tool_by_name st (tc_tool c) \<noteq> None \<and> tool_info st (tc_tool c) \<noteq> None \<longrightarrow>
         tr_error r = Some ''Tool execution disapproved by user'' \<and>
         (\<exists>p. tr_error r = Some (p @ ''disapproved by user'')) \<and>
         tr_result r = PNone \<and>
         evs = ApprovalRequested (tc_tool c) (tc_arguments c) # fst (snd (get_user_approval inputs))))"
proof -
  assume en: "approval_enabled st" and rej: "\<not> fst (get_user_approval inputs)"
  from execute_disapproved [OF en rej, of env servers c]
  obtain r evs rest where h:
    "execute_tool_call env servers st c inputs = (Inr r, evs, rest)" "\<not> tr_success r"
    "filter is_transport_event evs = []"
    "find_tool_by_name st (tc_tool c) \<noteq> None \<and> tool_info st (tc_tool c) \<noteq> None \<longrightarrow>
       tr_error r = Some ''Tool execution disapproved by user'' \<and> tr_result r = PNone \<and>
       evs = ApprovalRequested (tc_tool c) (tc_arguments c) # fst (snd (get_user_approval inputs))"
    by blast
  have "''Tool execution disapproved by user'' = ''Tool execution '' @ ''disapproved by user''"
    by simp
  then have "tr_error r = Some ''Tool execution disapproved by user'' \<Longrightarrow>
             \<exists>p. tr_error r = Some (p @ ''disapproved by user'')"
    by metis
  with h show ?thesis by blast
qed

lemma calc_loaded:
  "after_ops [SetApprovalMode False, LoadHttpTools down_env [calc_server]] =
     \<lparr> mcp_tools = [], http_tools = [add_tool], custom_tools = [], see_tools = [], all_tools = [],
       tool_info = [''add'' \<mapsto> \<lparr> ti_name = ''add'', ti_description = ''HTTP/SSE MCP tool'',
                                  ti_source = ''http_server:calc'', ti_parameters = [],
                                  ti_category = ''http'' \<rparr>],
       approval_enabled = False \<rparr>"
  by (simp add: after_ops_def set_approval_mode_def ToolsManager_init_def load_http_tools_def
     HttpMCPServer_is_initialized_def calc_server_def load_http_server_def lower_def lower_char_def
     load_aiohttp_tools_def list_tools_def list_tools_aiohttp_def tool_endpoints_def list_request_def
     session_headers_def down_env_def parse_listing_def create_http_tool_def aiohttp_info_def add_tool_def)

lemma calc_call_fails:
  "fst (call_tool down_env calc_server (PStr ''add'') []) =
     Inl (ClientError ''All tool call methods failed: Connection refused'')"
  by (simp add: call_tool_def call_tool_aiohttp_def calc_server_def call_endpoints_def fmt_def
      call_request_def down_env_def session_headers_def call_rpc_request_def Let_def)

text \<open>
  The claim as stated fails for a plain-http tool: every call request to the server
  \<open>calc\<close> is refused, the transport raises \<open>ClientError\<close>, and \<open>execute_tool_call\<close> returns
  \<open>success = True\<close> with the error text as the result.
\<close>

theorem C2_counterexample:
  "fst (execute_tool_call down_env [calc_server]
          (after_ops [SetApprovalMode False, LoadHttpTools down_env [calc_server]])
          \<lparr> tc_tool = ''add'', tc_arguments = [] \<rparr> []) =
     Inr \<lparr> tr_tool_name = ''add'', tr_success = True,
            tr_result = PStr ''Error executing HTTP tool add: All tool call methods failed: Connection refused'',
            tr_error = None \<rparr>"
proof -
  obtain r evs where c: "call_tool down_env calc_server (PStr ''add'') [] = (r, evs)"
    by (cases "call_tool down_env calc_server (PStr ''add'') []") auto
  with calc_call_fails have r: "r = Inl (ClientError ''All tool call methods failed: Connection refused'')"
    by simp
  show ?thesis
    by (simp add: calc_loaded execute_tool_call_def execute_body_def find_tool_by_name_def
        get_all_tools_def tool_name_of_def add_tool_def dispatch_def select_method_def run_tool_def
        HttpMCPTool_arun_def fmt_def c r)
qed

lemma anon_loaded:
  "after_ops [LoadHttpTools anon_env [calc_server]] =
     \<lparr> mcp_tools = [], http_tools = [create_http_tool 0 [(''description'', PStr ''adds'')]],
       custom_tools = [], see_tools = [], all_tools = [],
       tool_info = [''calc_tool'' \<mapsto> \<lparr> ti_name = ''calc_tool'', ti_description = ''adds'',
                                        ti_source = ''http_server:calc'', ti_parameters = [],
                                        ti_category = ''http'' \<rparr>],
       approval_enabled = True \<rparr>"
  by (simp add: after_ops_def ToolsManager_init_def load_http_tools_def
     HttpMCPServer_is_initialized_def calc_server_def load_http_server_def lower_def lower_char_def
     load_aiohttp_tools_def list_tools_def list_tools_aiohttp_def tool_endpoints_def list_request_def
     session_headers_def down_env_def anon_env_def ok_response_def parse_listing_def aiohttp_info_def)

theorem C2_execute_normalizes_witness:
  "fst (execute_tool_call down_env []
          (after_ops [SetApprovalMode False, AddCustomTools [echo_tool]])
          \<lparr> tc_tool = ''echo'', tc_arguments = [] \<rparr> []) =
     Inr \<lparr> tr_tool_name = ''echo'', tr_success = False, tr_result = PNone,
            tr_error = Some (''Error executing tool '' @ apo @ ''echo'' @ apo @ '': boom'') \<rparr>
   \<and> execute_tool_call anon_env [calc_server] (after_ops [LoadHttpTools anon_env [calc_server]])
         \<lparr> tc_tool = ''http_tool'', tc_arguments = [] \<rparr> [Line ''1''] =
       (Inr \<lparr> tr_tool_name = ''http_tool'', tr_success = False, tr_result = PNone,
               tr_error = Some (''Error executing tool '' @ apo @ ''http_tool'' @ apo @ '': '' @
                                 apo @ ''NoneType'' @ apo @ '' object has no attribute '' @
                                 apo @ ''description'' @ apo) \<rparr>,
        [ApprovalRequested ''http_tool'' []], [Line ''1''])
   \<and> fst (execute_tool_call down_env [calc_server]
            (after_ops [SetApprovalMode False, LoadHttpTools down_env [calc_server]])
            \<lparr> tc_tool = ''add'', tc_arguments = [(''a'', PInt 1)] \<rparr> []) =
       Inr \<lparr> tr_tool_name = ''add'', tr_success = True,
              tr_result = PStr (''Error executing HTTP tool add: '' @
                                ''All tool call methods failed: Connection refused''),
              tr_error = None \<rparr>"
proof (intro conjI)
  let ?st = "after_ops [LoadHttpTools anon_env [calc_server]]"
  let ?c = "\<lparr> tc_tool = ''http_tool'', tc_arguments = [] \<rparr>"
  have h: "find_tool_by_name ?st (tc_tool ?c) =
             Some (create_http_tool 0 [(''description'', PStr ''adds'')]) \<and>
           approval_enabled ?st \<and> tool_info ?st (tc_tool ?c) = None"
    unfolding anon_loaded
    by (simp add: find_tool_by_name_def get_all_tools_def tool_name_of_def create_http_tool_def)
  from C2_execute_normalizes [of anon_env "[calc_server]" ?st ?c "[Line ''1'']"] h
  have "execute_tool_call anon_env [calc_server] ?st ?c [Line ''1''] =
       (Inr \<lparr> tr_tool_name = tc_tool ?c, tr_success = False, tr_result = PNone,
               tr_error = Some (''Error executing tool '' @ apo @ tc_tool ?c @ apo @ '': '' @
                                 apo @ ''NoneType'' @ apo @ '' object has no attribute '' @
                                 apo @ ''description'' @ apo) \<rparr>,
        [ApprovalRequested (tc_tool ?c) (tc_arguments ?c)], [Line ''1''])"
    by blast
  then show "execute_tool_call anon_env [calc_server] ?st ?c [Line ''1''] =
       (Inr \<lparr> tr_tool_name = ''http_tool'', tr_success = False, tr_result = PNone,
               tr_error = Some (''Error executing tool '' @ apo @ ''http_tool'' @ apo @ '': '' @
                                 apo @ ''NoneType'' @ apo @ '' object has no attribute '' @
                                 apo @ ''description'' @ apo) \<rparr>,
        [ApprovalRequested ''http_tool'' []], [Line ''1''])"
    by simp
next
  let ?st = "after_ops [SetApprovalMode False, LoadHttpTools down_env [calc_server]]"
  let ?c = "\<lparr> tc_tool = ''add'', tc_arguments = [(''a'', PInt 1)] \<rparr>"
  let ?e = "ClientError ''All tool call methods failed: Connection refused''"
  have k: "fst (call_tool down_env ([calc_server] ! 0) (PStr ''add'') (tc_arguments ?c)) = Inl ?e"
    by (simp add: call_tool_def call_tool_aiohttp_def calc_server_def call_endpoints_def fmt_def
        call_request_def down_env_def session_headers_def call_rpc_request_def Let_def)
  have h: "find_tool_by_name ?st (tc_tool ?c) = Some add_tool \<and>
           obj add_tool = HttpMCPTool 0 (PStr ''add'') \<and> 0 < length [calc_server] \<and>
           select_method add_tool \<noteq> None \<and>
           (approval_enabled ?st \<longrightarrow> tool_info ?st (tc_tool ?c) \<noteq> None \<and> fst (get_user_approval []))"
    unfolding calc_loaded
    by (simp add: find_tool_by_name_def get_all_tools_def tool_name_of_def add_tool_def
        select_method_def)
  from C2_execute_normalizes [of down_env "[calc_server]" ?st ?c "[]"] h k
  have "fst (execute_tool_call down_env [calc_server] ?st ?c []) =
          Inr \<lparr> tr_tool_name = tc_tool ?c, tr_success = True,
                 tr_result = PStr (''Error executing HTTP tool '' @ fmt down_env (PStr ''add'') @ '': '' @
                                   str_of ?e),
                 tr_error = None \<rparr>"
    by blast
  then show "fst (execute_tool_call down_env [calc_server] ?st ?c []) =
       Inr \<lparr> tr_tool_name = ''add'', tr_success = True,
              tr_result = PStr (''Error executing HTTP tool add: '' @
                                ''All tool call methods failed: Connection refused''),
              tr_error = None \<rparr>"
    by (simp add: fmt_def)
next
  let ?st = "after_ops [SetApprovalMode False, AddCustomTools [echo_tool]]"
  let ?c = "\<lparr> tc_tool = ''echo'', tc_arguments = [] \<rparr>"
  have st: "?st = \<lparr> mcp_tools = [], http_tools = [], custom_tools = [echo_tool], see_tools = [],
                    all_tools = [], tool_info = [''echo'' \<mapsto> custom_info ''echo'' echo_tool],
                    approval_enabled = False \<rparr>"
    by (simp add: after_ops_def set_approval_mode_def ToolsManager_init_def
        tool_name_of_def echo_tool_def)
  have h: "find_tool_by_name ?st (tc_tool ?c) = Some echo_tool \<and> obj echo_tool = Given 1 \<and>
           select_method echo_tool = Some Ainvoke \<and>
           invoke down_env echo_tool Ainvoke (tc_arguments ?c) = Inl (OtherError ''boom'') \<and>
           (approval_enabled ?st \<longrightarrow> tool_info ?st (tc_tool ?c) \<noteq> None \<and> fst (get_user_approval []))"
    unfolding st
    by (simp add: find_tool_by_name_def get_all_tools_def tool_name_of_def echo_tool_def
        select_method_def down_env_def)
  from C2_execute_normalizes [of down_env "[]" ?st ?c "[]"] h
  have "fst (execute_tool_call down_env [] ?st ?c []) =
          Inr \<lparr> tr_tool_name = tc_tool ?c, tr_success = False, tr_result = PNone,
                 tr_error = Some (''Error executing tool '' @ apo @ tc_tool ?c @ apo @ '': '' @
                                   str_of (OtherError ''boom'')) \<rparr>"
    by blast
  then show "fst (execute_tool_call down_env [] ?st ?c []) =
     Inr \<lparr> tr_tool_name = ''echo'', tr_success = False, tr_result = PNone,
            tr_error = Some (''Error executing tool '' @ apo @ ''echo'' @ apo @ '': boom'') \<rparr>"
    by simp
qed

theorem C5_unknown_tool_witness:
  "execute_tool_call down_env [] (after_ops [AddCustomTools [echo_tool]])
     \<lparr> tc_tool = ''delete_everything'', tc_arguments = [(''path'', PStr ''/'')] \<rparr> [Line ''1''] =
     (Inr \<lparr> tr_tool_name = ''delete_everything'', tr_success = False, tr_result = PNone,
            tr_error = Some (''Tool '' @ apo @ ''delete_everything'' @ apo @ '' not found'') \<rparr>,
      [], [Line ''1''])"
proof -
  let ?st = "after_ops [AddCustomTools [echo_tool]]"
  let ?c = "\<lparr> tc_tool = ''delete_everything'', tc_arguments = [(''path'', PStr ''/'')] \<rparr>"
  have "PStr (tc_tool ?c) \<notin> tool_name_of ` set (get_all_tools ?st)"
    by (simp add: after_ops_def ToolsManager_init_def get_all_tools_def
        tool_name_of_def echo_tool_def)
  from C5_unknown_tool [OF this, of down_env "[]" "[Line ''1'']"] show ?thesis by simp
qed

theorem C4_disapproval_witness:
  "\<exists>r rest.
     execute_tool_call down_env [] (after_ops [AddCustomTools [echo_tool]])
       \<lparr> tc_tool = ''echo'', tc_arguments = [(''message'', PStr ''hi'')] \<rparr>
       [Line ''maybe'', Line '' 2 ''] =
       (Inr r, [ApprovalRequested ''echo'' [(''message'', PStr ''hi'')], Prompted, Prompted], rest) \<and>
     \<not> tr_success r \<and> tr_error r = Some ''Tool execution disapproved by user''"
proof -
  let ?st = "after_ops [AddCustomTools [echo_tool]]"
  let ?c = "\<lparr> tc_tool = ''echo'', tc_arguments = [(''message'', PStr ''hi'')] \<rparr>"
  let ?in = "[Line ''maybe'', Line '' 2 '']"
  have st: "?st = \<lparr> mcp_tools = [], http_tools = [], custom_tools = [echo_tool], see_tools = [],
                    all_tools = [], tool_info = [''echo'' \<mapsto> custom_info ''echo'' echo_tool],
                    approval_enabled = True \<rparr>"
    by (simp add: after_ops_def ToolsManager_init_def
        tool_name_of_def echo_tool_def)
  have g: "get_user_approval ?in = (False, [Prompted, Prompted], [])"
    by (simp add: strip_def is_space_def)
  have en: "approval_enabled ?st" unfolding st by simp
  have rej: "\<not> fst (get_user_approval ?in)" unfolding g by simp
  have f: "find_tool_by_name ?st (tc_tool ?c) \<noteq> None \<and> tool_info ?st (tc_tool ?c) \<noteq> None"
    unfolding st
    by (simp add: find_tool_by_name_def get_all_tools_def tool_name_of_def echo_tool_def)
  from C4_disapproval [OF en rej, of down_env "[]" ?c] f
  obtain r evs rest where
    "execute_tool_call down_env [] ?st ?c ?in = (Inr r, evs, rest)"
    "\<not> tr_success r" "tr_error r = Some ''Tool execution disapproved by user''"
    "evs = ApprovalRequested (tc_tool ?c) (tc_arguments ?c) # fst (snd (get_user_approval ?in))"
    by blast
  then show ?thesis unfolding g by simp
qed

lemma store_info_approval [simp]:
  "approval_enabled (st\<lparr>tool_info := m\<rparr>) = approval_enabled st"
  by simp

lemma load_mcp_server_approval:
  "approval_enabled (load_mcp_server env server st) = approval_enabled st"
  by (simp add: load_mcp_server_def split: sum.splits)

lemma fold_load_mcp_approval:
  "approval_enabled (fold (load_mcp_server env) servers st) = approval_enabled st"
  by (induction servers arbitrary: st) (simp_all add: load_mcp_server_approval)

lemma aiohttp_register_approval:
  "approval_enabled (aiohttp_register i n ds st) = approval_enabled st"
proof (induction ds arbitrary: st)
  case Nil
  show ?case by simp
next
  case (Cons d ds)
  show ?case
    by (cases d) (simp_all add: Cons.IH split: option.splits)
qed

lemma load_http_server_approval:
  "approval_enabled (load_http_server env ix st) = approval_enabled st"
  by (simp add: load_http_server_def load_langchain_tools_def load_aiohttp_tools_def
      aiohttp_register_approval split: option.splits sum.splits pyval.splits)

lemma fold_load_http_approval:
  "approval_enabled (fold (load_http_server env) servers st) = approval_enabled st"
  by (induction servers arbitrary: st) (simp_all add: load_http_server_approval)

lemma add_custom_tools_frame:
  "approval_enabled (snd (add_custom_tools st ts)) = approval_enabled st \<and>
   mcp_tools (snd (add_custom_tools st ts)) = mcp_tools st \<and>
   http_tools (snd (add_custom_tools st ts)) = http_tools st \<and>
   see_tools (snd (add_custom_tools st ts)) = see_tools st \<and>
   (\<exists>ys. custom_tools (snd (add_custom_tools st ts)) = custom_tools st @ ys)"
proof (induction ts arbitrary: st)
  case Nil
  show ?case by simp
next
  case (Cons t ts)
  show ?case
  proof (cases "tool_name_of t")
    case (PStr n)
    let ?st = "st\<lparr>custom_tools := custom_tools st @ [t],
                    tool_info := (tool_info st)(n \<mapsto> custom_info n t)\<rparr>"
    have step: "add_custom_tools st (t # ts) = add_custom_tools ?st ts"
      using PStr by simp
    from Cons.IH [of ?st] show ?thesis unfolding step by auto
  qed simp_all
qed

lemma add_see_tools_frame:
  "approval_enabled (snd (add_see_tools st ts)) = approval_enabled st \<and>
   mcp_tools (snd (add_see_tools st ts)) = mcp_tools st \<and>
   http_tools (snd (add_see_tools st ts)) = http_tools st \<and>
   custom_tools (snd (add_see_tools st ts)) = custom_tools st \<and>
   (\<exists>ys. see_tools (snd (add_see_tools st ts)) = see_tools st @ ys)"
proof (induction ts arbitrary: st)
  case Nil
  show ?case by simp
next
  case (Cons t ts)
  show ?case
  proof (cases "tool_name_of t")
    case (PStr n)
    let ?st = "st\<lparr>see_tools := see_tools st @ [t],
                    tool_info := (tool_info st)(n \<mapsto> see_info n t)\<rparr>"
    have step: "add_see_tools st (t # ts) = add_see_tools ?st ts"
      using PStr by simp
    from Cons.IH [of ?st] show ?thesis unfolding step by auto
  qed simp_all
qed

lemma apply_op_approval:
  "op \<noteq> SetApprovalMode False \<Longrightarrow> approval_enabled st \<Longrightarrow> approval_enabled (apply_op op st)"
  by (cases op)
     (simp_all add: load_mcp_tools_def load_http_tools_def add_custom_tools_frame
        add_see_tools_frame set_approval_mode_def fold_load_mcp_approval fold_load_http_approval)

lemma fold_apply_op_approval:
  "SetApprovalMode False \<notin> set ops \<Longrightarrow> approval_enabled st \<Longrightarrow>
     approval_enabled (fold apply_op ops st)"
proof (induction ops arbitrary: st)
  case Nil
  then show ?case by simp
next
  case (Cons op ops)
  then have "approval_enabled (apply_op op st)"
    by (auto intro: apply_op_approval)
  with Cons show ?case by simp
qed

lemma gated_execute:
  assumes en: "approval_enabled st" and f: "find_tool_by_name st (tc_tool c) = Some t"
  shows "\<exists>r evs rest.
           execute_tool_call env servers st c inputs =
             (Inr r, ApprovalRequested (tc_tool c) (tc_arguments c) # evs, rest) \<and>
           ((\<exists>ev\<in>set evs. is_transport_event ev) \<longrightarrow>
              tool_info st (tc_tool c) \<noteq> None \<and> fst (get_user_approval inputs))"
proof (cases "tool_info st (tc_tool c)")
  case None
  with en f show ?thesis
    by (simp add: execute_tool_call_def execute_body_def display_tool_approval_request_def)
next
  case (Some info)
  obtain b pevs rest where u: "get_user_approval inputs = (b, pevs, rest)"
    by (cases "get_user_approval inputs") auto
  then have p: "set pevs \<subseteq> {Prompted}" by (rule get_user_approval_events)
  show ?thesis
  proof (cases b)
    case False
    with en f Some u p show ?thesis
      by (auto simp: execute_tool_call_def execute_body_def display_tool_approval_request_def)
  next
    case True
    obtain x devs where d: "dispatch env servers t c = (x, devs)"
      by (cases "dispatch env servers t c") auto
    with en f Some u True show ?thesis
      by (cases x)
         (auto simp: execute_tool_call_def execute_body_def display_tool_approval_request_def)
  qed
qed

text \<open>
  Claim C10. A fresh manager has approval mode enabled, and it stays enabled through every
  history of loading and registering in which \<open>set_approval_mode(False)\<close> does not occur.
  In such a state, executing a name that resolves to a tool starts with the approval
  request, before anything else happens; a tool invocation or a request on the wire occurs
  in the rest of the events only when the descriptor is there and the console answer is an
  approval.
\<close>

theorem C10_fresh_manager_gates:
  "approval_enabled ToolsManager_init \<and>
   (SetApprovalMode False \<notin> set ops \<and> find_tool_by_name (after_ops ops) (tc_tool c) \<noteq> None \<longrightarrow>
      approval_enabled (after_ops ops) \<and>
      (\<exists>r evs rest.
         execute_tool_call env servers (after_ops ops) c inputs =
           (Inr r, ApprovalRequested (tc_tool c) (tc_arguments c) # evs, rest) \<and>
         ((\<exists>ev\<in>set evs. is_transport_event ev) \<longrightarrow>
            tool_info (after_ops ops) (tc_tool c) \<noteq> None \<and> fst (get_user_approval inputs))))"
proof (intro conjI impI)
  show i: "approval_enabled ToolsManager_init" by (simp add: ToolsManager_init_def)
  assume a: "SetApprovalMode False \<notin> set ops \<and> find_tool_by_name (after_ops ops) (tc_tool c) \<noteq> None"
  with i show en: "approval_enabled (after_ops ops)"
    by (simp add: after_ops_def fold_apply_op_approval)
  from a obtain t where "find_tool_by_name (after_ops ops) (tc_tool c) = Some t" by auto
  with en show "\<exists>r evs rest.
         execute_tool_call env servers (after_ops ops) c inputs =
           (Inr r, ApprovalRequested (tc_tool c) (tc_arguments c) # evs, rest) \<and>
         ((\<exists>ev\<in>set evs. is_transport_event ev) \<longrightarrow>
            tool_info (after_ops ops) (tc_tool c) \<noteq> None \<and> fst (get_user_approval inputs))"
    by (rule gated_execute)
qed

theorem C10_fresh_manager_gates_witness:
  "\<exists>r evs rest.
     execute_tool_call ok_env [] (after_ops [AddCustomTools [echo_tool], SetApprovalMode True])
       \<lparr> tc_tool = ''echo'', tc_arguments = [(''message'', PStr ''hi'')] \<rparr> [Line ''1''] =
       (Inr r, ApprovalRequested ''echo'' [(''message'', PStr ''hi'')] # evs, rest)"
proof -
  let ?ops = "[AddCustomTools [echo_tool], SetApprovalMode True]"
  let ?c = "\<lparr> tc_tool = ''echo'', tc_arguments = [(''message'', PStr ''hi'')] \<rparr>"
  have "SetApprovalMode False \<notin> set ?ops \<and> find_tool_by_name (after_ops ?ops) (tc_tool ?c) \<noteq> None"
    by (simp add: after_ops_def ToolsManager_init_def set_approval_mode_def
        find_tool_by_name_def get_all_tools_def tool_name_of_def echo_tool_def)
  with C10_fresh_manager_gates [of ?ops ?c ok_env "[]" "[Line ''1'']"]
  show ?thesis by auto
qed

section \<open>Registration: descriptors and resolution\<close>

lemma store_info_last:
  "\<forall>t\<in>set ts. \<exists>n. tool_name_of t = PStr n \<Longrightarrow>
   store_info mk ts m x =
     (case filter (\<lambda>t. tool_name_of t = PStr x) ts of
        [] \<Rightarrow> m x
      | f # fs \<Rightarrow> Some (mk x (last (f # fs))))"
proof (induction ts arbitrary: m)
  case Nil
  show ?case by simp
next
  case (Cons t ts)
  then obtain n where n: "tool_name_of t = PStr n" by auto
  from Cons.prems have "\<forall>t\<in>set ts. \<exists>n. tool_name_of t = PStr n" by simp
  then have "store_info mk ts (m(n \<mapsto> mk n t)) x =
     (case filter (\<lambda>t. tool_name_of t = PStr x) ts of
        [] \<Rightarrow> (m(n \<mapsto> mk n t)) x
      | f # fs \<Rightarrow> Some (mk x (last (f # fs))))"
    by (rule Cons.IH)
  with n show ?case
    by (simp split: list.splits)
qed

lemma store_info_named:
  assumes "\<forall>t\<in>set ts. \<exists>n. tool_name_of t = PStr n"
    and "filter (\<lambda>t. tool_name_of t = PStr x) ts \<noteq> []"
  shows "store_info mk ts m x = Some (mk x (last (filter (\<lambda>t. tool_name_of t = PStr x) ts)))"
  using assms by (simp add: store_info_last split: list.splits)

lemma add_custom_tools_named:
  "\<forall>t\<in>set ts. \<exists>n. tool_name_of t = PStr n \<Longrightarrow>
   add_custom_tools st ts =
     (Inr (), st\<lparr>custom_tools := custom_tools st @ ts,
                  tool_info := store_info custom_info ts (tool_info st)\<rparr>)"
proof (induction ts arbitrary: st)
  case Nil
  show ?case by simp
next
  case (Cons t ts)
  then obtain n where n: "tool_name_of t = PStr n" by auto
  let ?st = "st\<lparr>custom_tools := custom_tools st @ [t],
                  tool_info := (tool_info st)(n \<mapsto> custom_info n t)\<rparr>"
  have step: "add_custom_tools st (t # ts) = add_custom_tools ?st ts"
    using n by simp
  from Cons.prems have "\<forall>t\<in>set ts. \<exists>n. tool_name_of t = PStr n" by simp
  then have "add_custom_tools ?st ts =
     (Inr (), ?st\<lparr>custom_tools := custom_tools ?st @ ts,
                   tool_info := store_info custom_info ts (tool_info ?st)\<rparr>)"
    by (rule Cons.IH)
  then show ?case unfolding step using n by simp
qed

lemma find_append_first:
  "find P (xs @ ys) = (case find P xs of None \<Rightarrow> find P ys | Some x \<Rightarrow> Some x)"
  by (induction xs) auto

lemma find_append_hit: "find P xs = Some u \<Longrightarrow> find P (xs @ ys) = Some u"
  by (simp add: find_append_first)

lemma find_Some_mem: "find P xs = Some x \<Longrightarrow> x \<in> set xs \<and> P x"
  by (induction xs) (auto split: if_splits)

lemma find_mem_not_None: "x \<in> set xs \<Longrightarrow> P x \<Longrightarrow> find P xs \<noteq> None"
  by (induction xs) auto

lemma aiohttp_info_source:
  "aiohttp_info n kvs = Some info \<Longrightarrow> ti_source info = ''http_server:'' @ n"
  by (auto simp: aiohttp_info_def split: option.splits pyval.splits)

lemma aiohttp_register_source:
  "tool_info (aiohttp_register i n ds st) x = tool_info st x \<or>
   (\<exists>info. tool_info (aiohttp_register i n ds st) x = Some info \<and>
           ti_source info = ''http_server:'' @ n)"
proof (induction ds arbitrary: st)
  case Nil
  show ?case by simp
next
  case (Cons d ds)
  show ?case
  proof (cases d)
    case (PDict kvs)
    show ?thesis
    proof (cases "aiohttp_info n kvs")
      case None
      with PDict show ?thesis by simp
    next
      case (Some info)
      then have s: "ti_source info = ''http_server:'' @ n" by (rule aiohttp_info_source)
      let ?st = "st\<lparr>http_tools := http_tools st @ [create_http_tool i kvs],
                      tool_info := (tool_info st)(ti_name info \<mapsto> info)\<rparr>"
      from Cons.IH [of ?st] PDict Some s
      show ?thesis by (auto split: if_splits)
    qed
  qed simp_all
qed

lemma aiohttp_register_registers:
  assumes "\<forall>kvs\<in>set kvss. aiohttp_info n kvs \<noteq> None"
    and "kvs \<in> set kvss" and "aiohttp_info n kvs = Some info"
  shows "\<exists>info'. tool_info (aiohttp_register i n (map PDict kvss) st) (ti_name info) = Some info' \<and>
           ti_source info' = ''http_server:'' @ n"
  using assms
proof (induction kvss arbitrary: st)
  case Nil
  then show ?case by simp
next
  case (Cons kvs0 kvss)
  from Cons.prems(1) obtain info0 where i0: "aiohttp_info n kvs0 = Some info0" by auto
  let ?st = "st\<lparr>http_tools := http_tools st @ [create_http_tool i kvs0],
                  tool_info := (tool_info st)(ti_name info0 \<mapsto> info0)\<rparr>"
  have step: "aiohttp_register i n (map PDict (kvs0 # kvss)) st =
              aiohttp_register i n (map PDict kvss) ?st"
    using i0 by simp
  show ?case
  proof (cases "kvs \<in> set kvss")
    case True
    with Cons.IH [of ?st] Cons.prems
    have "\<exists>info'. tool_info (aiohttp_register i n (map PDict kvss) ?st) (ti_name info) = Some info' \<and>
           ti_source info' = ''http_server:'' @ n"
      by simp
    then show ?thesis unfolding step .
  next
    case False
    with Cons.prems(2) have "kvs = kvs0" by simp
    with i0 Cons.prems(3) have e: "info0 = info" by simp
    have s: "ti_source info = ''http_server:'' @ n"
      using Cons.prems(3) by (rule aiohttp_info_source)
    from aiohttp_register_source [of i n "map PDict kvss" ?st "ti_name info"] e s
    have "\<exists>info'. tool_info (aiohttp_register i n (map PDict kvss) ?st) (ti_name info) = Some info' \<and>
           ti_source info' = ''http_server:'' @ n"
      by auto
    then show ?thesis unfolding step .
  qed
qed

lemma aiohttp_register_lists:
  "\<forall>kvs\<in>set kvss. aiohttp_info n kvs \<noteq> None \<Longrightarrow>
   http_tools (aiohttp_register i n (map PDict kvss) st) =
     http_tools st @ map (create_http_tool i) kvss \<and>
   mcp_tools (aiohttp_register i n (map PDict kvss) st) = mcp_tools st \<and>
   custom_tools (aiohttp_register i n (map PDict kvss) st) = custom_tools st \<and>
   see_tools (aiohttp_register i n (map PDict kvss) st) = see_tools st"
proof (induction kvss arbitrary: st)
  case Nil
  show ?case by simp
next
  case (Cons kvs0 kvss)
  from Cons.prems obtain info0 where i0: "aiohttp_info n kvs0 = Some info0" by auto
  let ?st = "st\<lparr>http_tools := http_tools st @ [create_http_tool i kvs0],
                  tool_info := (tool_info st)(ti_name info0 \<mapsto> info0)\<rparr>"
  have step: "aiohttp_register i n (map PDict (kvs0 # kvss)) st =
              aiohttp_register i n (map PDict kvss) ?st"
    using i0 by simp
  from Cons.prems have "\<forall>kvs\<in>set kvss. aiohttp_info n kvs \<noteq> None" by simp
  from Cons.IH [OF this, of ?st] show ?case unfolding step by simp
qed

lemma store_langchain_source:
  "store_langchain_info n ts m x = m x \<or>
   (\<exists>info. store_langchain_info n ts m x = Some info \<and> ti_source info = ''http_server:'' @ n)"
proof (induction ts arbitrary: m)
  case Nil
  show ?case by simp
next
  case (Cons t ts)
  show ?case
  proof (cases "\<exists>nm d. name_attr t = Some (PStr nm) \<and> description_attr t = Some d")
    case False
    then show ?thesis by (auto split: option.splits pyval.splits)
  next
    case True
    then obtain nm d where nm: "name_attr t = Some (PStr nm)" and d: "description_attr t = Some d"
      by auto
    let ?i = "\<lparr> ti_name = nm, ti_description = d, ti_source = ''http_server:'' @ n,
                ti_parameters = (case args_schema_attr t of Some a \<Rightarrow> a | None \<Rightarrow> []),
                ti_category = ''http'' \<rparr>"
    have step: "store_langchain_info n (t # ts) m = store_langchain_info n ts (m(nm \<mapsto> ?i))"
      using nm d by simp
    have ih: "store_langchain_info n ts (m(nm \<mapsto> ?i)) x = (m(nm \<mapsto> ?i)) x \<or>
          (\<exists>info. store_langchain_info n ts (m(nm \<mapsto> ?i)) x = Some info \<and>
                  ti_source info = ''http_server:'' @ n)"
      by (rule Cons.IH)
    have "store_langchain_info n ts (m(nm \<mapsto> ?i)) x = m x \<or>
          (\<exists>info. store_langchain_info n ts (m(nm \<mapsto> ?i)) x = Some info \<and>
                  ti_source info = ''http_server:'' @ n)"
    proof (cases "x = nm")
      case True
      with ih show ?thesis by auto
    next
      case False
      with ih show ?thesis by auto
    qed
    then show ?thesis unfolding step .
  qed
qed

lemma store_langchain_registers:
  assumes "\<forall>t\<in>set ts. (\<exists>n. name_attr t = Some (PStr n)) \<and> description_attr t \<noteq> None"
    and "t \<in> set ts" and "tool_name_of t = PStr x"
  shows "\<exists>info. store_langchain_info n ts m x = Some info \<and>
           ti_source info = ''http_server:'' @ n"
  using assms
proof (induction ts arbitrary: m)
  case Nil
  then show ?case by simp
next
  case (Cons u ts)
  from Cons.prems(1) obtain nm d where nm: "name_attr u = Some (PStr nm)"
    and d: "description_attr u = Some d"
    by auto
  let ?i = "\<lparr> ti_name = nm, ti_description = d, ti_source = ''http_server:'' @ n,
              ti_parameters = (case args_schema_attr u of Some a \<Rightarrow> a | None \<Rightarrow> []),
              ti_category = ''http'' \<rparr>"
  have step: "store_langchain_info n (u # ts) m = store_langchain_info n ts (m(nm \<mapsto> ?i))"
    using nm d by simp
  show ?case
  proof (cases "t \<in> set ts")
    case True
    have "\<exists>info. store_langchain_info n ts (m(nm \<mapsto> ?i)) x = Some info \<and>
           ti_source info = ''http_server:'' @ n"
      using Cons.prems True by (intro Cons.IH) auto
    then show ?thesis unfolding step .
  next
    case False
    with Cons.prems(2) have "t = u" by simp
    with Cons.prems(3) nm have k: "x = nm" by (simp add: tool_name_of_def)
    have "store_langchain_info n ts (m(nm \<mapsto> ?i)) nm = (m(nm \<mapsto> ?i)) nm \<or>
          (\<exists>info. store_langchain_info n ts (m(nm \<mapsto> ?i)) nm = Some info \<and>
                  ti_source info = ''http_server:'' @ n)"
      by (rule store_langchain_source)
    then have "\<exists>info. store_langchain_info n ts (m(nm \<mapsto> ?i)) x = Some info \<and>
           ti_source info = ''http_server:'' @ n"
      unfolding k by auto
    then show ?thesis unfolding step .
  qed
qed

lemma find_tool_by_name_order:
  "find_tool_by_name st x =
     (case find (\<lambda>t. tool_name_of t = PStr x) (mcp_tools st) of
        Some t \<Rightarrow> Some t
      | None \<Rightarrow>
          (case find (\<lambda>t. tool_name_of t = PStr x) (http_tools st) of
             Some t \<Rightarrow> Some t
           | None \<Rightarrow>
               (case find (\<lambda>t. tool_name_of t = PStr x) (custom_tools st) of
                  Some t \<Rightarrow> Some t
                | None \<Rightarrow> find (\<lambda>t. tool_name_of t = PStr x) (see_tools st))))"
  by (simp add: find_tool_by_name_def get_all_tools_def find_append_first split: option.splits)

lemma dispatch_invokes:
  assumes "select_method t = Some m"
  shows "\<exists>r evs. dispatch env servers t c = (r, Invoked t m (tc_arguments c) # evs)"
  using assms
  by (cases "obj t") (auto simp: dispatch_def run_tool_def split: prod.splits sum.splits)

lemma execute_dispatches_found:
  assumes f: "find_tool_by_name st (tc_tool c) = Some t"
    and m: "select_method t = Some m"
    and g: "approval_enabled st \<longrightarrow> tool_info st (tc_tool c) \<noteq> None \<and> fst (get_user_approval inputs)"
  shows "\<exists>pre evs. fst (snd (execute_tool_call env servers st c inputs)) =
                     pre @ Invoked t m (tc_arguments c) # evs \<and>
                   filter is_transport_event pre = []"
proof -
  from dispatch_invokes [OF m, of env servers c]
  obtain r devs where d: "dispatch env servers t c = (r, Invoked t m (tc_arguments c) # devs)"
    by blast
  show ?thesis
  proof (cases "approval_enabled st")
    case False
    with f d have "fst (snd (execute_tool_call env servers st c inputs)) =
                     [] @ Invoked t m (tc_arguments c) # devs"
      by (cases r) (simp_all add: execute_tool_call_def execute_body_def)
    moreover have "filter is_transport_event [] = []" by simp
    ultimately show ?thesis by blast
  next
    case True
    with g obtain info where i: "tool_info st (tc_tool c) = Some info"
      and a: "fst (get_user_approval inputs)"
      by auto
    obtain pevs rest where u: "get_user_approval inputs = (True, pevs, rest)"
      using a by (cases "get_user_approval inputs") auto
    then have "set pevs \<subseteq> {Prompted}" by (rule get_user_approval_events)
    then have q: "filter is_transport_event (ApprovalRequested (tc_tool c) (tc_arguments c) # pevs) = []"
      by (auto simp: filter_empty_conv)
    from f True i u d have "fst (snd (execute_tool_call env servers st c inputs)) =
        (ApprovalRequested (tc_tool c) (tc_arguments c) # pevs) @ Invoked t m (tc_arguments c) # devs"
      by (cases r)
         (simp_all add: execute_tool_call_def execute_body_def display_tool_approval_request_def)
    with q show ?thesis by blast
  qed
qed


text \<open>
  Claim C1, as amended. The descriptors are a dictionary keyed by name, so there is at most
  one per name, and storing is last-write-wins: whatever the manager held before (in
  particular a descriptor of \<open>x\<close> from another source), after a registration that
  contains a tool named \<open>x\<close> the descriptor of \<open>x\<close> carries the source of that registration
  (\<open>custom\<close>, \<open>mcp_server:<name>\<close>, \<open>http_server:<name>\<close>), and for local and subprocess
  tools it is the descriptor of the last tool of that name in the registered list. (The
  registrations meant are those that go through: tools whose names are strings, adapter
  tools with a description, listing entries that validate.)

  The tool object dispatched under \<open>x\<close> is not decided by the descriptor. It is the first
  tool named \<open>x\<close> in the subprocess list, else in the network list, else in the local list,
  else in the SEE list; every registration appends its tools to the end of its own list.
  So after a registration the object found is one of the registered tools only when no
  tool named \<open>x\<close> stands in an earlier list or earlier in the same list, and a tool already
  held in the subprocess, network or local list keeps the name when local tools are
  registered later. The object found is the one that \<open>execute_tool_call\<close> invokes once the
  gate lets the call through: its invocation is the first event that reaches a tool or the
  wire.
\<close>

theorem C1_last_write_wins_descriptor:
  "((\<forall>t\<in>set ts. \<exists>n. tool_name_of t = PStr n) \<and>
    filter (\<lambda>t. tool_name_of t = PStr x) ts \<noteq> [] \<longrightarrow>
      fst (add_custom_tools st ts) = Inr () \<and>
      tool_info (snd (add_custom_tools st ts)) x =
        Some (custom_info x (last (filter (\<lambda>t. tool_name_of t = PStr x) ts))) \<and>
      map_option ti_source (tool_info (snd (add_custom_tools st ts)) x) = Some ''custom'')
   \<and> (load_tools_from_server penv server = Inr ts \<and>
       (\<forall>t\<in>set ts. \<exists>n. tool_name_of t = PStr n) \<and>
       filter (\<lambda>t. tool_name_of t = PStr x) ts \<noteq> [] \<longrightarrow>
      tool_info (load_mcp_server penv server st) x =
        Some (mcp_info (ms_name server) x (last (filter (\<lambda>t. tool_name_of t = PStr x) ts))) \<and>
      map_option ti_source (tool_info (load_mcp_server penv server st) x) =
        Some (''mcp_server:'' @ ms_name server))
   \<and> (langchain_client hserver \<noteq> None \<and> get_tools nenv (hs_name hserver) = Inr ts \<and>
       (\<forall>t\<in>set ts. (\<exists>n. name_attr t = Some (PStr n)) \<and> description_attr t \<noteq> None) \<and>
       PStr x \<in> tool_name_of ` set ts \<longrightarrow>
      map_option ti_source (tool_info (load_langchain_tools nenv hserver st) x) =
        Some (''http_server:'' @ hs_name hserver))
   \<and> (fst (list_tools nenv hserver) = Inr (PList (map PDict kvss)) \<and>
       (\<forall>kvs\<in>set kvss. aiohttp_info (hs_name hserver) kvs \<noteq> None) \<and>
       kvs \<in> set kvss \<and> aiohttp_info (hs_name hserver) kvs = Some info \<longrightarrow>
      map_option ti_source (tool_info (load_aiohttp_tools nenv i hserver st) (ti_name info)) =
        Some (''http_server:'' @ hs_name hserver))
   \<and> find_tool_by_name st x =
       (case find (\<lambda>t. tool_name_of t = PStr x) (mcp_tools st) of
          Some t \<Rightarrow> Some t
        | None \<Rightarrow>
            (case find (\<lambda>t. tool_name_of t = PStr x) (http_tools st) of
               Some t \<Rightarrow> Some t
             | None \<Rightarrow>
                 (case find (\<lambda>t. tool_name_of t = PStr x) (custom_tools st) of
                    Some t \<Rightarrow> Some t
                  | None \<Rightarrow> find (\<lambda>t. tool_name_of t = PStr x) (see_tools st))))
   \<and> (load_tools_from_server penv server = Inr ts \<longrightarrow>
      find_tool_by_name (load_mcp_server penv server st) x =
        (case find (\<lambda>t. tool_name_of t = PStr x) (mcp_tools st @ ts) of
           Some t \<Rightarrow> Some t
         | None \<Rightarrow>
             find (\<lambda>t. tool_name_of t = PStr x) (http_tools st @ custom_tools st @ see_tools st)))
   \<and> (langchain_client hserver \<noteq> None \<and> get_tools nenv (hs_name hserver) = Inr ts \<longrightarrow>
      find_tool_by_name (load_langchain_tools nenv hserver st) x =
        (case find (\<lambda>t. tool_name_of t = PStr x) (mcp_tools st @ http_tools st @ ts) of
           Some t \<Rightarrow> Some t
         | None \<Rightarrow> find (\<lambda>t. tool_name_of t = PStr x) (custom_tools st @ see_tools st)))
   \<and> (fst (list_tools nenv hserver) = Inr (PList (map PDict kvss)) \<and>
       (\<forall>kvs\<in>set kvss. aiohttp_info (hs_name hserver) kvs \<noteq> None) \<longrightarrow>
      find_tool_by_name (load_aiohttp_tools nenv i hserver st) x =
        (case find (\<lambda>t. tool_name_of t = PStr x)
                (mcp_tools st @ http_tools st @ map (create_http_tool i) kvss) of
           Some t \<Rightarrow> Some t
         | None \<Rightarrow> find (\<lambda>t. tool_name_of t = PStr x) (custom_tools st @ see_tools st)))
   \<and> ((\<forall>t\<in>set ts. \<exists>n. tool_name_of t = PStr n) \<longrightarrow>
      find_tool_by_name (snd (add_custom_tools st ts)) x =
        (case find (\<lambda>t. tool_name_of t = PStr x)
                (mcp_tools st @ http_tools st @ custom_tools st @ ts) of
           Some t \<Rightarrow> Some t
         | None \<Rightarrow> find (\<lambda>t. tool_name_of t = PStr x) (see_tools st)))
   \<and> (find_tool_by_name st x = Some held \<and>
       held \<in> set (mcp_tools st @ http_tools st @ custom_tools st) \<longrightarrow>
      find_tool_by_name (snd (add_custom_tools st ts)) x = Some held)
   \<and> (find_tool_by_name st (tc_tool c) = Some t \<and> select_method t = Some m \<and>
       (approval_enabled st \<longrightarrow>
          tool_info st (tc_tool c) \<noteq> None \<and> fst (get_user_approval inputs)) \<longrightarrow>
      (\<exists>pre evs. fst (snd (execute_tool_call env servers st c inputs)) =
                   pre @ Invoked t m (tc_arguments c) # evs \<and>
                 filter is_transport_event pre = []))"
proof (intro conjI impI)
  assume a: "(\<forall>t\<in>set ts. \<exists>n. tool_name_of t = PStr n) \<and>
    filter (\<lambda>t. tool_name_of t = PStr x) ts \<noteq> []"
  then have n: "add_custom_tools st ts =
     (Inr (), st\<lparr>custom_tools := custom_tools st @ ts,
                  tool_info := store_info custom_info ts (tool_info st)\<rparr>)"
    by (simp add: add_custom_tools_named)
  then show "fst (add_custom_tools st ts) = Inr ()" by simp
  from a show c: "tool_info (snd (add_custom_tools st ts)) x =
        Some (custom_info x (last (filter (\<lambda>t. tool_name_of t = PStr x) ts)))"
    unfolding n by (simp add: store_info_named)
  show "map_option ti_source (tool_info (snd (add_custom_tools st ts)) x) = Some ''custom''"
    by (simp add: c custom_info_def)
next
  assume a: "load_tools_from_server penv server = Inr ts \<and>
       (\<forall>t\<in>set ts. \<exists>n. tool_name_of t = PStr n) \<and>
       filter (\<lambda>t. tool_name_of t = PStr x) ts \<noteq> []"
  then show c: "tool_info (load_mcp_server penv server st) x =
        Some (mcp_info (ms_name server) x (last (filter (\<lambda>t. tool_name_of t = PStr x) ts)))"
    by (simp add: load_mcp_server_def store_info_named)
  show "map_option ti_source (tool_info (load_mcp_server penv server st) x) =
        Some (''mcp_server:'' @ ms_name server)"
    by (simp add: c mcp_info_def)
next
  assume a: "langchain_client hserver \<noteq> None \<and> get_tools nenv (hs_name hserver) = Inr ts \<and>
       (\<forall>t\<in>set ts. (\<exists>n. name_attr t = Some (PStr n)) \<and> description_attr t \<noteq> None) \<and>
       PStr x \<in> tool_name_of ` set ts"
  then obtain t where t: "t \<in> set ts" and x: "tool_name_of t = PStr x" by auto
  from a have w: "\<forall>t\<in>set ts. (\<exists>n. name_attr t = Some (PStr n)) \<and> description_attr t \<noteq> None"
    by simp
  from a store_langchain_registers [OF w t x, of "hs_name hserver" "tool_info st"]
  show "map_option ti_source (tool_info (load_langchain_tools nenv hserver st) x) =
        Some (''http_server:'' @ hs_name hserver)"
    by (auto simp: load_langchain_tools_def)
next
  assume a: "fst (list_tools nenv hserver) = Inr (PList (map PDict kvss)) \<and>
       (\<forall>kvs\<in>set kvss. aiohttp_info (hs_name hserver) kvs \<noteq> None) \<and>
       kvs \<in> set kvss \<and> aiohttp_info (hs_name hserver) kvs = Some info"
  with aiohttp_register_registers [of kvss "hs_name hserver" kvs info i st]
  show "map_option ti_source (tool_info (load_aiohttp_tools nenv i hserver st) (ti_name info)) =
        Some (''http_server:'' @ hs_name hserver)"
    by (auto simp: load_aiohttp_tools_def)
next
  show "find_tool_by_name st x =
       (case find (\<lambda>t. tool_name_of t = PStr x) (mcp_tools st) of
          Some t \<Rightarrow> Some t
        | None \<Rightarrow>
            (case find (\<lambda>t. tool_name_of t = PStr x) (http_tools st) of
               Some t \<Rightarrow> Some t
             | None \<Rightarrow>
                 (case find (\<lambda>t. tool_name_of t = PStr x) (custom_tools st) of
                    Some t \<Rightarrow> Some t
                  | None \<Rightarrow> find (\<lambda>t. tool_name_of t = PStr x) (see_tools st))))"
    by (rule find_tool_by_name_order)
next
  assume "load_tools_from_server penv server = Inr ts"
  then show "find_tool_by_name (load_mcp_server penv server st) x =
        (case find (\<lambda>t. tool_name_of t = PStr x) (mcp_tools st @ ts) of
           Some t \<Rightarrow> Some t
         | None \<Rightarrow>
             find (\<lambda>t. tool_name_of t = PStr x) (http_tools st @ custom_tools st @ see_tools st))"
    by (simp add: find_tool_by_name_def get_all_tools_def load_mcp_server_def find_append_first
        split: option.splits)
next
  assume "langchain_client hserver \<noteq> None \<and> get_tools nenv (hs_name hserver) = Inr ts"
  then show "find_tool_by_name (load_langchain_tools nenv hserver st) x =
        (case find (\<lambda>t. tool_name_of t = PStr x) (mcp_tools st @ http_tools st @ ts) of
           Some t \<Rightarrow> Some t
         | None \<Rightarrow> find (\<lambda>t. tool_name_of t = PStr x) (custom_tools st @ see_tools st))"
    by (auto simp: find_tool_by_name_def get_all_tools_def load_langchain_tools_def
        find_append_first split: option.splits)
next
  assume a: "fst (list_tools nenv hserver) = Inr (PList (map PDict kvss)) \<and>
       (\<forall>kvs\<in>set kvss. aiohttp_info (hs_name hserver) kvs \<noteq> None)"
  then have l: "load_aiohttp_tools nenv i hserver st =
                aiohttp_register i (hs_name hserver) (map PDict kvss) st"
    by (simp add: load_aiohttp_tools_def)
  from a have "\<forall>kvs\<in>set kvss. aiohttp_info (hs_name hserver) kvs \<noteq> None" by simp
  from aiohttp_register_lists [OF this, of i st]
  show "find_tool_by_name (load_aiohttp_tools nenv i hserver st) x =
        (case find (\<lambda>t. tool_name_of t = PStr x)
                (mcp_tools st @ http_tools st @ map (create_http_tool i) kvss) of
           Some t \<Rightarrow> Some t
         | None \<Rightarrow> find (\<lambda>t. tool_name_of t = PStr x) (custom_tools st @ see_tools st))"
    unfolding l
    by (simp add: find_tool_by_name_def get_all_tools_def find_append_first split: option.splits)
next
  assume "\<forall>t\<in>set ts. \<exists>n. tool_name_of t = PStr n"
  then have n: "add_custom_tools st ts =
     (Inr (), st\<lparr>custom_tools := custom_tools st @ ts,
                  tool_info := store_info custom_info ts (tool_info st)\<rparr>)"
    by (rule add_custom_tools_named)
  show "find_tool_by_name (snd (add_custom_tools st ts)) x =
        (case find (\<lambda>t. tool_name_of t = PStr x)
                (mcp_tools st @ http_tools st @ custom_tools st @ ts) of
           Some t \<Rightarrow> Some t
         | None \<Rightarrow> find (\<lambda>t. tool_name_of t = PStr x) (see_tools st))"
    unfolding n
    by (simp add: find_tool_by_name_def get_all_tools_def find_append_first split: option.splits)
next
  assume a: "find_tool_by_name st x = Some held \<and>
       held \<in> set (mcp_tools st @ http_tools st @ custom_tools st)"
  let ?P = "\<lambda>t. tool_name_of t = PStr x"
  let ?pre = "mcp_tools st @ http_tools st @ custom_tools st"
  let ?st = "snd (add_custom_tools st ts)"
  from add_custom_tools_frame [of st ts] obtain ys where
    fr: "mcp_tools ?st = mcp_tools st" "http_tools ?st = http_tools st"
        "see_tools ?st = see_tools st" "custom_tools ?st = custom_tools st @ ys"
    by blast
  from a have "?P held" by (auto simp: find_tool_by_name_def dest: find_Some_mem)
  from a have "held \<in> set ?pre" by simp
  from this \<open>?P held\<close> have ne: "find ?P ?pre \<noteq> None" by (rule find_mem_not_None)
  then obtain u where u: "find ?P ?pre = Some u" by auto
  have before: "find_tool_by_name st x = find ?P (?pre @ see_tools st)"
    by (simp add: find_tool_by_name_def get_all_tools_def)
  from u have "find ?P (?pre @ see_tools st) = Some u" by (rule find_append_hit)
  with before a have "u = held" by simp
  have after: "find_tool_by_name ?st x = find ?P (?pre @ (ys @ see_tools st))"
    by (simp add: find_tool_by_name_def get_all_tools_def fr)
  from u have "find ?P (?pre @ (ys @ see_tools st)) = Some u" by (rule find_append_hit)
  with after \<open>u = held\<close> show "find_tool_by_name ?st x = Some held"
    by simp
next
  assume "find_tool_by_name st (tc_tool c) = Some t \<and> select_method t = Some m \<and>
       (approval_enabled st \<longrightarrow>
          tool_info st (tc_tool c) \<noteq> None \<and> fst (get_user_approval inputs))"
  then show "\<exists>pre evs. fst (snd (execute_tool_call env servers st c inputs)) =
                   pre @ Invoked t m (tc_arguments c) # evs \<and>
                 filter is_transport_event pre = []"
    by (intro execute_dispatches_found) simp_all
qed


lemma files_loaded:
  "load_mcp_tools files_env [files_server] st =
     st\<lparr>mcp_tools := [search_mcp],
        tool_info := (tool_info st)(''search'' \<mapsto> mcp_info ''files'' ''search'' search_mcp)\<rparr>"
  by (simp add: load_mcp_tools_def MCPStudio_get_initialized_servers_def
      MCPServer_is_initialized_def files_server_def load_mcp_server_def load_tools_from_server_def
      files_env_def quiet_proc_env_def tool_name_of_def search_mcp_def)

lemma calc_listing:
  "fst (list_tools down_env calc_server) = Inr (PList [PDict [(''name'', PStr ''add'')]])"
  by (simp add: list_tools_def list_tools_aiohttp_def calc_server_def tool_endpoints_def
      list_request_def session_headers_def down_env_def parse_listing_def)

lemma hs_calc: "hs_name calc_server = ''calc''"
  by (simp add: calc_server_def)

lemma search_state:
  "after_ops [SetApprovalMode False, LoadMcpTools files_env [files_server],
              AddCustomTools [search_local]] =
     \<lparr> mcp_tools = [search_mcp], http_tools = [], custom_tools = [search_local],
       see_tools = [], all_tools = [],
       tool_info = [''search'' \<mapsto> custom_info ''search'' search_local],
       approval_enabled = False \<rparr>"
  by (simp add: after_ops_def files_loaded set_approval_mode_def ToolsManager_init_def
      tool_name_of_def search_local_def)

theorem C1_last_write_wins_descriptor_witness:
  "map_option ti_source
     (tool_info (snd (add_custom_tools (after_ops [LoadMcpTools files_env [files_server]])
                        [search_local])) ''search'') = Some ''custom''
   \<and> map_option ti_source
        (tool_info (load_mcp_server files_env files_server (after_ops [AddCustomTools [search_local]]))
           ''search'') = Some ''mcp_server:files''
   \<and> map_option ti_source
        (tool_info (load_langchain_tools docs_env docs_server
                      (after_ops [LoadMcpTools files_env [files_server]])) ''search'') =
        Some ''http_server:docs''
   \<and> map_option ti_source
        (tool_info (load_aiohttp_tools down_env 0 calc_server ToolsManager_init) ''add'') =
        Some ''http_server:calc''
   \<and> find_tool_by_name
        (load_mcp_server files_env files_server (after_ops [AddCustomTools [search_local]]))
        ''search'' = Some search_mcp
   \<and> find_tool_by_name
        (load_langchain_tools docs_env docs_server
           (after_ops [LoadMcpTools files_env [files_server]])) ''search'' = Some search_mcp
   \<and> find_tool_by_name (load_aiohttp_tools down_env 0 calc_server ToolsManager_init) ''add'' =
        Some add_tool
   \<and> find_tool_by_name
        (snd (add_custom_tools (after_ops [LoadMcpTools files_env [files_server]]) [search_local]))
        ''search'' = Some search_mcp
   \<and> (\<exists>pre evs. fst (snd (execute_tool_call ok_env []
                            (after_ops [LoadMcpTools files_env [files_server],
                                        AddCustomTools [search_local]])
                            \<lparr> tc_tool = ''search'', tc_arguments = [] \<rparr> [Line ''1''])) =
                   pre @ Invoked search_mcp Ainvoke [] # evs \<and>
                 filter is_transport_event pre = [])"
proof -
  let ?st1 = "after_ops [LoadMcpTools files_env [files_server]]"
  let ?st2 = "after_ops [AddCustomTools [search_local]]"
  let ?st3 = "after_ops [LoadMcpTools files_env [files_server], AddCustomTools [search_local]]"
  let ?c = "\<lparr> tc_tool = ''search'', tc_arguments = [] \<rparr>"
  let ?info = "\<lparr> ti_name = ''add'', ti_description = ''HTTP/SSE MCP tool'',
                 ti_source = ''http_server:calc'', ti_parameters = [], ti_category = ''http'' \<rparr>"
  let ?P = "\<lambda>t. tool_name_of t = PStr ''search''"
  have st1: "?st1 = ToolsManager_init\<lparr>mcp_tools := [search_mcp],
               tool_info := (tool_info ToolsManager_init)(''search'' \<mapsto> mcp_info ''files'' ''search'' search_mcp)\<rparr>"
    by (simp add: after_ops_def files_loaded)
  have st2: "?st2 = ToolsManager_init\<lparr>custom_tools := [search_local],
               tool_info := (tool_info ToolsManager_init)(''search'' \<mapsto> custom_info ''search'' search_local)\<rparr>"
    by (simp add: after_ops_def ToolsManager_init_def tool_name_of_def search_local_def)
  have n1: "?P search_local" "?P search_mcp" "?P search_sse"
    by (simp_all add: tool_name_of_def search_local_def search_mcp_def search_sse_def)
  have h1: "(\<forall>t\<in>set [search_local]. \<exists>n. tool_name_of t = PStr n) \<and>
            filter ?P [search_local] \<noteq> []"
    using n1 by simp
  have l2: "load_tools_from_server files_env files_server = Inr [search_mcp]"
    by (simp add: load_tools_from_server_def files_server_def files_env_def quiet_proc_env_def)
  have h2: "load_tools_from_server files_env files_server = Inr [search_mcp] \<and>
            (\<forall>t\<in>set [search_mcp]. \<exists>n. tool_name_of t = PStr n) \<and>
            filter ?P [search_mcp] \<noteq> []"
    using l2 n1 by simp
  have g3: "langchain_client docs_server \<noteq> None \<and>
            get_tools docs_env (hs_name docs_server) = Inr [search_sse]"
    by (simp add: docs_server_def docs_env_def)
  have h3: "langchain_client docs_server \<noteq> None \<and>
            get_tools docs_env (hs_name docs_server) = Inr [search_sse] \<and>
            (\<forall>t\<in>set [search_sse]. (\<exists>n. name_attr t = Some (PStr n)) \<and> description_attr t \<noteq> None) \<and>
            PStr ''search'' \<in> tool_name_of ` set [search_sse]"
    using g3 by (simp add: tool_name_of_def search_sse_def)
  have w4: "fst (list_tools down_env calc_server) = Inr (PList (map PDict [[(''name'', PStr ''add'')]])) \<and>
            (\<forall>kvs\<in>set [[(''name'', PStr ''add'')]]. aiohttp_info (hs_name calc_server) kvs \<noteq> None)"
    using calc_listing by (simp add: aiohttp_info_def hs_calc)
  have h4: "fst (list_tools down_env calc_server) = Inr (PList (map PDict [[(''name'', PStr ''add'')]])) \<and>
            (\<forall>kvs\<in>set [[(''name'', PStr ''add'')]]. aiohttp_info (hs_name calc_server) kvs \<noteq> None) \<and>
            [(''name'', PStr ''add'')] \<in> set [[(''name'', PStr ''add'')]] \<and>
            aiohttp_info (hs_name calc_server) [(''name'', PStr ''add'')] = Some ?info"
    using w4 by (simp add: aiohttp_info_def hs_calc)
  have h9: "\<forall>t\<in>set [search_local]. \<exists>n. tool_name_of t = PStr n"
    using n1 by simp
  have h10: "find_tool_by_name ?st1 ''search'' = Some search_mcp \<and>
            search_mcp \<in> set (mcp_tools ?st1 @ http_tools ?st1 @ custom_tools ?st1)"
    unfolding st1
    using n1 by (simp add: find_tool_by_name_def get_all_tools_def ToolsManager_init_def)
  have st3: "?st3 = \<lparr> mcp_tools = [search_mcp], http_tools = [], custom_tools = [search_local],
                      see_tools = [], all_tools = [],
                      tool_info = [''search'' \<mapsto> custom_info ''search'' search_local],
                      approval_enabled = True \<rparr>"
    by (simp add: after_ops_def files_loaded ToolsManager_init_def tool_name_of_def
        search_local_def)
  have h11: "find_tool_by_name ?st3 (tc_tool ?c) = Some search_mcp \<and>
             select_method search_mcp = Some Ainvoke \<and>
             (approval_enabled ?st3 \<longrightarrow>
                tool_info ?st3 (tc_tool ?c) \<noteq> None \<and> fst (get_user_approval [Line ''1'']))"
    unfolding st3
    using n1 by (simp add: find_tool_by_name_def get_all_tools_def select_method_def search_mcp_def
        strip_def is_space_def)
  note thm1 = C1_last_write_wins_descriptor
    [where x = "''search''" and ts = "[search_local]" and st = ?st1 and held = search_mcp
       and penv = files_env and server = files_server and hserver = docs_server
       and nenv = docs_env and kvss = "[]" and i = 0 and kvs = "[]" and info = ?info
       and c = ?c and t = search_mcp and m = Ainvoke and env = ok_env and servers = "[]"
       and inputs = "[]"]
  note thm2 = C1_last_write_wins_descriptor
    [where x = "''search''" and ts = "[search_mcp]" and st = ?st2 and held = search_mcp
       and penv = files_env and server = files_server and hserver = docs_server
       and nenv = docs_env and kvss = "[]" and i = 0 and kvs = "[]" and info = ?info
       and c = ?c and t = search_mcp and m = Ainvoke and env = ok_env and servers = "[]"
       and inputs = "[]"]
  note thm3 = C1_last_write_wins_descriptor
    [where x = "''search''" and ts = "[search_sse]" and st = ?st1 and held = search_mcp
       and penv = files_env and server = files_server and hserver = docs_server
       and nenv = docs_env and kvss = "[]" and i = 0 and kvs = "[]" and info = ?info
       and c = ?c and t = search_mcp and m = Ainvoke and env = ok_env and servers = "[]"
       and inputs = "[]"]
  note thm4 = C1_last_write_wins_descriptor
    [where x = "''add''" and ts = "[]" and st = ToolsManager_init and held = search_mcp
       and penv = files_env and server = files_server and hserver = calc_server
       and nenv = down_env and kvss = "[[(''name'', PStr ''add'')]]" and i = 0
       and kvs = "[(''name'', PStr ''add'')]" and info = ?info
       and c = ?c and t = search_mcp and m = Ainvoke and env = ok_env and servers = "[]"
       and inputs = "[]"]
  note thm5 = C1_last_write_wins_descriptor
    [where x = "''search''" and ts = "[search_local]" and st = ?st3 and held = search_mcp
       and penv = files_env and server = files_server and hserver = docs_server
       and nenv = docs_env and kvss = "[]" and i = 0 and kvs = "[]" and info = ?info
       and c = ?c and t = search_mcp and m = Ainvoke and env = ok_env and servers = "[]"
       and inputs = "[Line ''1'']"]
  from thm1 [THEN conjunct1] h1 have c1: "map_option ti_source
     (tool_info (snd (add_custom_tools ?st1 [search_local])) ''search'') = Some ''custom''"
    by blast
  from thm2 [THEN conjunct2, THEN conjunct1] h2 have "map_option ti_source
        (tool_info (load_mcp_server files_env files_server ?st2) ''search'') =
        Some (''mcp_server:'' @ ms_name files_server)"
    by blast
  then have c2: "map_option ti_source
        (tool_info (load_mcp_server files_env files_server ?st2) ''search'') =
        Some ''mcp_server:files''"
    by (simp add: files_server_def)
  from thm3 [THEN conjunct2, THEN conjunct2, THEN conjunct1] h3 have "map_option ti_source
        (tool_info (load_langchain_tools docs_env docs_server ?st1) ''search'') =
        Some (''http_server:'' @ hs_name docs_server)"
    by blast
  then have c3: "map_option ti_source
        (tool_info (load_langchain_tools docs_env docs_server ?st1) ''search'') =
        Some ''http_server:docs''"
    by (simp add: docs_server_def)
  from thm4 [THEN conjunct2, THEN conjunct2, THEN conjunct2, THEN conjunct1] h4
  have "map_option ti_source
        (tool_info (load_aiohttp_tools down_env 0 calc_server ToolsManager_init) (ti_name ?info)) =
        Some (''http_server:'' @ hs_name calc_server)"
    by blast
  then have c4: "map_option ti_source
        (tool_info (load_aiohttp_tools down_env 0 calc_server ToolsManager_init) ''add'') =
        Some ''http_server:calc''"
    by (simp add: hs_calc)
  from thm2 [THEN conjunct2, THEN conjunct2, THEN conjunct2, THEN conjunct2, THEN conjunct2,
             THEN conjunct1] l2
  have "find_tool_by_name (load_mcp_server files_env files_server ?st2) ''search'' =
        (case find ?P (mcp_tools ?st2 @ [search_mcp]) of
           Some t \<Rightarrow> Some t
         | None \<Rightarrow> find ?P (http_tools ?st2 @ custom_tools ?st2 @ see_tools ?st2))"
    by blast
  then have c6: "find_tool_by_name (load_mcp_server files_env files_server ?st2) ''search'' =
        Some search_mcp"
    unfolding st2 using n1 by (simp add: ToolsManager_init_def)
  from thm3 [THEN conjunct2, THEN conjunct2, THEN conjunct2, THEN conjunct2, THEN conjunct2,
             THEN conjunct2, THEN conjunct1] g3
  have "find_tool_by_name (load_langchain_tools docs_env docs_server ?st1) ''search'' =
        (case find ?P (mcp_tools ?st1 @ http_tools ?st1 @ [search_sse]) of
           Some t \<Rightarrow> Some t
         | None \<Rightarrow> find ?P (custom_tools ?st1 @ see_tools ?st1))"
    by blast
  then have c7: "find_tool_by_name (load_langchain_tools docs_env docs_server ?st1) ''search'' =
        Some search_mcp"
    unfolding st1 using n1 by (simp add: ToolsManager_init_def)
  from thm4 [THEN conjunct2, THEN conjunct2, THEN conjunct2, THEN conjunct2, THEN conjunct2,
             THEN conjunct2, THEN conjunct2, THEN conjunct1] w4
  have "find_tool_by_name (load_aiohttp_tools down_env 0 calc_server ToolsManager_init) ''add'' =
        (case find (\<lambda>t. tool_name_of t = PStr ''add'')
                (mcp_tools ToolsManager_init @ http_tools ToolsManager_init @
                 map (create_http_tool 0) [[(''name'', PStr ''add'')]]) of
           Some t \<Rightarrow> Some t
         | None \<Rightarrow> find (\<lambda>t. tool_name_of t = PStr ''add'')
                     (custom_tools ToolsManager_init @ see_tools ToolsManager_init))"
    by blast
  then have c8: "find_tool_by_name (load_aiohttp_tools down_env 0 calc_server ToolsManager_init) ''add'' =
        Some add_tool"
    by (simp add: ToolsManager_init_def create_http_tool_def tool_name_of_def add_tool_def)
  from thm1 [THEN conjunct2, THEN conjunct2, THEN conjunct2, THEN conjunct2, THEN conjunct2,
             THEN conjunct2, THEN conjunct2, THEN conjunct2, THEN conjunct1] h9
  have "find_tool_by_name (snd (add_custom_tools ?st1 [search_local])) ''search'' =
        (case find ?P (mcp_tools ?st1 @ http_tools ?st1 @ custom_tools ?st1 @ [search_local]) of
           Some t \<Rightarrow> Some t
         | None \<Rightarrow> find ?P (see_tools ?st1))"
    by blast
  then have c9: "find_tool_by_name (snd (add_custom_tools ?st1 [search_local])) ''search'' =
        Some search_mcp"
    unfolding st1 using n1 by (simp add: ToolsManager_init_def)
  from thm1 [THEN conjunct2, THEN conjunct2, THEN conjunct2, THEN conjunct2, THEN conjunct2,
             THEN conjunct2, THEN conjunct2, THEN conjunct2, THEN conjunct2, THEN conjunct1] h10
  have c10: "find_tool_by_name (snd (add_custom_tools ?st1 [search_local])) ''search'' =
        Some search_mcp"
    by blast
  from thm5 [THEN conjunct2, THEN conjunct2, THEN conjunct2, THEN conjunct2, THEN conjunct2,
             THEN conjunct2, THEN conjunct2, THEN conjunct2, THEN conjunct2, THEN conjunct2] h11
  have "\<exists>pre evs. fst (snd (execute_tool_call ok_env [] ?st3 ?c [Line ''1''])) =
                   pre @ Invoked search_mcp Ainvoke (tc_arguments ?c) # evs \<and>
                 filter is_transport_event pre = []"
    by blast
  then have c11: "\<exists>pre evs. fst (snd (execute_tool_call ok_env [] ?st3 ?c [Line ''1''])) =
                   pre @ Invoked search_mcp Ainvoke [] # evs \<and>
                 filter is_transport_event pre = []"
    by simp
  from c1 c2 c3 c4 c6 c7 c8 c9 c10 c11 show ?thesis by blast
qed

text \<open>
  The claim as stated fails: \<open>search\<close> is loaded from the subprocess server \<open>files\<close> and
  then registered as a local tool. The descriptor says \<open>custom\<close>, but the object found and
  invoked under the name is the subprocess server's.
\<close>

theorem C1_counterexample:
  "map_option ti_source
     (tool_info (after_ops [SetApprovalMode False, LoadMcpTools files_env [files_server],
                            AddCustomTools [search_local]]) ''search'') = Some ''custom''
   \<and> find_tool_by_name
        (after_ops [SetApprovalMode False, LoadMcpTools files_env [files_server],
                    AddCustomTools [search_local]]) ''search'' = Some search_mcp
   \<and> obj search_mcp \<noteq> obj search_local
   \<and> fst (snd (execute_tool_call ok_env []
                 (after_ops [SetApprovalMode False, LoadMcpTools files_env [files_server],
                             AddCustomTools [search_local]])
                 \<lparr> tc_tool = ''search'', tc_arguments = [] \<rparr> [])) =
        [Invoked search_mcp Ainvoke []]"
proof -
  let ?st = "after_ops [SetApprovalMode False, LoadMcpTools files_env [files_server],
                        AddCustomTools [search_local]]"
  have f: "find_tool_by_name ?st ''search'' = Some search_mcp"
    unfolding search_state
    by (simp add: find_tool_by_name_def get_all_tools_def tool_name_of_def search_mcp_def)
  have s: "map_option ti_source (tool_info ?st ''search'') = Some ''custom''"
    unfolding search_state by (simp add: custom_info_def)
  have d: "obj search_mcp \<noteq> obj search_local"
    by (simp add: search_mcp_def search_local_def)
  have m: "select_method search_mcp = Some Ainvoke" "obj search_mcp = Given 2"
    by (simp_all add: select_method_def search_mcp_def)
  have a: "approval_enabled ?st = False" unfolding search_state by simp
  have e: "fst (snd (execute_tool_call ok_env [] ?st \<lparr> tc_tool = ''search'', tc_arguments = [] \<rparr> [])) =
        [Invoked search_mcp Ainvoke []]"
    by (simp add: execute_tool_call_def execute_body_def f a dispatch_def m run_tool_def
        ok_env_def down_env_def)
  from s f d e show ?thesis by blast
qed

section \<open>Listing tools over plain http\<close>

lemma listing_parses:
  "listing_of (Inr resp) = Some v \<Longrightarrow> rs_status resp = 200 \<and> parse_listing resp = Inr v"
  by (auto simp: listing_of_def parse_listing_def py_len_def has_length_def
      split: if_splits sum.splits pyval.splits option.splits)

lemma unreadable_raises:
  "unreadable (Inr resp) \<Longrightarrow> rs_status resp = 200 \<and> (\<exists>e. parse_listing resp = Inl e)"
  by (auto simp: unreadable_def parse_listing_def py_len_def has_length_def
      split: if_splits sum.splits pyval.splits option.splits)

lemma listing_of_None_iff:
  "listing_of a = None \<longleftrightarrow> path_fails a \<or> unreadable a"
  by (auto simp: listing_of_def path_fails_def unreadable_def
      split: if_splits sum.splits pyval.splits option.splits)

lemma list_direct_hit:
  assumes "listing_of (http env (list_request s ep)) = Some v"
  shows "list_direct env s (ep # eps) = (Some v, [Sent (list_request s ep)])"
proof -
  from assms obtain resp where r: "http env (list_request s ep) = Inr resp"
    by (cases "http env (list_request s ep)") (auto simp: listing_of_def)
  with assms listing_parses [of resp v] show ?thesis by simp
qed

lemma list_direct_pass:
  assumes "path_fails (http env (list_request s ep)) \<or> unreadable (http env (list_request s ep))"
  shows "list_direct env s (ep # eps) =
           (fst (list_direct env s eps), Sent (list_request s ep) # snd (list_direct env s eps))"
proof (cases "http env (list_request s ep)")
  case (Inl e)
  then show ?thesis by (simp split: prod.splits)
next
  case (Inr resp)
  show ?thesis
  proof (cases "rs_status resp = 200")
    case False
    with Inr show ?thesis by (simp split: prod.splits)
  next
    case True
    with assms Inr have "unreadable (Inr resp)" by (simp add: path_fails_def)
    then obtain e where "parse_listing resp = Inl e" using unreadable_raises by blast
    with Inr True show ?thesis by (simp split: prod.splits)
  qed
qed

lemma list_direct_none:
  "fst (list_direct env s eps) = None \<Longrightarrow>
     \<forall>ep\<in>set eps. listing_of (http env (list_request s ep)) = None"
proof (induction eps)
  case Nil
  show ?case by simp
next
  case (Cons ep eps)
  show ?case
  proof (cases "listing_of (http env (list_request s ep))")
    case (Some v)
    then have "list_direct env s (ep # eps) = (Some v, [Sent (list_request s ep)])"
      by (rule list_direct_hit)
    with Cons.prems show ?thesis by simp
  next
    case None
    then have "path_fails (http env (list_request s ep)) \<or> unreadable (http env (list_request s ep))"
      by (simp add: listing_of_None_iff)
    then have "list_direct env s (ep # eps) =
           (fst (list_direct env s eps), Sent (list_request s ep) # snd (list_direct env s eps))"
      by (rule list_direct_pass)
    with Cons.prems have "fst (list_direct env s eps) = None" by simp
    with Cons.IH None show ?thesis by simp
  qed
qed

lemma list_direct_only_gets:
  "Sent rq \<in> set (snd (list_direct env s eps)) \<Longrightarrow> rq_method rq = GET"
proof (induction eps)
  case Nil
  then show ?case by simp
next
  case (Cons ep eps)
  then show ?case
    by (cases "http env (list_request s ep)")
       (auto simp: list_request_def split: prod.splits sum.splits if_splits)
qed

lemma rpc_listing_parses:
  "(case a of
      Inl e \<Rightarrow> PList []
    | Inr resp \<Rightarrow>
        if rs_status resp = 200
        then (case parse_rpc_listing resp of Inr v \<Rightarrow> v | Inl e \<Rightarrow> PList [])
        else PList []) = rpc_listing_of a"
  by (auto simp: rpc_listing_of_def parse_rpc_listing_def py_len_def has_length_def Let_def
      split: if_splits sum.splits pyval.splits option.splits)

lemma list_tools_aiohttp_cases:
  assumes "hs_session s \<noteq> None"
  shows "list_tools_aiohttp env s =
     (case list_direct env s tool_endpoints of
        (Some v, evs) \<Rightarrow> (Inr v, evs)
      | (None, evs) \<Rightarrow>
          (Inr (rpc_listing_of (http env (list_rpc_request s))), evs @ [Sent (list_rpc_request s)]))"
proof -
  have "list_tools_aiohttp env s =
     (case list_direct env s tool_endpoints of
        (Some v, evs) \<Rightarrow> (Inr v, evs)
      | (None, evs) \<Rightarrow>
          (Inr (case http env (list_rpc_request s) of
                  Inl e \<Rightarrow> PList []
                | Inr resp \<Rightarrow>
                    if rs_status resp = 200
                    then (case parse_rpc_listing resp of Inr v \<Rightarrow> v | Inl e \<Rightarrow> PList [])
                    else PList []),
           evs @ [Sent (list_rpc_request s)]))"
    using assms
    by (auto simp: list_tools_aiohttp_def split: option.splits prod.splits sum.splits)
  then show ?thesis unfolding rpc_listing_parses .
qed

text \<open>
  Claim C3, as amended. For an initialized plain-http server (no adapter client),
  \<open>list_tools\<close> never raises. It asks \<open>/tools\<close>, \<open>/api/tools\<close>, \<open>/mcp/tools\<close> with GET in this
  order. The first path whose answer has status 200 and a body that can be read makes it
  return with no further request: the \<open>tools\<close> entry of an envelope, a bare list, and the
  empty list for a body of any other shape. A path is passed over when it fails (an
  exception, or a status other than 200, such as 404) and also when its answer has status
  200 but is unreadable. When all three are passed over it sends one POST to the base URL,
  whose body is the JSON-RPC request \<open>tools/list\<close>, and returns \<open>result.tools\<close> of a 200
  answer, and the empty list for every other answer and when that request fails too. The
  POST is only sent when no direct path has given a listing.
\<close>

theorem C3_listing_cascade:
  assumes "HttpMCPServer_is_initialized s" and "langchain_client s = None"
  shows
    "(\<exists>v evs. list_tools env s = (Inr v, evs))
     \<and> (listing_of (http env (list_request s ''/tools'')) = Some v \<longrightarrow>
          list_tools env s = (Inr v, [Sent (list_request s ''/tools'')]))
     \<and> ((path_fails (http env (list_request s ''/tools'')) \<or>
         unreadable (http env (list_request s ''/tools''))) \<and>
        listing_of (http env (list_request s ''/api/tools'')) = Some v \<longrightarrow>
          list_tools env s =
            (Inr v, [Sent (list_request s ''/tools''), Sent (list_request s ''/api/tools'')]))
     \<and> ((path_fails (http env (list_request s ''/tools'')) \<or>
         unreadable (http env (list_request s ''/tools''))) \<and>
        (path_fails (http env (list_request s ''/api/tools'')) \<or>
         unreadable (http env (list_request s ''/api/tools''))) \<and>
        listing_of (http env (list_request s ''/mcp/tools'')) = Some v \<longrightarrow>
          list_tools env s =
            (Inr v, [Sent (list_request s ''/tools''), Sent (list_request s ''/api/tools''),
                     Sent (list_request s ''/mcp/tools'')]))
     \<and> ((path_fails (http env (list_request s ''/tools'')) \<or>
         unreadable (http env (list_request s ''/tools''))) \<and>
        (path_fails (http env (list_request s ''/api/tools'')) \<or>
         unreadable (http env (list_request s ''/api/tools''))) \<and>
        (path_fails (http env (list_request s ''/mcp/tools'')) \<or>
         unreadable (http env (list_request s ''/mcp/tools''))) \<longrightarrow>
          list_tools env s =
            (Inr (rpc_listing_of (http env (list_rpc_request s))),
             [Sent (list_request s ''/tools''), Sent (list_request s ''/api/tools''),
              Sent (list_request s ''/mcp/tools''), Sent (list_rpc_request s)]) \<and>
          (path_fails (http env (list_rpc_request s)) \<longrightarrow> fst (list_tools env s) = Inr (PList [])))
     \<and> (Sent (list_rpc_request s) \<in> set (snd (list_tools env s)) \<longrightarrow>
          (\<forall>ep\<in>set tool_endpoints. listing_of (http env (list_request s ep)) = None))
     \<and> list_rpc_request s =
         \<lparr> rq_method = POST, rq_url = BaseUrl (base_url s), rq_headers = session_headers s,
           rq_json = Some (PDict [(''jsonrpc'', PStr ''2.0''), (''id'', PInt 1),
                                  (''method'', PStr ''tools/list''), (''params'', PDict [])]) \<rparr>
     \<and> (\<forall>ep. list_request s ep =
               \<lparr> rq_method = GET, rq_url = UrlJoin (base_url s) ep,
                 rq_headers = session_headers s, rq_json = None \<rparr>)"
proof -
  from assms have sess: "hs_session s \<noteq> None" and conn: "is_connected s"
    by (auto simp: HttpMCPServer_is_initialized_def)
  have lt: "list_tools env s = list_tools_aiohttp env s"
    using conn assms(2) by (simp add: list_tools_def)
  note cases = list_tools_aiohttp_cases [OF sess, of env]
  let ?a1 = "http env (list_request s ''/tools'')"
  let ?a2 = "http env (list_request s ''/api/tools'')"
  let ?a3 = "http env (list_request s ''/mcp/tools'')"
  have 1: "\<exists>v evs. list_tools env s = (Inr v, evs)"
    unfolding lt cases by (auto split: prod.splits option.splits)
  have 2: "list_tools env s = (Inr v, [Sent (list_request s ''/tools'')])"
    if "listing_of ?a1 = Some v"
    unfolding lt cases tool_endpoints_def using that
    by (simp add: list_direct_hit del: list_direct.simps(2))
  have 3: "list_tools env s =
            (Inr v, [Sent (list_request s ''/tools''), Sent (list_request s ''/api/tools'')])"
    if "path_fails ?a1 \<or> unreadable ?a1" and "listing_of ?a2 = Some v"
    unfolding lt cases tool_endpoints_def using that
    by (simp add: list_direct_hit list_direct_pass del: list_direct.simps(2))
  have 4: "list_tools env s =
            (Inr v, [Sent (list_request s ''/tools''), Sent (list_request s ''/api/tools''),
                     Sent (list_request s ''/mcp/tools'')])"
    if "path_fails ?a1 \<or> unreadable ?a1" and "path_fails ?a2 \<or> unreadable ?a2"
      and "listing_of ?a3 = Some v"
    unfolding lt cases tool_endpoints_def using that
    by (simp add: list_direct_hit list_direct_pass del: list_direct.simps(2))
  have d: "list_direct env s tool_endpoints =
            (None, [Sent (list_request s ''/tools''), Sent (list_request s ''/api/tools''),
                    Sent (list_request s ''/mcp/tools'')])"
    if "path_fails ?a1 \<or> unreadable ?a1" and "path_fails ?a2 \<or> unreadable ?a2"
      and "path_fails ?a3 \<or> unreadable ?a3"
    unfolding tool_endpoints_def using that
    by (simp add: list_direct_pass del: list_direct.simps(2))
  have 5: "list_tools env s =
            (Inr (rpc_listing_of (http env (list_rpc_request s))),
             [Sent (list_request s ''/tools''), Sent (list_request s ''/api/tools''),
              Sent (list_request s ''/mcp/tools''), Sent (list_rpc_request s)]) \<and>
          (path_fails (http env (list_rpc_request s)) \<longrightarrow> fst (list_tools env s) = Inr (PList []))"
    if "path_fails ?a1 \<or> unreadable ?a1" and "path_fails ?a2 \<or> unreadable ?a2"
      and "path_fails ?a3 \<or> unreadable ?a3"
  proof -
    note dd = d [OF that]
    have a: "list_tools env s =
            (Inr (rpc_listing_of (http env (list_rpc_request s))),
             [Sent (list_request s ''/tools''), Sent (list_request s ''/api/tools''),
              Sent (list_request s ''/mcp/tools''), Sent (list_rpc_request s)])"
      unfolding lt cases dd by simp
    have c: "fst (list_tools env s) = Inr (PList [])"
      if "path_fails (http env (list_rpc_request s))"
      using that unfolding a
      by (cases "http env (list_rpc_request s)") (auto simp: path_fails_def rpc_listing_of_def)
    from a c show ?thesis by blast
  qed
  have 6: "\<forall>ep\<in>set tool_endpoints. listing_of (http env (list_request s ep)) = None"
    if p: "Sent (list_rpc_request s) \<in> set (snd (list_tools env s))"
  proof (cases "fst (list_direct env s tool_endpoints)")
    case None
    then show ?thesis by (rule list_direct_none)
  next
    case (Some v)
    then have "snd (list_tools env s) = snd (list_direct env s tool_endpoints)"
      unfolding lt cases by (cases "list_direct env s tool_endpoints") simp
    with p have "rq_method (list_rpc_request s) = GET"
      by (auto dest: list_direct_only_gets)
    then show ?thesis by (simp add: list_rpc_request_def)
  qed
  have 7: "list_rpc_request s =
         \<lparr> rq_method = POST, rq_url = BaseUrl (base_url s), rq_headers = session_headers s,
           rq_json = Some (PDict [(''jsonrpc'', PStr ''2.0''), (''id'', PInt 1),
                                  (''method'', PStr ''tools/list''), (''params'', PDict [])]) \<rparr>"
    by (simp add: list_rpc_request_def)
  have 8: "\<forall>ep. list_request s ep =
               \<lparr> rq_method = GET, rq_url = UrlJoin (base_url s) ep,
                 rq_headers = session_headers s, rq_json = None \<rparr>"
    by (simp add: list_request_def)
  from 1 2 3 4 5 6 7 8 show ?thesis by blast
qed


lemma calc_initialized:
  "HttpMCPServer_is_initialized calc_server" "langchain_client calc_server = None"
  "base_url calc_server = ''http://calc''"
  by (simp_all add: HttpMCPServer_is_initialized_def calc_server_def)

theorem C3_listing_cascade_witness:
  "list_tools down_env calc_server =
     (Inr (PList [PDict [(''name'', PStr ''add'')]]), [Sent (list_request calc_server ''/tools'')])
   \<and> list_tools second_env calc_server =
     (Inr (PList multiply_listing),
      [Sent (list_request calc_server ''/tools''), Sent (list_request calc_server ''/api/tools'')])
   \<and> list_tools cascade_env calc_server =
     (Inr (PList multiply_listing),
      [Sent (list_request calc_server ''/tools''), Sent (list_request calc_server ''/api/tools''),
       Sent (list_request calc_server ''/mcp/tools'')])
   \<and> list_tools rpc_env calc_server =
     (Inr (PList multiply_listing),
      [Sent (list_request calc_server ''/tools''), Sent (list_request calc_server ''/api/tools''),
       Sent (list_request calc_server ''/mcp/tools''), Sent (list_rpc_request calc_server)])
   \<and> list_tools garbled_env calc_server =
     (Inr (PList multiply_listing),
      [Sent (list_request calc_server ''/tools''), Sent (list_request calc_server ''/api/tools''),
       Sent (list_request calc_server ''/mcp/tools''), Sent (list_rpc_request calc_server)])
   \<and> fst (list_tools cascade_env (calc_server\<lparr>base_url := ''http://other''\<rparr>)) = Inr (PList [])
   \<and> listing_of (http rpc_env (list_request calc_server ''/api/tools'')) = None"
proof -
  let ?other = "calc_server\<lparr>base_url := ''http://other''\<rparr>"
  have oi: "HttpMCPServer_is_initialized ?other" "langchain_client ?other = None"
    by (simp_all add: HttpMCPServer_is_initialized_def calc_server_def)
  note t1 = C3_listing_cascade [OF calc_initialized(1,2), of down_env "PList [PDict [(''name'', PStr ''add'')]]"]
  note t2 = C3_listing_cascade [OF calc_initialized(1,2), of second_env "PList multiply_listing"]
  note t3 = C3_listing_cascade [OF calc_initialized(1,2), of cascade_env "PList multiply_listing"]
  note t4 = C3_listing_cascade [OF calc_initialized(1,2), of rpc_env "PList multiply_listing"]
  note t5 = C3_listing_cascade [OF calc_initialized(1,2), of garbled_env "PList multiply_listing"]
  note t6 = C3_listing_cascade [OF oi, of cascade_env "PList multiply_listing"]
  have h1: "listing_of (http down_env (list_request calc_server ''/tools'')) =
              Some (PList [PDict [(''name'', PStr ''add'')]])"
    by (simp add: listing_of_def list_request_def down_env_def calc_initialized(3))
  have h2: "(path_fails (http second_env (list_request calc_server ''/tools'')) \<or>
             unreadable (http second_env (list_request calc_server ''/tools''))) \<and>
            listing_of (http second_env (list_request calc_server ''/api/tools'')) =
              Some (PList multiply_listing)"
    by (simp add: path_fails_def listing_of_def list_request_def second_env_def ok_response_def
        calc_initialized(3))
  have h3: "(path_fails (http cascade_env (list_request calc_server ''/tools'')) \<or>
             unreadable (http cascade_env (list_request calc_server ''/tools''))) \<and>
            (path_fails (http cascade_env (list_request calc_server ''/api/tools'')) \<or>
             unreadable (http cascade_env (list_request calc_server ''/api/tools''))) \<and>
            listing_of (http cascade_env (list_request calc_server ''/mcp/tools'')) =
              Some (PList multiply_listing)"
    by (simp add: path_fails_def listing_of_def list_request_def cascade_env_def ok_response_def
        not_found_def has_length_def calc_initialized(3))
  have h4: "(path_fails (http rpc_env (list_request calc_server ''/tools'')) \<or>
             unreadable (http rpc_env (list_request calc_server ''/tools''))) \<and>
            (path_fails (http rpc_env (list_request calc_server ''/api/tools'')) \<or>
             unreadable (http rpc_env (list_request calc_server ''/api/tools''))) \<and>
            (path_fails (http rpc_env (list_request calc_server ''/mcp/tools'')) \<or>
             unreadable (http rpc_env (list_request calc_server ''/mcp/tools'')))"
    by (simp add: path_fails_def list_request_def rpc_env_def not_found_def calc_initialized(3))
  have r4: "rpc_listing_of (http rpc_env (list_rpc_request calc_server)) = PList multiply_listing"
    by (simp add: rpc_listing_of_def list_rpc_request_def rpc_env_def ok_response_def
        has_length_def calc_initialized(3))
  have h5: "(path_fails (http garbled_env (list_request calc_server ''/tools'')) \<or>
             unreadable (http garbled_env (list_request calc_server ''/tools''))) \<and>
            (path_fails (http garbled_env (list_request calc_server ''/api/tools'')) \<or>
             unreadable (http garbled_env (list_request calc_server ''/api/tools''))) \<and>
            (path_fails (http garbled_env (list_request calc_server ''/mcp/tools'')) \<or>
             unreadable (http garbled_env (list_request calc_server ''/mcp/tools'')))"
    by (simp add: path_fails_def unreadable_def list_request_def garbled_env_def not_found_def
        unreadable_response_def calc_initialized(3))
  have r5: "rpc_listing_of (http garbled_env (list_rpc_request calc_server)) = PList multiply_listing"
    by (simp add: rpc_listing_of_def list_rpc_request_def garbled_env_def ok_response_def
        has_length_def calc_initialized(3))
  have h6: "(path_fails (http cascade_env (list_request ?other ''/tools'')) \<or>
             unreadable (http cascade_env (list_request ?other ''/tools''))) \<and>
            (path_fails (http cascade_env (list_request ?other ''/api/tools'')) \<or>
             unreadable (http cascade_env (list_request ?other ''/api/tools''))) \<and>
            (path_fails (http cascade_env (list_request ?other ''/mcp/tools'')) \<or>
             unreadable (http cascade_env (list_request ?other ''/mcp/tools'')))"
    by (simp add: path_fails_def list_request_def cascade_env_def not_found_def)
  have p6: "path_fails (http cascade_env (list_rpc_request ?other))"
    by (simp add: path_fails_def list_rpc_request_def cascade_env_def not_found_def)
  from t1 h1 have c1: "list_tools down_env calc_server =
     (Inr (PList [PDict [(''name'', PStr ''add'')]]), [Sent (list_request calc_server ''/tools'')])"
    by blast
  from t2 h2 have c2: "list_tools second_env calc_server =
     (Inr (PList multiply_listing),
      [Sent (list_request calc_server ''/tools''), Sent (list_request calc_server ''/api/tools'')])"
    by blast
  from t3 h3 have c3: "list_tools cascade_env calc_server =
     (Inr (PList multiply_listing),
      [Sent (list_request calc_server ''/tools''), Sent (list_request calc_server ''/api/tools''),
       Sent (list_request calc_server ''/mcp/tools'')])"
    by blast
  from t4 h4 have "list_tools rpc_env calc_server =
     (Inr (rpc_listing_of (http rpc_env (list_rpc_request calc_server))),
      [Sent (list_request calc_server ''/tools''), Sent (list_request calc_server ''/api/tools''),
       Sent (list_request calc_server ''/mcp/tools''), Sent (list_rpc_request calc_server)])"
    by blast
  then have c4: "list_tools rpc_env calc_server =
     (Inr (PList multiply_listing),
      [Sent (list_request calc_server ''/tools''), Sent (list_request calc_server ''/api/tools''),
       Sent (list_request calc_server ''/mcp/tools''), Sent (list_rpc_request calc_server)])"
    unfolding r4 .
  from t5 h5 have "list_tools garbled_env calc_server =
     (Inr (rpc_listing_of (http garbled_env (list_rpc_request calc_server))),
      [Sent (list_request calc_server ''/tools''), Sent (list_request calc_server ''/api/tools''),
       Sent (list_request calc_server ''/mcp/tools''), Sent (list_rpc_request calc_server)])"
    by blast
  then have c5: "list_tools garbled_env calc_server =
     (Inr (PList multiply_listing),
      [Sent (list_request calc_server ''/tools''), Sent (list_request calc_server ''/api/tools''),
       Sent (list_request calc_server ''/mcp/tools''), Sent (list_rpc_request calc_server)])"
    unfolding r5 .
  from t6 h6 p6 have c6: "fst (list_tools cascade_env ?other) = Inr (PList [])"
    by blast
  from c4 have "Sent (list_rpc_request calc_server) \<in> set (snd (list_tools rpc_env calc_server))"
    by simp
  with t4 have "\<forall>ep\<in>set tool_endpoints. listing_of (http rpc_env (list_request calc_server ep)) = None"
    by blast
  then have c7: "listing_of (http rpc_env (list_request calc_server ''/api/tools'')) = None"
    by (simp add: tool_endpoints_def)
  from c1 c2 c3 c4 c5 c6 c7 show ?thesis by blast
qed

text \<open>
  The claim as stated fails for a first 200 response that cannot be read: \<open>/tools\<close> answers
  200 with a body that is not JSON, and the client does not stop there. It goes on to
  \<open>/api/tools\<close> and \<open>/mcp/tools\<close> (both 404), sends the JSON-RPC request, and returns the
  tools of that answer.
\<close>

theorem C3_counterexample:
  "http garbled_env (list_request calc_server ''/tools'') = Inr unreadable_response
   \<and> rs_status unreadable_response = 200
   \<and> list_tools garbled_env calc_server =
       (Inr (PList multiply_listing),
        [Sent \<lparr> rq_method = GET, rq_url = UrlJoin ''http://calc'' ''/tools'', rq_headers = [],
                 rq_json = None \<rparr>,
         Sent \<lparr> rq_method = GET, rq_url = UrlJoin ''http://calc'' ''/api/tools'', rq_headers = [],
                 rq_json = None \<rparr>,
         Sent \<lparr> rq_method = GET, rq_url = UrlJoin ''http://calc'' ''/mcp/tools'', rq_headers = [],
                 rq_json = None \<rparr>,
         Sent \<lparr> rq_method = POST, rq_url = BaseUrl ''http://calc'', rq_headers = [],
                 rq_json = Some (PDict [(''jsonrpc'', PStr ''2.0''), (''id'', PInt 1),
                                        (''method'', PStr ''tools/list''), (''params'', PDict [])]) \<rparr>])"
  by (simp add: list_tools_def list_tools_aiohttp_def calc_server_def tool_endpoints_def
      list_request_def list_rpc_request_def session_headers_def garbled_env_def down_env_def
      unreadable_response_def not_found_def ok_response_def parse_listing_def
      parse_rpc_listing_def py_len_def multiply_listing_def Let_def)

section \<open>The connectivity probe and the session token\<close>

lemma probe_accept:
  assumes "http env (probe_request s ep) = Inr resp" and "rs_status resp < 500"
  shows "probe env s (ep # eps) =
           (True, if rs_status resp = 200 then capture_session s resp else s,
            [Sent (probe_request s ep)])"
  using assms by simp

lemma probe_reject:
  assumes "\<not> accepted (http env (probe_request s ep))"
  shows "probe env s (ep # eps) =
           (case probe env s eps of (b, s', evs) \<Rightarrow> (b, s', Sent (probe_request s ep) # evs))"
  using assms
  by (cases "http env (probe_request s ep)") (auto simp: accepted_def)

lemma requests_mem: "rq \<in> set (requests evs) \<longleftrightarrow> Sent rq \<in> set evs"
  by (induction evs rule: requests.induct) auto

lemma list_direct_headers:
  "Sent rq \<in> set (snd (list_direct env s eps)) \<Longrightarrow> rq_headers rq = session_headers s"
proof (induction eps)
  case Nil
  then show ?case by simp
next
  case (Cons ep eps)
  then show ?case
    by (cases "http env (list_request s ep)")
       (auto simp: list_request_def split: prod.splits sum.splits if_splits)
qed

lemma call_direct_headers:
  "Sent rq \<in> set (snd (call_direct env s n a k eps)) \<Longrightarrow> rq_headers rq = session_headers s"
proof (induction eps arbitrary: k)
  case Nil
  then show ?case by simp
next
  case (Cons ep eps)
  obtain v evs where r: "call_direct env s n a (Suc k) eps = (v, evs)"
    by (cases "call_direct env s n a (Suc k) eps") auto
  have ih: "Sent rq \<in> set evs \<Longrightarrow> rq_headers rq = session_headers s"
    using Cons.IH [of "Suc k"] r by simp
  have h: "rq_headers (call_request env s n a k ep) = session_headers s"
    by (simp add: call_request_def)
  from Cons.prems r have "rq = call_request env s n a k ep \<or> Sent rq \<in> set evs"
    by (cases "http env (call_request env s n a k ep)")
       (auto simp: Let_def split: sum.splits if_splits)
  with ih h show ?case by auto
qed

lemma list_tools_aiohttp_headers:
  assumes "Sent rq \<in> set (snd (list_tools_aiohttp env s))"
  shows "rq_headers rq = session_headers s"
proof (cases "hs_session s")
  case None
  with assms show ?thesis by (simp add: list_tools_aiohttp_def)
next
  case (Some r)
  obtain v evs where d: "list_direct env s tool_endpoints = (v, evs)"
    by (cases "list_direct env s tool_endpoints") auto
  have e: "\<And>q. Sent q \<in> set evs \<Longrightarrow> rq_headers q = session_headers s"
    using list_direct_headers [of _ env s tool_endpoints] d by simp
  from assms Some d have "Sent rq \<in> set evs \<or> rq = list_rpc_request s"
    by (auto simp: list_tools_aiohttp_def split: option.splits sum.splits if_splits)
  with e show ?thesis by (auto simp: list_rpc_request_def)
qed

lemma call_tool_aiohttp_headers:
  assumes "Sent rq \<in> set (snd (call_tool_aiohttp env s n a))"
  shows "rq_headers rq = session_headers s"
proof (cases "hs_session s")
  case None
  with assms show ?thesis by (simp add: call_tool_aiohttp_def)
next
  case (Some r)
  obtain v evs where d: "call_direct env s n a 0 (call_endpoints env n) = (v, evs)"
    by (cases "call_direct env s n a 0 (call_endpoints env n)") auto
  have e: "\<And>q. Sent q \<in> set evs \<Longrightarrow> rq_headers q = session_headers s"
    using call_direct_headers [of _ env s n a 0 "call_endpoints env n"] d by simp
  from assms Some d have "Sent rq \<in> set evs \<or> rq = call_rpc_request s n a"
    by (auto simp: call_tool_aiohttp_def Let_def split: option.splits sum.splits if_splits)
  with e show ?thesis by (auto simp: call_rpc_request_def)
qed

text \<open>
  Claim C8, as amended. The probe asks \<open>/\<close>, \<open>/health\<close>, \<open>/status\<close> with GET in this order
  and stops at the first answer with a status below 500, never raising; when none is
  accepted it asks the base URL once and leaves the server as it was. The session token
  is taken from the accepted answer only when its status is 200, and then exactly when the
  \<open>mcp-session-id\<close> header (looked up without regard to case) is there and not empty: the
  header's value becomes the token, and without the header, or with an empty one, the
  server stays as it was. An answer accepted with another status leaves the server as it
  was. A server that holds a token sends it as the \<open>mcp-session-id\<close> header, and nothing
  else, with every listing and call request; a server without a token sends no header.
\<close>

theorem C8_probe_and_session_token:
  "(\<forall>resp. http env (probe_request s ''/'') = Inr resp \<and> rs_status resp < 500 \<longrightarrow>
      test_connection env s =
        (Inr (), if rs_status resp = 200 then capture_session s resp else s,
         [Sent (probe_request s ''/'')]))
   \<and> (\<forall>resp. \<not> accepted (http env (probe_request s ''/'')) \<and>
        http env (probe_request s ''/health'') = Inr resp \<and> rs_status resp < 500 \<longrightarrow>
      test_connection env s =
        (Inr (), if rs_status resp = 200 then capture_session s resp else s,
         [Sent (probe_request s ''/''), Sent (probe_request s ''/health'')]))
   \<and> (\<forall>resp. \<not> accepted (http env (probe_request s ''/'')) \<and>
        \<not> accepted (http env (probe_request s ''/health'')) \<and>
        http env (probe_request s ''/status'') = Inr resp \<and> rs_status resp < 500 \<longrightarrow>
      test_connection env s =
        (Inr (), if rs_status resp = 200 then capture_session s resp else s,
         [Sent (probe_request s ''/''), Sent (probe_request s ''/health''),
          Sent (probe_request s ''/status'')]))
   \<and> (\<not> accepted (http env (probe_request s ''/'')) \<and>
       \<not> accepted (http env (probe_request s ''/health'')) \<and>
       \<not> accepted (http env (probe_request s ''/status'')) \<longrightarrow>
      fst (test_connection env s) = Inr () \<and> fst (snd (test_connection env s)) = s \<and>
      requests (snd (snd (test_connection env s))) =
        [probe_request s ''/'', probe_request s ''/health'', probe_request s ''/status'',
         \<lparr> rq_method = GET, rq_url = BaseUrl (base_url s), rq_headers = [], rq_json = None \<rparr>])
   \<and> (\<forall>ep. probe_request s ep =
             \<lparr> rq_method = GET, rq_url = UrlJoin (base_url s) ep, rq_headers = [],
               rq_json = None \<rparr>)
   \<and> (\<forall>resp tok. headers_get (rs_headers resp) ''mcp-session-id'' = Some tok \<and> tok \<noteq> [] \<longrightarrow>
        capture_session s resp = s\<lparr>mcp_session_id := Some tok\<rparr>)
   \<and> (\<forall>resp. headers_get (rs_headers resp) ''mcp-session-id'' = None \<or>
             headers_get (rs_headers resp) ''mcp-session-id'' = Some [] \<longrightarrow>
        capture_session s resp = s)
   \<and> (\<forall>hs k. headers_get hs k = map_option snd (find (\<lambda>h. lower (fst h) = lower k) hs))
   \<and> (\<forall>tok. mcp_session_id s = Some tok \<and> tok \<noteq> [] \<longrightarrow>
        (\<forall>rq\<in>set (requests (snd (list_tools_aiohttp env s)) @
                    requests (snd (call_tool_aiohttp env s tool_name arguments))).
           rq_headers rq = [(''mcp-session-id'', tok)]))
   \<and> (mcp_session_id s = None \<or> mcp_session_id s = Some [] \<longrightarrow>
        (\<forall>rq\<in>set (requests (snd (list_tools_aiohttp env s)) @
                    requests (snd (call_tool_aiohttp env s tool_name arguments))).
           rq_headers rq = []))"
proof (intro conjI allI impI)
  fix resp
  assume "http env (probe_request s ''/'') = Inr resp \<and> rs_status resp < 500"
  then show "test_connection env s =
        (Inr (), if rs_status resp = 200 then capture_session s resp else s,
         [Sent (probe_request s ''/'')])"
    by (simp add: test_connection_def health_endpoints_def probe_accept del: probe.simps(2))
next
  fix resp
  assume "\<not> accepted (http env (probe_request s ''/'')) \<and>
        http env (probe_request s ''/health'') = Inr resp \<and> rs_status resp < 500"
  then show "test_connection env s =
        (Inr (), if rs_status resp = 200 then capture_session s resp else s,
         [Sent (probe_request s ''/''), Sent (probe_request s ''/health'')])"
    by (simp add: test_connection_def health_endpoints_def probe_accept probe_reject
        del: probe.simps(2))
next
  fix resp
  assume "\<not> accepted (http env (probe_request s ''/'')) \<and>
        \<not> accepted (http env (probe_request s ''/health'')) \<and>
        http env (probe_request s ''/status'') = Inr resp \<and> rs_status resp < 500"
  then show "test_connection env s =
        (Inr (), if rs_status resp = 200 then capture_session s resp else s,
         [Sent (probe_request s ''/''), Sent (probe_request s ''/health''),
          Sent (probe_request s ''/status'')])"
    by (simp add: test_connection_def health_endpoints_def probe_accept probe_reject
        del: probe.simps(2))
next
  assume a: "\<not> accepted (http env (probe_request s ''/'')) \<and>
       \<not> accepted (http env (probe_request s ''/health'')) \<and>
       \<not> accepted (http env (probe_request s ''/status''))"
  then have p: "probe env s health_endpoints =
       (False, s, [Sent (probe_request s ''/''), Sent (probe_request s ''/health''),
                   Sent (probe_request s ''/status'')])"
    by (simp add: health_endpoints_def probe_reject del: probe.simps(2))
  show "fst (test_connection env s) = Inr ()"
    by (simp add: test_connection_def p Let_def)
  show "fst (snd (test_connection env s)) = s"
    by (simp add: test_connection_def p Let_def)
  show "requests (snd (snd (test_connection env s))) =
        [probe_request s ''/'', probe_request s ''/health'', probe_request s ''/status'',
         \<lparr> rq_method = GET, rq_url = BaseUrl (base_url s), rq_headers = [], rq_json = None \<rparr>]"
    by (simp add: test_connection_def p Let_def split: sum.splits)
next
  fix ep
  show "probe_request s ep =
             \<lparr> rq_method = GET, rq_url = UrlJoin (base_url s) ep, rq_headers = [],
               rq_json = None \<rparr>"
    by (simp add: probe_request_def)
next
  fix resp :: http_response and tok
  assume "headers_get (rs_headers resp) ''mcp-session-id'' = Some tok \<and> tok \<noteq> []"
  then show "capture_session s resp = s\<lparr>mcp_session_id := Some tok\<rparr>"
    by (cases tok) (simp_all add: capture_session_def)
next
  fix resp :: http_response
  assume "headers_get (rs_headers resp) ''mcp-session-id'' = None \<or>
             headers_get (rs_headers resp) ''mcp-session-id'' = Some []"
  then show "capture_session s resp = s"
    by (auto simp: capture_session_def)
next
  fix hs :: "(string \<times> string) list" and k
  show "headers_get hs k = map_option snd (find (\<lambda>h. lower (fst h) = lower k) hs)"
    by (induction hs) (auto simp: headers_get_def)
next
  fix tok
  assume a: "mcp_session_id s = Some tok \<and> tok \<noteq> []"
  then have h: "session_headers s = [(''mcp-session-id'', tok)]"
    by (cases tok) (simp_all add: session_headers_def)
  show "\<forall>rq\<in>set (requests (snd (list_tools_aiohttp env s)) @
                    requests (snd (call_tool_aiohttp env s tool_name arguments))).
           rq_headers rq = [(''mcp-session-id'', tok)]"
    using h list_tools_aiohttp_headers [of _ env s]
      call_tool_aiohttp_headers [of _ env s tool_name arguments]
    by (auto simp: requests_mem)
next
  assume a: "mcp_session_id s = None \<or> mcp_session_id s = Some []"
  then have h: "session_headers s = []"
    by (auto simp: session_headers_def)
  show "\<forall>rq\<in>set (requests (snd (list_tools_aiohttp env s)) @
                    requests (snd (call_tool_aiohttp env s tool_name arguments))).
           rq_headers rq = []"
    using h list_tools_aiohttp_headers [of _ env s]
      call_tool_aiohttp_headers [of _ env s tool_name arguments]
    by (auto simp: requests_mem)
qed

lemma token_header:
  "headers_get (rs_headers (token_response code tok)) ''mcp-session-id'' = Some tok"
  by (simp add: headers_get_def token_response_def lower_def lower_char_def)

lemma calc_base: "base_url calc_server = ''http://calc''"
  by (simp add: calc_server_def)

theorem C8_probe_and_session_token_witness:
  "test_connection token404_env calc_server =
     (Inr (), calc_server, [Sent (probe_request calc_server ''/'')])
   \<and> test_connection health_env calc_server =
     (Inr (), calc_server\<lparr>mcp_session_id := Some ''tok-1''\<rparr>,
      [Sent (probe_request calc_server ''/''), Sent (probe_request calc_server ''/health'')])
   \<and> test_connection status_env calc_server =
     (Inr (), calc_server\<lparr>mcp_session_id := Some ''tok-1''\<rparr>,
      [Sent (probe_request calc_server ''/''), Sent (probe_request calc_server ''/health''),
       Sent (probe_request calc_server ''/status'')])
   \<and> map rq_headers
        (requests (snd (list_tools_aiohttp down_env (calc_server\<lparr>mcp_session_id := Some ''tok-1''\<rparr>)))) =
      [[(''mcp-session-id'', ''tok-1'')]]
   \<and> map rq_headers (requests (snd (list_tools_aiohttp down_env calc_server))) = [[]]
   \<and> capture_session calc_server not_found = calc_server
   \<and> fst (snd (test_connection rpc_env (calc_server\<lparr>base_url := ''http://other''\<rparr>))) =
        calc_server\<lparr>base_url := ''http://other''\<rparr>
   \<and> fst (snd (test_connection down_env calc_server)) = calc_server
   \<and> map rq_url (requests (snd (snd (test_connection down_env calc_server)))) =
        [UrlJoin ''http://calc'' ''/'', UrlJoin ''http://calc'' ''/health'',
         UrlJoin ''http://calc'' ''/status'', BaseUrl ''http://calc'']"
proof -
  let ?s = "calc_server\<lparr>mcp_session_id := Some ''tok-1''\<rparr>"
  let ?o = "calc_server\<lparr>base_url := ''http://other''\<rparr>"
  note t0 = C8_probe_and_session_token [of down_env calc_server "PStr ''add''" "[]"]
  note t6 = C8_probe_and_session_token [of rpc_env ?o "PStr ''add''" "[]"]
  have hc: "headers_get (rs_headers (token_response 200 ''tok-1'')) ''mcp-session-id'' = Some ''tok-1'' \<and>
            ''tok-1'' \<noteq> []"
    by (simp add: token_header)
  from t0 hc have cap: "capture_session calc_server (token_response 200 ''tok-1'') = ?s"
    by blast
  have hn: "headers_get (rs_headers not_found) ''mcp-session-id'' = None \<or>
            headers_get (rs_headers not_found) ''mcp-session-id'' = Some []"
    by (simp add: headers_get_def not_found_def)
  from t0 hn have c6: "capture_session calc_server not_found = calc_server"
    by blast
  have h7: "http rpc_env (probe_request ?o ''/'') = Inr not_found \<and> rs_status not_found < 500"
    by (simp add: rpc_env_def down_env_def not_found_def probe_request_def)
  from t6 h7 have "test_connection rpc_env ?o =
        (Inr (), if rs_status not_found = 200 then capture_session ?o not_found else ?o,
         [Sent (probe_request ?o ''/'')])"
    by blast
  then have c7: "fst (snd (test_connection rpc_env ?o)) = ?o"
    by (simp add: not_found_def)
  have h8: "\<not> accepted (http down_env (probe_request calc_server ''/'')) \<and>
            \<not> accepted (http down_env (probe_request calc_server ''/health'')) \<and>
            \<not> accepted (http down_env (probe_request calc_server ''/status''))"
    by (simp add: down_env_def accepted_def probe_request_def calc_base)
  from t0 h8 have c8: "fst (snd (test_connection down_env calc_server)) = calc_server"
    and "requests (snd (snd (test_connection down_env calc_server))) =
        [probe_request calc_server ''/'', probe_request calc_server ''/health'',
         probe_request calc_server ''/status'',
         \<lparr> rq_method = GET, rq_url = BaseUrl (base_url calc_server), rq_headers = [],
           rq_json = None \<rparr>]"
    by blast+
  then have c9: "map rq_url (requests (snd (snd (test_connection down_env calc_server)))) =
        [UrlJoin ''http://calc'' ''/'', UrlJoin ''http://calc'' ''/health'',
         UrlJoin ''http://calc'' ''/status'', BaseUrl ''http://calc'']"
    by (simp add: probe_request_def calc_base)
  have h10: "mcp_session_id calc_server = None \<or> mcp_session_id calc_server = Some []"
    by (simp add: calc_server_def)
  have rq0: "requests (snd (list_tools_aiohttp down_env calc_server)) = [list_request calc_server ''/tools'']"
    by (simp add: list_tools_aiohttp_def calc_server_def tool_endpoints_def list_request_def
        session_headers_def down_env_def parse_listing_def)
  from t0 h10 have "\<forall>rq\<in>set (requests (snd (list_tools_aiohttp down_env calc_server)) @
                    requests (snd (call_tool_aiohttp down_env calc_server (PStr ''add'') []))).
           rq_headers rq = []"
    by blast
  then have c10: "map rq_headers (requests (snd (list_tools_aiohttp down_env calc_server))) = [[]]"
    unfolding rq0 by simp
  have h1: "http token404_env (probe_request calc_server ''/'') = Inr (token_response 404 ''abc'') \<and>
            rs_status (token_response 404 ''abc'') < 500"
    by (simp add: token404_env_def down_env_def token_response_def)
  have h2: "\<not> accepted (http health_env (probe_request calc_server ''/'')) \<and>
            http health_env (probe_request calc_server ''/health'') = Inr (token_response 200 ''tok-1'') \<and>
            rs_status (token_response 200 ''tok-1'') < 500"
    by (simp add: health_env_def down_env_def token_response_def accepted_def probe_request_def calc_base)
  have h3: "\<not> accepted (http status_env (probe_request calc_server ''/'')) \<and>
            \<not> accepted (http status_env (probe_request calc_server ''/health'')) \<and>
            http status_env (probe_request calc_server ''/status'') = Inr (token_response 200 ''tok-1'') \<and>
            rs_status (token_response 200 ''tok-1'') < 500"
    by (simp add: status_env_def down_env_def token_response_def accepted_def probe_request_def calc_base)
  have s2: "rs_status (token_response 200 ''tok-1'') = 200" "rs_status (token_response 404 ''abc'') \<noteq> 200"
    by (simp_all add: token_response_def)
  have h5: "mcp_session_id ?s = Some ''tok-1'' \<and> ''tok-1'' \<noteq> []" by simp
  have rq: "requests (snd (list_tools_aiohttp down_env ?s)) = [list_request ?s ''/tools'']"
    by (simp add: list_tools_aiohttp_def calc_server_def tool_endpoints_def list_request_def
        session_headers_def down_env_def parse_listing_def)
  note t1 = C8_probe_and_session_token [of token404_env calc_server "PStr ''add''" "[]"]
  note t2 = C8_probe_and_session_token [of health_env calc_server "PStr ''add''" "[]"]
  note t3 = C8_probe_and_session_token [of status_env calc_server "PStr ''add''" "[]"]
  note t5 = C8_probe_and_session_token [of down_env ?s "PStr ''add''" "[]"]
  from t1 h1 have c1: "test_connection token404_env calc_server =
        (Inr (), if rs_status (token_response 404 ''abc'') = 200
                 then capture_session calc_server (token_response 404 ''abc'') else calc_server,
         [Sent (probe_request calc_server ''/'')])"
    by blast
  from t2 h2 have c2: "test_connection health_env calc_server =
        (Inr (), if rs_status (token_response 200 ''tok-1'') = 200
                 then capture_session calc_server (token_response 200 ''tok-1'') else calc_server,
         [Sent (probe_request calc_server ''/''), Sent (probe_request calc_server ''/health'')])"
    by blast
  from t3 h3 have c3: "test_connection status_env calc_server =
        (Inr (), if rs_status (token_response 200 ''tok-1'') = 200
                 then capture_session calc_server (token_response 200 ''tok-1'') else calc_server,
         [Sent (probe_request calc_server ''/''), Sent (probe_request calc_server ''/health''),
          Sent (probe_request calc_server ''/status'')])"
    by blast
  from t5 h5 have "\<forall>rq\<in>set (requests (snd (list_tools_aiohttp down_env ?s)) @
                    requests (snd (call_tool_aiohttp down_env ?s (PStr ''add'') []))).
           rq_headers rq = [(''mcp-session-id'', ''tok-1'')]"
    by blast
  then have c5: "map rq_headers (requests (snd (list_tools_aiohttp down_env ?s))) =
      [[(''mcp-session-id'', ''tok-1'')]]"
    unfolding rq by simp
  from c1 c2 c3 c5 c6 c7 c8 c9 c10 show ?thesis by (simp add: s2 cap)
qed

text \<open>
  The claim as stated fails: the server \<open>calc\<close> answers every request with 404 and the
  header \<open>Mcp-Session-Id: abc\<close>. The probe accepts the first answer, no token is kept, and
  the four requests of the following listing carry no header.
\<close>

theorem C8_counterexample:
  "HttpMCPServer_init ''calc'' calc_config = Inr fresh_calc
   \<and> HttpMCPServer_initialize token404_env fresh_calc =
       (Inr (), calc_server,
        [InitializeCalled ''calc'', Entered (AiohttpSession ''calc''),
         Sent (probe_request fresh_calc ''/'')])
   \<and> (\<exists>resp. http token404_env (probe_request fresh_calc ''/'') = Inr resp \<and> rs_status resp < 500 \<and>
         headers_get (rs_headers resp) ''mcp-session-id'' = Some ''abc'')
   \<and> mcp_session_id calc_server = None
   \<and> map rq_headers (requests (snd (list_tools token404_env calc_server))) = [[], [], [], []]"
proof -
  have a: "HttpMCPServer_init ''calc'' calc_config = Inr fresh_calc"
    by (simp add: HttpMCPServer_init_def HttpServerConfig_validate_def calc_config_def no_config_def
        fresh_calc_def calc_server_def rstrip_slash_def)
  have b: "HttpMCPServer_initialize token404_env fresh_calc =
       (Inr (), calc_server,
        [InitializeCalled ''calc'', Entered (AiohttpSession ''calc''),
         Sent (probe_request fresh_calc ''/'')])"
    by (simp add: HttpMCPServer_initialize_def fresh_calc_def calc_server_def lower_def lower_char_def
        initialize_aiohttp_def token404_env_def down_env_def test_connection_def health_endpoints_def
        token_response_def probe_request_def default_headers_def Let_def)
  have c: "\<exists>resp. http token404_env (probe_request fresh_calc ''/'') = Inr resp \<and> rs_status resp < 500 \<and>
         headers_get (rs_headers resp) ''mcp-session-id'' = Some ''abc''"
    using token_header [of 404 "''abc''"]
    by (simp add: token404_env_def down_env_def) (simp add: token_response_def)
  have d: "mcp_session_id calc_server = None" by (simp add: calc_server_def)
  have e: "map rq_headers (requests (snd (list_tools token404_env calc_server))) = [[], [], [], []]"
    by (simp add: list_tools_def list_tools_aiohttp_def calc_server_def tool_endpoints_def
        list_request_def list_rpc_request_def session_headers_def token404_env_def down_env_def
        token_response_def)
  from a b c d e show ?thesis by blast
qed

section \<open>Studios: cleanup of the fleet\<close>

lemma cleanup_calls_append [simp]:
  "cleanup_calls (xs @ ys) = cleanup_calls xs @ cleanup_calls ys"
  by (induction xs rule: cleanup_calls.induct) simp_all

lemma released_append [simp]: "released (xs @ ys) = released xs @ released ys"
  by (induction xs rule: released.induct) simp_all

lemma initialize_calls_append [simp]:
  "initialize_calls (xs @ ys) = initialize_calls xs @ initialize_calls ys"
  by (induction xs rule: initialize_calls.induct) simp_all

lemma aclose_events: "fst (aclose ex st) = map Released st"
  by (induction st) (auto split: prod.splits)

lemma released_map [simp]: "released (map Released st) = st"
  by (induction st) simp_all

lemma cleanup_calls_released [simp]: "cleanup_calls (map Released st) = []"
  by (induction st) simp_all

lemma initialize_calls_released [simp]: "initialize_calls (map Released st) = []"
  by (induction st) simp_all

lemma MCPServer_cleanup_eq:
  "MCPServer_cleanup ex s =
     (Inr (),
      (case snd (aclose ex (ms_exit_stack s)) of
         None \<Rightarrow> s\<lparr>ms_exit_stack := [], ms_session := None\<rparr>
       | Some e \<Rightarrow> s\<lparr>ms_exit_stack := []\<rparr>),
      CleanupCalled (ms_name s) # map Released (ms_exit_stack s) @
        (case snd (aclose ex (ms_exit_stack s)) of
           None \<Rightarrow> []
         | Some e \<Rightarrow> [Logged ERROR (''Error during cleanup of server '' @ ms_name s @ '': '' @ str_of e)]))"
  using aclose_events [of ex "ms_exit_stack s"]
  by (cases "aclose ex (ms_exit_stack s)") (auto simp: MCPServer_cleanup_def split: option.splits)

lemma MCPServer_cleanup_facts:
  "fst (MCPServer_cleanup ex s) = Inr ()"
  "ms_name (fst (snd (MCPServer_cleanup ex s))) = ms_name s"
  "ms_exit_stack (fst (snd (MCPServer_cleanup ex s))) = []"
  "cleanup_calls (snd (snd (MCPServer_cleanup ex s))) = [ms_name s]"
  "released (snd (snd (MCPServer_cleanup ex s))) = ms_exit_stack s"
  "initialize_calls (snd (snd (MCPServer_cleanup ex s))) = []"
  by (simp_all add: MCPServer_cleanup_eq split: option.splits)

lemma MCP_cleanup_loop_facts:
  "map ms_name (fst (MCP_cleanup_loop ex ss)) = map ms_name ss \<and>
   (\<forall>s'\<in>set (fst (MCP_cleanup_loop ex ss)). ms_exit_stack s' = []) \<and>
   cleanup_calls (snd (MCP_cleanup_loop ex ss)) = map ms_name ss \<and>
   released (snd (MCP_cleanup_loop ex ss)) = concat (map ms_exit_stack ss) \<and>
   initialize_calls (snd (MCP_cleanup_loop ex ss)) = []"
proof (induction ss)
  case Nil
  show ?case by simp
next
  case (Cons s ss)
  obtain r s' evs where c: "MCPServer_cleanup ex s = (r, s', evs)"
    by (cases "MCPServer_cleanup ex s") auto
  obtain ss' evs' where l: "MCP_cleanup_loop ex ss = (ss', evs')"
    by (cases "MCP_cleanup_loop ex ss") auto
  from MCPServer_cleanup_facts [of ex s] c
  have f: "r = Inr ()" "ms_name s' = ms_name s" "ms_exit_stack s' = []"
    "cleanup_calls evs = [ms_name s]" "released evs = ms_exit_stack s" "initialize_calls evs = []"
    by simp_all
  from Cons.IH l f show ?case by (simp add: c)
qed

lemma MCP_cleanup_loop_logs:
  "s \<in> set ss \<Longrightarrow> ev \<in> set (snd (snd (MCPServer_cleanup ex s))) \<Longrightarrow>
     ev \<in> set (snd (MCP_cleanup_loop ex ss))"
proof (induction ss)
  case Nil
  then show ?case by simp
next
  case (Cons a ss)
  then show ?case by (auto split: prod.splits)
qed

lemma MCP_cleanup_all_facts:
  "fst (MCPStudio_cleanup_all_servers ex servers) = Inr ()"
  "map ms_name (fst (snd (MCPStudio_cleanup_all_servers ex servers))) = map ms_name servers"
  "\<forall>s'\<in>set (fst (snd (MCPStudio_cleanup_all_servers ex servers))). ms_exit_stack s' = []"
  "cleanup_calls (snd (snd (MCPStudio_cleanup_all_servers ex servers))) = rev (map ms_name servers)"
  "released (snd (snd (MCPStudio_cleanup_all_servers ex servers))) =
     concat (map ms_exit_stack (rev servers))"
  "initialize_calls (snd (snd (MCPStudio_cleanup_all_servers ex servers))) = []"
proof -
  obtain ss evs where l: "MCP_cleanup_loop ex (rev servers) = (ss, evs)"
    by (cases "MCP_cleanup_loop ex (rev servers)") auto
  then have a: "MCPStudio_cleanup_all_servers ex servers = (Inr (), rev ss, evs)"
    by (simp add: MCPStudio_cleanup_all_servers_def)
  from MCP_cleanup_loop_facts [of ex "rev servers"] l
  have f: "map ms_name ss = map ms_name (rev servers)" "\<forall>s'\<in>set ss. ms_exit_stack s' = []"
    "cleanup_calls evs = map ms_name (rev servers)"
    "released evs = concat (map ms_exit_stack (rev servers))" "initialize_calls evs = []"
    by simp_all
  from f(1) have "rev (map ms_name ss) = rev (map ms_name (rev servers))" by simp
  then have n: "map ms_name (rev ss) = map ms_name servers" by (simp add: rev_map)
  show "fst (MCPStudio_cleanup_all_servers ex servers) = Inr ()" by (simp add: a)
  show "map ms_name (fst (snd (MCPStudio_cleanup_all_servers ex servers))) = map ms_name servers"
    by (simp add: a n)
  show "\<forall>s'\<in>set (fst (snd (MCPStudio_cleanup_all_servers ex servers))). ms_exit_stack s' = []"
    using f(2) by (simp add: a)
  show "cleanup_calls (snd (snd (MCPStudio_cleanup_all_servers ex servers))) = rev (map ms_name servers)"
    using f(3) by (simp add: a rev_map)
  show "released (snd (snd (MCPStudio_cleanup_all_servers ex servers))) =
     concat (map ms_exit_stack (rev servers))"
    using f(4) by (simp add: a)
  show "initialize_calls (snd (snd (MCPStudio_cleanup_all_servers ex servers))) = []"
    using f(5) by (simp add: a)
qed

lemma concat_empty_stacks: "\<forall>s\<in>set ss. f s = [] \<Longrightarrow> concat (map f ss) = []"
  by (induction ss) simp_all

lemma HttpMCPServer_cleanup_facts:
  "fst (HttpMCPServer_cleanup ex s) = Inr ()"
  "hs_name (fst (snd (HttpMCPServer_cleanup ex s))) = hs_name s"
  "cleanup_calls (snd (snd (HttpMCPServer_cleanup ex s))) = [hs_name s]"
  "released (snd (snd (HttpMCPServer_cleanup ex s))) =
     (if hs_session s = None then [] else hs_exit_stack s)"
  "initialize_calls (snd (snd (HttpMCPServer_cleanup ex s))) = []"
  "hs_session (fst (snd (HttpMCPServer_cleanup ex s))) = None \<or>
   hs_exit_stack (fst (snd (HttpMCPServer_cleanup ex s))) = []"
  using aclose_events [of ex "hs_exit_stack s"]
  by (cases "aclose ex (hs_exit_stack s)";
      auto simp: HttpMCPServer_cleanup_def Let_def split: option.splits)+

lemma Http_cleanup_loop_facts:
  "map hs_name (fst (Http_cleanup_loop ex ss)) = map hs_name ss \<and>
   (\<forall>s'\<in>set (fst (Http_cleanup_loop ex ss)). hs_held s' = []) \<and>
   cleanup_calls (snd (Http_cleanup_loop ex ss)) = map hs_name ss \<and>
   released (snd (Http_cleanup_loop ex ss)) = concat (map hs_held ss) \<and>
   initialize_calls (snd (Http_cleanup_loop ex ss)) = []"
proof (induction ss)
  case Nil
  show ?case by simp
next
  case (Cons s ss)
  obtain r s' evs where c: "HttpMCPServer_cleanup ex s = (r, s', evs)"
    by (cases "HttpMCPServer_cleanup ex s") auto
  obtain ss' evs' where l: "Http_cleanup_loop ex ss = (ss', evs')"
    by (cases "Http_cleanup_loop ex ss") auto
  from HttpMCPServer_cleanup_facts [of ex s] c
  have f: "r = Inr ()" "hs_name s' = hs_name s" "hs_held s' = []"
    "cleanup_calls evs = [hs_name s]" "released evs = hs_held s" "initialize_calls evs = []"
    by (auto simp: hs_held_def)
  from Cons.IH l f show ?case by (simp add: c)
qed

lemma Http_cleanup_loop_logs:
  "s \<in> set ss \<Longrightarrow> ev \<in> set (snd (snd (HttpMCPServer_cleanup ex s))) \<Longrightarrow>
     ev \<in> set (snd (Http_cleanup_loop ex ss))"
proof (induction ss)
  case Nil
  then show ?case by simp
next
  case (Cons a ss)
  then show ?case by (auto split: prod.splits)
qed

lemma Http_cleanup_all_facts:
  "fst (HttpMCPStudio_cleanup_all_servers ex servers) = Inr ()"
  "map hs_name (fst (snd (HttpMCPStudio_cleanup_all_servers ex servers))) = map hs_name servers"
  "\<forall>s'\<in>set (fst (snd (HttpMCPStudio_cleanup_all_servers ex servers))). hs_held s' = []"
  "cleanup_calls (snd (snd (HttpMCPStudio_cleanup_all_servers ex servers))) = rev (map hs_name servers)"
  "released (snd (snd (HttpMCPStudio_cleanup_all_servers ex servers))) =
     concat (map hs_held (rev servers))"
  "initialize_calls (snd (snd (HttpMCPStudio_cleanup_all_servers ex servers))) = []"
proof -
  obtain ss evs where l: "Http_cleanup_loop ex (rev servers) = (ss, evs)"
    by (cases "Http_cleanup_loop ex (rev servers)") auto
  then have a: "HttpMCPStudio_cleanup_all_servers ex servers = (Inr (), rev ss, evs)"
    by (simp add: HttpMCPStudio_cleanup_all_servers_def)
  from Http_cleanup_loop_facts [of ex "rev servers"] l
  have f: "map hs_name ss = map hs_name (rev servers)" "\<forall>s'\<in>set ss. hs_held s' = []"
    "cleanup_calls evs = map hs_name (rev servers)"
    "released evs = concat (map hs_held (rev servers))" "initialize_calls evs = []"
    by simp_all
  from f(1) have "rev (map hs_name ss) = rev (map hs_name (rev servers))" by simp
  then have n: "map hs_name (rev ss) = map hs_name servers" by (simp add: rev_map)
  show "fst (HttpMCPStudio_cleanup_all_servers ex servers) = Inr ()" by (simp add: a)
  show "map hs_name (fst (snd (HttpMCPStudio_cleanup_all_servers ex servers))) = map hs_name servers"
    by (simp add: a n)
  show "\<forall>s'\<in>set (fst (snd (HttpMCPStudio_cleanup_all_servers ex servers))). hs_held s' = []"
    using f(2) by (simp add: a)
  show "cleanup_calls (snd (snd (HttpMCPStudio_cleanup_all_servers ex servers))) = rev (map hs_name servers)"
    using f(3) by (simp add: a rev_map)
  show "released (snd (snd (HttpMCPStudio_cleanup_all_servers ex servers))) =
     concat (map hs_held (rev servers))"
    using f(4) by (simp add: a)
  show "initialize_calls (snd (snd (HttpMCPStudio_cleanup_all_servers ex servers))) = []"
    using f(5) by (simp add: a)
qed

lemma MCP_cleanup_all_events:
  "snd (snd (MCPStudio_cleanup_all_servers ex servers)) = snd (MCP_cleanup_loop ex (rev servers))"
  by (cases "MCP_cleanup_loop ex (rev servers)") (simp add: MCPStudio_cleanup_all_servers_def)

lemma Http_cleanup_all_events:
  "snd (snd (HttpMCPStudio_cleanup_all_servers ex servers)) = snd (Http_cleanup_loop ex (rev servers))"
  by (cases "Http_cleanup_loop ex (rev servers)") (simp add: HttpMCPStudio_cleanup_all_servers_def)

text \<open>
  Claim C9. For both studios and every list of servers, whatever leaving a context does:
  \<open>cleanup_all_servers\<close> returns without raising, it calls \<open>cleanup\<close> on the servers in
  exactly the reverse of the registration order, and a server whose cleanup fails has the
  failure logged while the loop goes on. It leaves every context the servers hold once (for
  a network server, when it has a session). A second \<open>cleanup_all_servers\<close> right after the
  first returns without raising, visits the same servers in the same order, and leaves no
  context again.
\<close>

theorem C9_cleanup_all:
  "fst (MCPStudio_cleanup_all_servers ex servers) = Inr ()
   \<and> cleanup_calls (snd (snd (MCPStudio_cleanup_all_servers ex servers))) = rev (map ms_name servers)
   \<and> released (snd (snd (MCPStudio_cleanup_all_servers ex servers))) =
       concat (map ms_exit_stack (rev servers))
   \<and> (\<forall>s\<in>set servers. \<forall>e. snd (aclose ex (ms_exit_stack s)) = Some e \<longrightarrow>
         Logged ERROR (''Error during cleanup of server '' @ ms_name s @ '': '' @ str_of e)
           \<in> set (snd (snd (MCPStudio_cleanup_all_servers ex servers))))
   \<and> fst (MCPStudio_cleanup_all_servers ex (fst (snd (MCPStudio_cleanup_all_servers ex servers)))) = Inr ()
   \<and> cleanup_calls (snd (snd (MCPStudio_cleanup_all_servers ex
        (fst (snd (MCPStudio_cleanup_all_servers ex servers)))))) = rev (map ms_name servers)
   \<and> released (snd (snd (MCPStudio_cleanup_all_servers ex
        (fst (snd (MCPStudio_cleanup_all_servers ex servers)))))) = []
   \<and> fst (HttpMCPStudio_cleanup_all_servers ex hservers) = Inr ()
   \<and> cleanup_calls (snd (snd (HttpMCPStudio_cleanup_all_servers ex hservers))) =
       rev (map hs_name hservers)
   \<and> released (snd (snd (HttpMCPStudio_cleanup_all_servers ex hservers))) =
       concat (map (\<lambda>s. if hs_session s = None then [] else hs_exit_stack s) (rev hservers))
   \<and> (\<forall>s\<in>set hservers. \<forall>e. hs_session s \<noteq> None \<and> snd (aclose ex (hs_exit_stack s)) = Some e \<longrightarrow>
         Logged ERROR (''Error during cleanup of '' @ hs_name s @ '': '' @ str_of e)
           \<in> set (snd (snd (HttpMCPStudio_cleanup_all_servers ex hservers))))
   \<and> fst (HttpMCPStudio_cleanup_all_servers ex
            (fst (snd (HttpMCPStudio_cleanup_all_servers ex hservers)))) = Inr ()
   \<and> cleanup_calls (snd (snd (HttpMCPStudio_cleanup_all_servers ex
        (fst (snd (HttpMCPStudio_cleanup_all_servers ex hservers)))))) = rev (map hs_name hservers)
   \<and> released (snd (snd (HttpMCPStudio_cleanup_all_servers ex
        (fst (snd (HttpMCPStudio_cleanup_all_servers ex hservers)))))) = []"
proof -
  let ?m1 = "fst (snd (MCPStudio_cleanup_all_servers ex servers))"
  let ?h1 = "fst (snd (HttpMCPStudio_cleanup_all_servers ex hservers))"
  note m = MCP_cleanup_all_facts [of ex servers]
  note m2 = MCP_cleanup_all_facts [of ex ?m1]
  note h = Http_cleanup_all_facts [of ex hservers]
  note h2 = Http_cleanup_all_facts [of ex ?h1]
  have mlog: "\<forall>s\<in>set servers. \<forall>e. snd (aclose ex (ms_exit_stack s)) = Some e \<longrightarrow>
         Logged ERROR (''Error during cleanup of server '' @ ms_name s @ '': '' @ str_of e)
           \<in> set (snd (snd (MCPStudio_cleanup_all_servers ex servers)))"
  proof (intro ballI allI impI)
    fix s e
    assume s: "s \<in> set servers" and e: "snd (aclose ex (ms_exit_stack s)) = Some e"
    from e have "Logged ERROR (''Error during cleanup of server '' @ ms_name s @ '': '' @ str_of e)
        \<in> set (snd (snd (MCPServer_cleanup ex s)))"
      by (simp add: MCPServer_cleanup_eq)
    with s have "Logged ERROR (''Error during cleanup of server '' @ ms_name s @ '': '' @ str_of e)
        \<in> set (snd (MCP_cleanup_loop ex (rev servers)))"
      by (intro MCP_cleanup_loop_logs [of s]) simp_all
    then show "Logged ERROR (''Error during cleanup of server '' @ ms_name s @ '': '' @ str_of e)
           \<in> set (snd (snd (MCPStudio_cleanup_all_servers ex servers)))"
      by (simp only: MCP_cleanup_all_events)
  qed
  have hlog: "\<forall>s\<in>set hservers. \<forall>e. hs_session s \<noteq> None \<and> snd (aclose ex (hs_exit_stack s)) = Some e \<longrightarrow>
         Logged ERROR (''Error during cleanup of '' @ hs_name s @ '': '' @ str_of e)
           \<in> set (snd (snd (HttpMCPStudio_cleanup_all_servers ex hservers)))"
  proof (intro ballI allI impI)
    fix s e
    assume s: "s \<in> set hservers"
      and e: "hs_session s \<noteq> None \<and> snd (aclose ex (hs_exit_stack s)) = Some e"
    from e have "Logged ERROR (''Error during cleanup of '' @ hs_name s @ '': '' @ str_of e)
        \<in> set (snd (snd (HttpMCPServer_cleanup ex s)))"
      by (cases "aclose ex (hs_exit_stack s)") (auto simp: HttpMCPServer_cleanup_def Let_def)
    with s have "Logged ERROR (''Error during cleanup of '' @ hs_name s @ '': '' @ str_of e)
        \<in> set (snd (Http_cleanup_loop ex (rev hservers)))"
      by (intro Http_cleanup_loop_logs [of s]) simp_all
    then show "Logged ERROR (''Error during cleanup of '' @ hs_name s @ '': '' @ str_of e)
           \<in> set (snd (snd (HttpMCPStudio_cleanup_all_servers ex hservers)))"
      by (simp only: Http_cleanup_all_events)
  qed
  have mr: "released (snd (snd (MCPStudio_cleanup_all_servers ex ?m1))) = []"
    using m(3) by (simp add: m2(5) concat_empty_stacks)
  have hr: "released (snd (snd (HttpMCPStudio_cleanup_all_servers ex ?h1))) = []"
    using h(3) by (simp add: h2(5) concat_empty_stacks)
  have mc: "cleanup_calls (snd (snd (MCPStudio_cleanup_all_servers ex ?m1))) = rev (map ms_name servers)"
    by (simp add: m2(4) m(2))
  have hc: "cleanup_calls (snd (snd (HttpMCPStudio_cleanup_all_servers ex ?h1))) = rev (map hs_name hservers)"
    by (simp add: h2(4) h(2))
  have hrel: "released (snd (snd (HttpMCPStudio_cleanup_all_servers ex hservers))) =
       concat (map (\<lambda>s. if hs_session s = None then [] else hs_exit_stack s) (rev hservers))"
    using h(5) by (simp add: hs_held_def [abs_def])
  from m(1) m(4) m(5) mlog m2(1) mc mr h(1) h(4) hrel hlog h2(1) hc hr
  show ?thesis by blast
qed

lemma files_aclose:
  "snd (aclose raising_exit (ms_exit_stack files_server)) = Some (OtherError ''broken pipe'')"
  by (simp add: files_server_def raising_exit_def)

lemma calc_aclose:
  "hs_session calc_server \<noteq> None \<and>
   snd (aclose raising_exit (hs_exit_stack calc_server)) = Some (OtherError ''broken pipe'')"
  by (simp add: calc_server_def raising_exit_def)

theorem C9_cleanup_all_witness:
  "cleanup_calls (snd (snd (MCPStudio_cleanup_all_servers raising_exit [files_server, mail_server]))) =
     [''mail'', ''files'']
   \<and> released (snd (snd (MCPStudio_cleanup_all_servers raising_exit [files_server, mail_server]))) =
     [ClientSession ''mail'', StdioClient ''mail'', ClientSession ''files'', StdioClient ''files'']
   \<and> Logged ERROR ''Error during cleanup of server files: broken pipe''
       \<in> set (snd (snd (MCPStudio_cleanup_all_servers raising_exit [files_server, mail_server])))
   \<and> released (snd (snd (MCPStudio_cleanup_all_servers raising_exit
        (fst (snd (MCPStudio_cleanup_all_servers raising_exit [files_server, mail_server])))))) = []
   \<and> cleanup_calls (snd (snd (HttpMCPStudio_cleanup_all_servers raising_exit [calc_server, docs_server]))) =
     [''docs'', ''calc'']
   \<and> released (snd (snd (HttpMCPStudio_cleanup_all_servers raising_exit [calc_server, docs_server]))) =
     [AiohttpSession ''calc'']
   \<and> Logged ERROR ''Error during cleanup of calc: broken pipe''
       \<in> set (snd (snd (HttpMCPStudio_cleanup_all_servers raising_exit [calc_server, docs_server])))
   \<and> released (snd (snd (HttpMCPStudio_cleanup_all_servers raising_exit
        (fst (snd (HttpMCPStudio_cleanup_all_servers raising_exit [calc_server, docs_server])))))) = []"
proof -
  note t = C9_cleanup_all [of raising_exit "[files_server, mail_server]" "[calc_server, docs_server]"]
  from t have c1: "cleanup_calls (snd (snd (MCPStudio_cleanup_all_servers raising_exit
        [files_server, mail_server]))) = rev (map ms_name [files_server, mail_server])"
    by blast
  from t have c2: "released (snd (snd (MCPStudio_cleanup_all_servers raising_exit
        [files_server, mail_server]))) = concat (map ms_exit_stack (rev [files_server, mail_server]))"
    by blast
  from t have "\<forall>s\<in>set [files_server, mail_server]. \<forall>e.
         snd (aclose raising_exit (ms_exit_stack s)) = Some e \<longrightarrow>
         Logged ERROR (''Error during cleanup of server '' @ ms_name s @ '': '' @ str_of e)
           \<in> set (snd (snd (MCPStudio_cleanup_all_servers raising_exit [files_server, mail_server])))"
    by blast
  with files_aclose have c3: "Logged ERROR (''Error during cleanup of server '' @ ms_name files_server @
         '': '' @ str_of (OtherError ''broken pipe''))
       \<in> set (snd (snd (MCPStudio_cleanup_all_servers raising_exit [files_server, mail_server])))"
    by simp
  from t have c4: "released (snd (snd (MCPStudio_cleanup_all_servers raising_exit
        (fst (snd (MCPStudio_cleanup_all_servers raising_exit [files_server, mail_server])))))) = []"
    by blast
  from t have c5: "cleanup_calls (snd (snd (HttpMCPStudio_cleanup_all_servers raising_exit
        [calc_server, docs_server]))) = rev (map hs_name [calc_server, docs_server])"
    by blast
  from t have c6: "released (snd (snd (HttpMCPStudio_cleanup_all_servers raising_exit
        [calc_server, docs_server]))) =
       concat (map (\<lambda>s. if hs_session s = None then [] else hs_exit_stack s)
                 (rev [calc_server, docs_server]))"
    by blast
  from t have "\<forall>s\<in>set [calc_server, docs_server]. \<forall>e.
         hs_session s \<noteq> None \<and> snd (aclose raising_exit (hs_exit_stack s)) = Some e \<longrightarrow>
         Logged ERROR (''Error during cleanup of '' @ hs_name s @ '': '' @ str_of e)
           \<in> set (snd (snd (HttpMCPStudio_cleanup_all_servers raising_exit [calc_server, docs_server])))"
    by blast
  with calc_aclose have c7: "Logged ERROR (''Error during cleanup of '' @ hs_name calc_server @
         '': '' @ str_of (OtherError ''broken pipe''))
       \<in> set (snd (snd (HttpMCPStudio_cleanup_all_servers raising_exit [calc_server, docs_server])))"
    by simp
  from t have c8: "released (snd (snd (HttpMCPStudio_cleanup_all_servers raising_exit
        (fst (snd (HttpMCPStudio_cleanup_all_servers raising_exit [calc_server, docs_server])))))) = []"
    by blast
  have n: "ms_name files_server = ''files''" "ms_name mail_server = ''mail''"
    "hs_name calc_server = ''calc''" "hs_name docs_server = ''docs''"
    "ms_exit_stack files_server = [ClientSession ''files'', StdioClient ''files'']"
    "ms_exit_stack mail_server = [ClientSession ''mail'', StdioClient ''mail'']"
    "hs_session calc_server \<noteq> None" "hs_exit_stack calc_server = [AiohttpSession ''calc'']"
    "hs_session docs_server = None"
    by (simp_all add: files_server_def mail_server_def calc_server_def docs_server_def)
  from c1 c2 c3 c4 c5 c6 c7 c8 show ?thesis by (simp add: n)
qed

section \<open>Studios: bringing up the fleet\<close>
























end
